theory Spec2Isabelle
  imports Complex_Main
begin

section \<open>Strings of the JavaScript source\<close>

text \<open>
  The strings that the handlers see are well-formed Unicode text: the upload is decoded
  with \<^verbatim>\<open>fs.readFileSync(filePath, 'utf-8')\<close>. A string is kept as the list of the bytes of
  its UTF-8 encoding, so that an ASCII character is one \<^typ>\<open>char\<close> and any other
  character two to four. Between well-formed strings, containment of the byte sequences
  is containment of the code units that \<^verbatim>\<open>String.prototype.includes\<close> compares.
\<close>

fun startsWith :: "string \<Rightarrow> string \<Rightarrow> bool" where
  "startsWith s [] = True"
| "startsWith [] (c # t) = False"
| "startsWith (d # s) (c # t) = (d = c \<and> startsWith s t)"

text \<open>\<^verbatim>\<open>s.includes(t)\<close>: \<open>t\<close> occurs in \<open>s\<close> as a contiguous substring.\<close>

fun str_includes :: "string \<Rightarrow> string \<Rightarrow> bool" where
  "str_includes [] t = (t = [])"
| "str_includes (d # s) t = (startsWith (d # s) t \<or> str_includes s t)"

text \<open>
  The characters that \<^verbatim>\<open>String.prototype.trim\<close> strips, each by its encoding: the
  ECMAScript white space (U+0009, U+000B, U+000C, U+0020, U+00A0, U+FEFF and the other
  space separators U+1680, U+2000 to U+200A, U+202F, U+205F, U+3000) and the line
  terminators (U+000A, U+000D, U+2028, U+2029).
\<close>

definition whiteSpace :: "string list" where
  "whiteSpace =
     [[CHR 0x09], [CHR 0x0A], [CHR 0x0B], [CHR 0x0C], [CHR 0x0D], [CHR 0x20],
      [CHR 0xC2, CHR 0xA0],
      [CHR 0xE1, CHR 0x9A, CHR 0x80],
      [CHR 0xE2, CHR 0x80, CHR 0x80], [CHR 0xE2, CHR 0x80, CHR 0x81],
      [CHR 0xE2, CHR 0x80, CHR 0x82], [CHR 0xE2, CHR 0x80, CHR 0x83],
      [CHR 0xE2, CHR 0x80, CHR 0x84], [CHR 0xE2, CHR 0x80, CHR 0x85],
      [CHR 0xE2, CHR 0x80, CHR 0x86], [CHR 0xE2, CHR 0x80, CHR 0x87],
      [CHR 0xE2, CHR 0x80, CHR 0x88], [CHR 0xE2, CHR 0x80, CHR 0x89],
      [CHR 0xE2, CHR 0x80, CHR 0x8A],
      [CHR 0xE2, CHR 0x80, CHR 0xA8], [CHR 0xE2, CHR 0x80, CHR 0xA9],
      [CHR 0xE2, CHR 0x80, CHR 0xAF],
      [CHR 0xE2, CHR 0x81, CHR 0x9F],
      [CHR 0xE3, CHR 0x80, CHR 0x80],
      [CHR 0xEF, CHR 0xBB, CHR 0xBF]]"

text \<open>
  Dropping, from the front of a string, every leading occurrence of one of the given
  sequences. \<^verbatim>\<open>trim\<close> drops the white space from the front and, on the reversed bytes,
  from the back: a first byte of an encoding never occurs inside another encoding, so a
  string ends with the bytes of a character only when that character is its last.
\<close>

fun dropLeading :: "string list \<Rightarrow> string \<Rightarrow> string" where
  "dropLeading ws [] = []"
| "dropLeading ws (c # s) =
     (case find (\<lambda>w. w \<noteq> [] \<and> startsWith (c # s) w) ws of
        Some w \<Rightarrow> dropLeading ws (drop (length w - 1) s)
      | None \<Rightarrow> c # s)"

definition trim :: "string \<Rightarrow> string" where
  "trim s = rev (dropLeading (map rev whiteSpace) (rev (dropLeading whiteSpace s)))"

text \<open>
  \<^verbatim>\<open>String.prototype.toUpperCase\<close>: every character is replaced by its upper-case mapping
  in the Unicode Character Database (the simple mappings of UnicodeData.txt and the
  unconditional ones of SpecialCasing.txt, here of Unicode 14.0), which may be several
  characters; a character without mapping stays. For the ASCII characters these are
  the letters a to z. The other mappings follow, by encoding, grouped by first byte.
\<close>

fun isAscii :: "char \<Rightarrow> bool" where
  "isAscii (Char b0 b1 b2 b3 b4 b5 b6 b7) = (\<not> b7)"

definition toUpperChar :: "char \<Rightarrow> char" where
  "toUpperChar c =
     (case map_of (zip ''abcdefghijklmnopqrstuvwxyz'' ''ABCDEFGHIJKLMNOPQRSTUVWXYZ'') c of
        Some u \<Rightarrow> u
      | None \<Rightarrow> c)"

definition upperC2 :: "(string \<times> string) list" where
  "upperC2 =
     [([CHR 0xC2, CHR 0xB5], [CHR 0xCE, CHR 0x9C])]"

definition upperC3 :: "(string \<times> string) list" where
  "upperC3 =
     [([CHR 0xC3, CHR 0x9F], [CHR 0x53, CHR 0x53]),
      ([CHR 0xC3, CHR 0xA0], [CHR 0xC3, CHR 0x80]),
      ([CHR 0xC3, CHR 0xA1], [CHR 0xC3, CHR 0x81]),
      ([CHR 0xC3, CHR 0xA2], [CHR 0xC3, CHR 0x82]),
      ([CHR 0xC3, CHR 0xA3], [CHR 0xC3, CHR 0x83]),
      ([CHR 0xC3, CHR 0xA4], [CHR 0xC3, CHR 0x84]),
      ([CHR 0xC3, CHR 0xA5], [CHR 0xC3, CHR 0x85]),
      ([CHR 0xC3, CHR 0xA6], [CHR 0xC3, CHR 0x86]),
      ([CHR 0xC3, CHR 0xA7], [CHR 0xC3, CHR 0x87]),
      ([CHR 0xC3, CHR 0xA8], [CHR 0xC3, CHR 0x88]),
      ([CHR 0xC3, CHR 0xA9], [CHR 0xC3, CHR 0x89]),
      ([CHR 0xC3, CHR 0xAA], [CHR 0xC3, CHR 0x8A]),
      ([CHR 0xC3, CHR 0xAB], [CHR 0xC3, CHR 0x8B]),
      ([CHR 0xC3, CHR 0xAC], [CHR 0xC3, CHR 0x8C]),
      ([CHR 0xC3, CHR 0xAD], [CHR 0xC3, CHR 0x8D]),
      ([CHR 0xC3, CHR 0xAE], [CHR 0xC3, CHR 0x8E]),
      ([CHR 0xC3, CHR 0xAF], [CHR 0xC3, CHR 0x8F]),
      ([CHR 0xC3, CHR 0xB0], [CHR 0xC3, CHR 0x90]),
      ([CHR 0xC3, CHR 0xB1], [CHR 0xC3, CHR 0x91]),
      ([CHR 0xC3, CHR 0xB2], [CHR 0xC3, CHR 0x92]),
      ([CHR 0xC3, CHR 0xB3], [CHR 0xC3, CHR 0x93]),
      ([CHR 0xC3, CHR 0xB4], [CHR 0xC3, CHR 0x94]),
      ([CHR 0xC3, CHR 0xB5], [CHR 0xC3, CHR 0x95]),
      ([CHR 0xC3, CHR 0xB6], [CHR 0xC3, CHR 0x96]),
      ([CHR 0xC3, CHR 0xB8], [CHR 0xC3, CHR 0x98]),
      ([CHR 0xC3, CHR 0xB9], [CHR 0xC3, CHR 0x99]),
      ([CHR 0xC3, CHR 0xBA], [CHR 0xC3, CHR 0x9A]),
      ([CHR 0xC3, CHR 0xBB], [CHR 0xC3, CHR 0x9B]),
      ([CHR 0xC3, CHR 0xBC], [CHR 0xC3, CHR 0x9C]),
      ([CHR 0xC3, CHR 0xBD], [CHR 0xC3, CHR 0x9D]),
      ([CHR 0xC3, CHR 0xBE], [CHR 0xC3, CHR 0x9E]),
      ([CHR 0xC3, CHR 0xBF], [CHR 0xC5, CHR 0xB8])]"

definition upperC4 :: "(string \<times> string) list" where
  "upperC4 =
     [([CHR 0xC4, CHR 0x81], [CHR 0xC4, CHR 0x80]),
      ([CHR 0xC4, CHR 0x83], [CHR 0xC4, CHR 0x82]),
      ([CHR 0xC4, CHR 0x85], [CHR 0xC4, CHR 0x84]),
      ([CHR 0xC4, CHR 0x87], [CHR 0xC4, CHR 0x86]),
      ([CHR 0xC4, CHR 0x89], [CHR 0xC4, CHR 0x88]),
      ([CHR 0xC4, CHR 0x8B], [CHR 0xC4, CHR 0x8A]),
      ([CHR 0xC4, CHR 0x8D], [CHR 0xC4, CHR 0x8C]),
      ([CHR 0xC4, CHR 0x8F], [CHR 0xC4, CHR 0x8E]),
      ([CHR 0xC4, CHR 0x91], [CHR 0xC4, CHR 0x90]),
      ([CHR 0xC4, CHR 0x93], [CHR 0xC4, CHR 0x92]),
      ([CHR 0xC4, CHR 0x95], [CHR 0xC4, CHR 0x94]),
      ([CHR 0xC4, CHR 0x97], [CHR 0xC4, CHR 0x96]),
      ([CHR 0xC4, CHR 0x99], [CHR 0xC4, CHR 0x98]),
      ([CHR 0xC4, CHR 0x9B], [CHR 0xC4, CHR 0x9A]),
      ([CHR 0xC4, CHR 0x9D], [CHR 0xC4, CHR 0x9C]),
      ([CHR 0xC4, CHR 0x9F], [CHR 0xC4, CHR 0x9E]),
      ([CHR 0xC4, CHR 0xA1], [CHR 0xC4, CHR 0xA0]),
      ([CHR 0xC4, CHR 0xA3], [CHR 0xC4, CHR 0xA2]),
      ([CHR 0xC4, CHR 0xA5], [CHR 0xC4, CHR 0xA4]),
      ([CHR 0xC4, CHR 0xA7], [CHR 0xC4, CHR 0xA6]),
      ([CHR 0xC4, CHR 0xA9], [CHR 0xC4, CHR 0xA8]),
      ([CHR 0xC4, CHR 0xAB], [CHR 0xC4, CHR 0xAA]),
      ([CHR 0xC4, CHR 0xAD], [CHR 0xC4, CHR 0xAC]),
      ([CHR 0xC4, CHR 0xAF], [CHR 0xC4, CHR 0xAE]),
      ([CHR 0xC4, CHR 0xB1], [CHR 0x49]),
      ([CHR 0xC4, CHR 0xB3], [CHR 0xC4, CHR 0xB2]),
      ([CHR 0xC4, CHR 0xB5], [CHR 0xC4, CHR 0xB4]),
      ([CHR 0xC4, CHR 0xB7], [CHR 0xC4, CHR 0xB6]),
      ([CHR 0xC4, CHR 0xBA], [CHR 0xC4, CHR 0xB9]),
      ([CHR 0xC4, CHR 0xBC], [CHR 0xC4, CHR 0xBB]),
      ([CHR 0xC4, CHR 0xBE], [CHR 0xC4, CHR 0xBD])]"

definition upperC5 :: "(string \<times> string) list" where
  "upperC5 =
     [([CHR 0xC5, CHR 0x80], [CHR 0xC4, CHR 0xBF]),
      ([CHR 0xC5, CHR 0x82], [CHR 0xC5, CHR 0x81]),
      ([CHR 0xC5, CHR 0x84], [CHR 0xC5, CHR 0x83]),
      ([CHR 0xC5, CHR 0x86], [CHR 0xC5, CHR 0x85]),
      ([CHR 0xC5, CHR 0x88], [CHR 0xC5, CHR 0x87]),
      ([CHR 0xC5, CHR 0x89], [CHR 0xCA, CHR 0xBC, CHR 0x4E]),
      ([CHR 0xC5, CHR 0x8B], [CHR 0xC5, CHR 0x8A]),
      ([CHR 0xC5, CHR 0x8D], [CHR 0xC5, CHR 0x8C]),
      ([CHR 0xC5, CHR 0x8F], [CHR 0xC5, CHR 0x8E]),
      ([CHR 0xC5, CHR 0x91], [CHR 0xC5, CHR 0x90]),
      ([CHR 0xC5, CHR 0x93], [CHR 0xC5, CHR 0x92]),
      ([CHR 0xC5, CHR 0x95], [CHR 0xC5, CHR 0x94]),
      ([CHR 0xC5, CHR 0x97], [CHR 0xC5, CHR 0x96]),
      ([CHR 0xC5, CHR 0x99], [CHR 0xC5, CHR 0x98]),
      ([CHR 0xC5, CHR 0x9B], [CHR 0xC5, CHR 0x9A]),
      ([CHR 0xC5, CHR 0x9D], [CHR 0xC5, CHR 0x9C]),
      ([CHR 0xC5, CHR 0x9F], [CHR 0xC5, CHR 0x9E]),
      ([CHR 0xC5, CHR 0xA1], [CHR 0xC5, CHR 0xA0]),
      ([CHR 0xC5, CHR 0xA3], [CHR 0xC5, CHR 0xA2]),
      ([CHR 0xC5, CHR 0xA5], [CHR 0xC5, CHR 0xA4]),
      ([CHR 0xC5, CHR 0xA7], [CHR 0xC5, CHR 0xA6]),
      ([CHR 0xC5, CHR 0xA9], [CHR 0xC5, CHR 0xA8]),
      ([CHR 0xC5, CHR 0xAB], [CHR 0xC5, CHR 0xAA]),
      ([CHR 0xC5, CHR 0xAD], [CHR 0xC5, CHR 0xAC]),
      ([CHR 0xC5, CHR 0xAF], [CHR 0xC5, CHR 0xAE]),
      ([CHR 0xC5, CHR 0xB1], [CHR 0xC5, CHR 0xB0]),
      ([CHR 0xC5, CHR 0xB3], [CHR 0xC5, CHR 0xB2]),
      ([CHR 0xC5, CHR 0xB5], [CHR 0xC5, CHR 0xB4]),
      ([CHR 0xC5, CHR 0xB7], [CHR 0xC5, CHR 0xB6]),
      ([CHR 0xC5, CHR 0xBA], [CHR 0xC5, CHR 0xB9]),
      ([CHR 0xC5, CHR 0xBC], [CHR 0xC5, CHR 0xBB]),
      ([CHR 0xC5, CHR 0xBE], [CHR 0xC5, CHR 0xBD]),
      ([CHR 0xC5, CHR 0xBF], [CHR 0x53])]"

definition upperC6 :: "(string \<times> string) list" where
  "upperC6 =
     [([CHR 0xC6, CHR 0x80], [CHR 0xC9, CHR 0x83]),
      ([CHR 0xC6, CHR 0x83], [CHR 0xC6, CHR 0x82]),
      ([CHR 0xC6, CHR 0x85], [CHR 0xC6, CHR 0x84]),
      ([CHR 0xC6, CHR 0x88], [CHR 0xC6, CHR 0x87]),
      ([CHR 0xC6, CHR 0x8C], [CHR 0xC6, CHR 0x8B]),
      ([CHR 0xC6, CHR 0x92], [CHR 0xC6, CHR 0x91]),
      ([CHR 0xC6, CHR 0x95], [CHR 0xC7, CHR 0xB6]),
      ([CHR 0xC6, CHR 0x99], [CHR 0xC6, CHR 0x98]),
      ([CHR 0xC6, CHR 0x9A], [CHR 0xC8, CHR 0xBD]),
      ([CHR 0xC6, CHR 0x9E], [CHR 0xC8, CHR 0xA0]),
      ([CHR 0xC6, CHR 0xA1], [CHR 0xC6, CHR 0xA0]),
      ([CHR 0xC6, CHR 0xA3], [CHR 0xC6, CHR 0xA2]),
      ([CHR 0xC6, CHR 0xA5], [CHR 0xC6, CHR 0xA4]),
      ([CHR 0xC6, CHR 0xA8], [CHR 0xC6, CHR 0xA7]),
      ([CHR 0xC6, CHR 0xAD], [CHR 0xC6, CHR 0xAC]),
      ([CHR 0xC6, CHR 0xB0], [CHR 0xC6, CHR 0xAF]),
      ([CHR 0xC6, CHR 0xB4], [CHR 0xC6, CHR 0xB3]),
      ([CHR 0xC6, CHR 0xB6], [CHR 0xC6, CHR 0xB5]),
      ([CHR 0xC6, CHR 0xB9], [CHR 0xC6, CHR 0xB8]),
      ([CHR 0xC6, CHR 0xBD], [CHR 0xC6, CHR 0xBC]),
      ([CHR 0xC6, CHR 0xBF], [CHR 0xC7, CHR 0xB7])]"

definition upperC7 :: "(string \<times> string) list" where
  "upperC7 =
     [([CHR 0xC7, CHR 0x85], [CHR 0xC7, CHR 0x84]),
      ([CHR 0xC7, CHR 0x86], [CHR 0xC7, CHR 0x84]),
      ([CHR 0xC7, CHR 0x88], [CHR 0xC7, CHR 0x87]),
      ([CHR 0xC7, CHR 0x89], [CHR 0xC7, CHR 0x87]),
      ([CHR 0xC7, CHR 0x8B], [CHR 0xC7, CHR 0x8A]),
      ([CHR 0xC7, CHR 0x8C], [CHR 0xC7, CHR 0x8A]),
      ([CHR 0xC7, CHR 0x8E], [CHR 0xC7, CHR 0x8D]),
      ([CHR 0xC7, CHR 0x90], [CHR 0xC7, CHR 0x8F]),
      ([CHR 0xC7, CHR 0x92], [CHR 0xC7, CHR 0x91]),
      ([CHR 0xC7, CHR 0x94], [CHR 0xC7, CHR 0x93]),
      ([CHR 0xC7, CHR 0x96], [CHR 0xC7, CHR 0x95]),
      ([CHR 0xC7, CHR 0x98], [CHR 0xC7, CHR 0x97]),
      ([CHR 0xC7, CHR 0x9A], [CHR 0xC7, CHR 0x99]),
      ([CHR 0xC7, CHR 0x9C], [CHR 0xC7, CHR 0x9B]),
      ([CHR 0xC7, CHR 0x9D], [CHR 0xC6, CHR 0x8E]),
      ([CHR 0xC7, CHR 0x9F], [CHR 0xC7, CHR 0x9E]),
      ([CHR 0xC7, CHR 0xA1], [CHR 0xC7, CHR 0xA0]),
      ([CHR 0xC7, CHR 0xA3], [CHR 0xC7, CHR 0xA2]),
      ([CHR 0xC7, CHR 0xA5], [CHR 0xC7, CHR 0xA4]),
      ([CHR 0xC7, CHR 0xA7], [CHR 0xC7, CHR 0xA6]),
      ([CHR 0xC7, CHR 0xA9], [CHR 0xC7, CHR 0xA8]),
      ([CHR 0xC7, CHR 0xAB], [CHR 0xC7, CHR 0xAA]),
      ([CHR 0xC7, CHR 0xAD], [CHR 0xC7, CHR 0xAC]),
      ([CHR 0xC7, CHR 0xAF], [CHR 0xC7, CHR 0xAE]),
      ([CHR 0xC7, CHR 0xB0], [CHR 0x4A, CHR 0xCC, CHR 0x8C]),
      ([CHR 0xC7, CHR 0xB2], [CHR 0xC7, CHR 0xB1]),
      ([CHR 0xC7, CHR 0xB3], [CHR 0xC7, CHR 0xB1]),
      ([CHR 0xC7, CHR 0xB5], [CHR 0xC7, CHR 0xB4]),
      ([CHR 0xC7, CHR 0xB9], [CHR 0xC7, CHR 0xB8]),
      ([CHR 0xC7, CHR 0xBB], [CHR 0xC7, CHR 0xBA]),
      ([CHR 0xC7, CHR 0xBD], [CHR 0xC7, CHR 0xBC]),
      ([CHR 0xC7, CHR 0xBF], [CHR 0xC7, CHR 0xBE])]"

definition upperC8 :: "(string \<times> string) list" where
  "upperC8 =
     [([CHR 0xC8, CHR 0x81], [CHR 0xC8, CHR 0x80]),
      ([CHR 0xC8, CHR 0x83], [CHR 0xC8, CHR 0x82]),
      ([CHR 0xC8, CHR 0x85], [CHR 0xC8, CHR 0x84]),
      ([CHR 0xC8, CHR 0x87], [CHR 0xC8, CHR 0x86]),
      ([CHR 0xC8, CHR 0x89], [CHR 0xC8, CHR 0x88]),
      ([CHR 0xC8, CHR 0x8B], [CHR 0xC8, CHR 0x8A]),
      ([CHR 0xC8, CHR 0x8D], [CHR 0xC8, CHR 0x8C]),
      ([CHR 0xC8, CHR 0x8F], [CHR 0xC8, CHR 0x8E]),
      ([CHR 0xC8, CHR 0x91], [CHR 0xC8, CHR 0x90]),
      ([CHR 0xC8, CHR 0x93], [CHR 0xC8, CHR 0x92]),
      ([CHR 0xC8, CHR 0x95], [CHR 0xC8, CHR 0x94]),
      ([CHR 0xC8, CHR 0x97], [CHR 0xC8, CHR 0x96]),
      ([CHR 0xC8, CHR 0x99], [CHR 0xC8, CHR 0x98]),
      ([CHR 0xC8, CHR 0x9B], [CHR 0xC8, CHR 0x9A]),
      ([CHR 0xC8, CHR 0x9D], [CHR 0xC8, CHR 0x9C]),
      ([CHR 0xC8, CHR 0x9F], [CHR 0xC8, CHR 0x9E]),
      ([CHR 0xC8, CHR 0xA3], [CHR 0xC8, CHR 0xA2]),
      ([CHR 0xC8, CHR 0xA5], [CHR 0xC8, CHR 0xA4]),
      ([CHR 0xC8, CHR 0xA7], [CHR 0xC8, CHR 0xA6]),
      ([CHR 0xC8, CHR 0xA9], [CHR 0xC8, CHR 0xA8]),
      ([CHR 0xC8, CHR 0xAB], [CHR 0xC8, CHR 0xAA]),
      ([CHR 0xC8, CHR 0xAD], [CHR 0xC8, CHR 0xAC]),
      ([CHR 0xC8, CHR 0xAF], [CHR 0xC8, CHR 0xAE]),
      ([CHR 0xC8, CHR 0xB1], [CHR 0xC8, CHR 0xB0]),
      ([CHR 0xC8, CHR 0xB3], [CHR 0xC8, CHR 0xB2]),
      ([CHR 0xC8, CHR 0xBC], [CHR 0xC8, CHR 0xBB]),
      ([CHR 0xC8, CHR 0xBF], [CHR 0xE2, CHR 0xB1, CHR 0xBE])]"

definition upperC9 :: "(string \<times> string) list" where
  "upperC9 =
     [([CHR 0xC9, CHR 0x80], [CHR 0xE2, CHR 0xB1, CHR 0xBF]),
      ([CHR 0xC9, CHR 0x82], [CHR 0xC9, CHR 0x81]),
      ([CHR 0xC9, CHR 0x87], [CHR 0xC9, CHR 0x86]),
      ([CHR 0xC9, CHR 0x89], [CHR 0xC9, CHR 0x88]),
      ([CHR 0xC9, CHR 0x8B], [CHR 0xC9, CHR 0x8A]),
      ([CHR 0xC9, CHR 0x8D], [CHR 0xC9, CHR 0x8C]),
      ([CHR 0xC9, CHR 0x8F], [CHR 0xC9, CHR 0x8E]),
      ([CHR 0xC9, CHR 0x90], [CHR 0xE2, CHR 0xB1, CHR 0xAF]),
      ([CHR 0xC9, CHR 0x91], [CHR 0xE2, CHR 0xB1, CHR 0xAD]),
      ([CHR 0xC9, CHR 0x92], [CHR 0xE2, CHR 0xB1, CHR 0xB0]),
      ([CHR 0xC9, CHR 0x93], [CHR 0xC6, CHR 0x81]),
      ([CHR 0xC9, CHR 0x94], [CHR 0xC6, CHR 0x86]),
      ([CHR 0xC9, CHR 0x96], [CHR 0xC6, CHR 0x89]),
      ([CHR 0xC9, CHR 0x97], [CHR 0xC6, CHR 0x8A]),
      ([CHR 0xC9, CHR 0x99], [CHR 0xC6, CHR 0x8F]),
      ([CHR 0xC9, CHR 0x9B], [CHR 0xC6, CHR 0x90]),
      ([CHR 0xC9, CHR 0x9C], [CHR 0xEA, CHR 0x9E, CHR 0xAB]),
      ([CHR 0xC9, CHR 0xA0], [CHR 0xC6, CHR 0x93]),
      ([CHR 0xC9, CHR 0xA1], [CHR 0xEA, CHR 0x9E, CHR 0xAC]),
      ([CHR 0xC9, CHR 0xA3], [CHR 0xC6, CHR 0x94]),
      ([CHR 0xC9, CHR 0xA5], [CHR 0xEA, CHR 0x9E, CHR 0x8D]),
      ([CHR 0xC9, CHR 0xA6], [CHR 0xEA, CHR 0x9E, CHR 0xAA]),
      ([CHR 0xC9, CHR 0xA8], [CHR 0xC6, CHR 0x97]),
      ([CHR 0xC9, CHR 0xA9], [CHR 0xC6, CHR 0x96]),
      ([CHR 0xC9, CHR 0xAA], [CHR 0xEA, CHR 0x9E, CHR 0xAE]),
      ([CHR 0xC9, CHR 0xAB], [CHR 0xE2, CHR 0xB1, CHR 0xA2]),
      ([CHR 0xC9, CHR 0xAC], [CHR 0xEA, CHR 0x9E, CHR 0xAD]),
      ([CHR 0xC9, CHR 0xAF], [CHR 0xC6, CHR 0x9C]),
      ([CHR 0xC9, CHR 0xB1], [CHR 0xE2, CHR 0xB1, CHR 0xAE]),
      ([CHR 0xC9, CHR 0xB2], [CHR 0xC6, CHR 0x9D]),
      ([CHR 0xC9, CHR 0xB5], [CHR 0xC6, CHR 0x9F]),
      ([CHR 0xC9, CHR 0xBD], [CHR 0xE2, CHR 0xB1, CHR 0xA4])]"

definition upperCA :: "(string \<times> string) list" where
  "upperCA =
     [([CHR 0xCA, CHR 0x80], [CHR 0xC6, CHR 0xA6]),
      ([CHR 0xCA, CHR 0x82], [CHR 0xEA, CHR 0x9F, CHR 0x85]),
      ([CHR 0xCA, CHR 0x83], [CHR 0xC6, CHR 0xA9]),
      ([CHR 0xCA, CHR 0x87], [CHR 0xEA, CHR 0x9E, CHR 0xB1]),
      ([CHR 0xCA, CHR 0x88], [CHR 0xC6, CHR 0xAE]),
      ([CHR 0xCA, CHR 0x89], [CHR 0xC9, CHR 0x84]),
      ([CHR 0xCA, CHR 0x8A], [CHR 0xC6, CHR 0xB1]),
      ([CHR 0xCA, CHR 0x8B], [CHR 0xC6, CHR 0xB2]),
      ([CHR 0xCA, CHR 0x8C], [CHR 0xC9, CHR 0x85]),
      ([CHR 0xCA, CHR 0x92], [CHR 0xC6, CHR 0xB7]),
      ([CHR 0xCA, CHR 0x9D], [CHR 0xEA, CHR 0x9E, CHR 0xB2]),
      ([CHR 0xCA, CHR 0x9E], [CHR 0xEA, CHR 0x9E, CHR 0xB0])]"

definition upperCD :: "(string \<times> string) list" where
  "upperCD =
     [([CHR 0xCD, CHR 0x85], [CHR 0xCE, CHR 0x99]),
      ([CHR 0xCD, CHR 0xB1], [CHR 0xCD, CHR 0xB0]),
      ([CHR 0xCD, CHR 0xB3], [CHR 0xCD, CHR 0xB2]),
      ([CHR 0xCD, CHR 0xB7], [CHR 0xCD, CHR 0xB6]),
      ([CHR 0xCD, CHR 0xBB], [CHR 0xCF, CHR 0xBD]),
      ([CHR 0xCD, CHR 0xBC], [CHR 0xCF, CHR 0xBE]),
      ([CHR 0xCD, CHR 0xBD], [CHR 0xCF, CHR 0xBF])]"

definition upperCE :: "(string \<times> string) list" where
  "upperCE =
     [([CHR 0xCE, CHR 0x90], [CHR 0xCE, CHR 0x99, CHR 0xCC, CHR 0x88, CHR 0xCC, CHR 0x81]),
      ([CHR 0xCE, CHR 0xAC], [CHR 0xCE, CHR 0x86]),
      ([CHR 0xCE, CHR 0xAD], [CHR 0xCE, CHR 0x88]),
      ([CHR 0xCE, CHR 0xAE], [CHR 0xCE, CHR 0x89]),
      ([CHR 0xCE, CHR 0xAF], [CHR 0xCE, CHR 0x8A]),
      ([CHR 0xCE, CHR 0xB0], [CHR 0xCE, CHR 0xA5, CHR 0xCC, CHR 0x88, CHR 0xCC, CHR 0x81]),
      ([CHR 0xCE, CHR 0xB1], [CHR 0xCE, CHR 0x91]),
      ([CHR 0xCE, CHR 0xB2], [CHR 0xCE, CHR 0x92]),
      ([CHR 0xCE, CHR 0xB3], [CHR 0xCE, CHR 0x93]),
      ([CHR 0xCE, CHR 0xB4], [CHR 0xCE, CHR 0x94]),
      ([CHR 0xCE, CHR 0xB5], [CHR 0xCE, CHR 0x95]),
      ([CHR 0xCE, CHR 0xB6], [CHR 0xCE, CHR 0x96]),
      ([CHR 0xCE, CHR 0xB7], [CHR 0xCE, CHR 0x97]),
      ([CHR 0xCE, CHR 0xB8], [CHR 0xCE, CHR 0x98]),
      ([CHR 0xCE, CHR 0xB9], [CHR 0xCE, CHR 0x99]),
      ([CHR 0xCE, CHR 0xBA], [CHR 0xCE, CHR 0x9A]),
      ([CHR 0xCE, CHR 0xBB], [CHR 0xCE, CHR 0x9B]),
      ([CHR 0xCE, CHR 0xBC], [CHR 0xCE, CHR 0x9C]),
      ([CHR 0xCE, CHR 0xBD], [CHR 0xCE, CHR 0x9D]),
      ([CHR 0xCE, CHR 0xBE], [CHR 0xCE, CHR 0x9E]),
      ([CHR 0xCE, CHR 0xBF], [CHR 0xCE, CHR 0x9F])]"

definition upperCF :: "(string \<times> string) list" where
  "upperCF =
     [([CHR 0xCF, CHR 0x80], [CHR 0xCE, CHR 0xA0]),
      ([CHR 0xCF, CHR 0x81], [CHR 0xCE, CHR 0xA1]),
      ([CHR 0xCF, CHR 0x82], [CHR 0xCE, CHR 0xA3]),
      ([CHR 0xCF, CHR 0x83], [CHR 0xCE, CHR 0xA3]),
      ([CHR 0xCF, CHR 0x84], [CHR 0xCE, CHR 0xA4]),
      ([CHR 0xCF, CHR 0x85], [CHR 0xCE, CHR 0xA5]),
      ([CHR 0xCF, CHR 0x86], [CHR 0xCE, CHR 0xA6]),
      ([CHR 0xCF, CHR 0x87], [CHR 0xCE, CHR 0xA7]),
      ([CHR 0xCF, CHR 0x88], [CHR 0xCE, CHR 0xA8]),
      ([CHR 0xCF, CHR 0x89], [CHR 0xCE, CHR 0xA9]),
      ([CHR 0xCF, CHR 0x8A], [CHR 0xCE, CHR 0xAA]),
      ([CHR 0xCF, CHR 0x8B], [CHR 0xCE, CHR 0xAB]),
      ([CHR 0xCF, CHR 0x8C], [CHR 0xCE, CHR 0x8C]),
      ([CHR 0xCF, CHR 0x8D], [CHR 0xCE, CHR 0x8E]),
      ([CHR 0xCF, CHR 0x8E], [CHR 0xCE, CHR 0x8F]),
      ([CHR 0xCF, CHR 0x90], [CHR 0xCE, CHR 0x92]),
      ([CHR 0xCF, CHR 0x91], [CHR 0xCE, CHR 0x98]),
      ([CHR 0xCF, CHR 0x95], [CHR 0xCE, CHR 0xA6]),
      ([CHR 0xCF, CHR 0x96], [CHR 0xCE, CHR 0xA0]),
      ([CHR 0xCF, CHR 0x97], [CHR 0xCF, CHR 0x8F]),
      ([CHR 0xCF, CHR 0x99], [CHR 0xCF, CHR 0x98]),
      ([CHR 0xCF, CHR 0x9B], [CHR 0xCF, CHR 0x9A]),
      ([CHR 0xCF, CHR 0x9D], [CHR 0xCF, CHR 0x9C]),
      ([CHR 0xCF, CHR 0x9F], [CHR 0xCF, CHR 0x9E]),
      ([CHR 0xCF, CHR 0xA1], [CHR 0xCF, CHR 0xA0]),
      ([CHR 0xCF, CHR 0xA3], [CHR 0xCF, CHR 0xA2]),
      ([CHR 0xCF, CHR 0xA5], [CHR 0xCF, CHR 0xA4]),
      ([CHR 0xCF, CHR 0xA7], [CHR 0xCF, CHR 0xA6]),
      ([CHR 0xCF, CHR 0xA9], [CHR 0xCF, CHR 0xA8]),
      ([CHR 0xCF, CHR 0xAB], [CHR 0xCF, CHR 0xAA]),
      ([CHR 0xCF, CHR 0xAD], [CHR 0xCF, CHR 0xAC]),
      ([CHR 0xCF, CHR 0xAF], [CHR 0xCF, CHR 0xAE]),
      ([CHR 0xCF, CHR 0xB0], [CHR 0xCE, CHR 0x9A]),
      ([CHR 0xCF, CHR 0xB1], [CHR 0xCE, CHR 0xA1]),
      ([CHR 0xCF, CHR 0xB2], [CHR 0xCF, CHR 0xB9]),
      ([CHR 0xCF, CHR 0xB3], [CHR 0xCD, CHR 0xBF]),
      ([CHR 0xCF, CHR 0xB5], [CHR 0xCE, CHR 0x95]),
      ([CHR 0xCF, CHR 0xB8], [CHR 0xCF, CHR 0xB7]),
      ([CHR 0xCF, CHR 0xBB], [CHR 0xCF, CHR 0xBA])]"

definition upperD0 :: "(string \<times> string) list" where
  "upperD0 =
     [([CHR 0xD0, CHR 0xB0], [CHR 0xD0, CHR 0x90]),
      ([CHR 0xD0, CHR 0xB1], [CHR 0xD0, CHR 0x91]),
      ([CHR 0xD0, CHR 0xB2], [CHR 0xD0, CHR 0x92]),
      ([CHR 0xD0, CHR 0xB3], [CHR 0xD0, CHR 0x93]),
      ([CHR 0xD0, CHR 0xB4], [CHR 0xD0, CHR 0x94]),
      ([CHR 0xD0, CHR 0xB5], [CHR 0xD0, CHR 0x95]),
      ([CHR 0xD0, CHR 0xB6], [CHR 0xD0, CHR 0x96]),
      ([CHR 0xD0, CHR 0xB7], [CHR 0xD0, CHR 0x97]),
      ([CHR 0xD0, CHR 0xB8], [CHR 0xD0, CHR 0x98]),
      ([CHR 0xD0, CHR 0xB9], [CHR 0xD0, CHR 0x99]),
      ([CHR 0xD0, CHR 0xBA], [CHR 0xD0, CHR 0x9A]),
      ([CHR 0xD0, CHR 0xBB], [CHR 0xD0, CHR 0x9B]),
      ([CHR 0xD0, CHR 0xBC], [CHR 0xD0, CHR 0x9C]),
      ([CHR 0xD0, CHR 0xBD], [CHR 0xD0, CHR 0x9D]),
      ([CHR 0xD0, CHR 0xBE], [CHR 0xD0, CHR 0x9E]),
      ([CHR 0xD0, CHR 0xBF], [CHR 0xD0, CHR 0x9F])]"

definition upperD1 :: "(string \<times> string) list" where
  "upperD1 =
     [([CHR 0xD1, CHR 0x80], [CHR 0xD0, CHR 0xA0]),
      ([CHR 0xD1, CHR 0x81], [CHR 0xD0, CHR 0xA1]),
      ([CHR 0xD1, CHR 0x82], [CHR 0xD0, CHR 0xA2]),
      ([CHR 0xD1, CHR 0x83], [CHR 0xD0, CHR 0xA3]),
      ([CHR 0xD1, CHR 0x84], [CHR 0xD0, CHR 0xA4]),
      ([CHR 0xD1, CHR 0x85], [CHR 0xD0, CHR 0xA5]),
      ([CHR 0xD1, CHR 0x86], [CHR 0xD0, CHR 0xA6]),
      ([CHR 0xD1, CHR 0x87], [CHR 0xD0, CHR 0xA7]),
      ([CHR 0xD1, CHR 0x88], [CHR 0xD0, CHR 0xA8]),
      ([CHR 0xD1, CHR 0x89], [CHR 0xD0, CHR 0xA9]),
      ([CHR 0xD1, CHR 0x8A], [CHR 0xD0, CHR 0xAA]),
      ([CHR 0xD1, CHR 0x8B], [CHR 0xD0, CHR 0xAB]),
      ([CHR 0xD1, CHR 0x8C], [CHR 0xD0, CHR 0xAC]),
      ([CHR 0xD1, CHR 0x8D], [CHR 0xD0, CHR 0xAD]),
      ([CHR 0xD1, CHR 0x8E], [CHR 0xD0, CHR 0xAE]),
      ([CHR 0xD1, CHR 0x8F], [CHR 0xD0, CHR 0xAF]),
      ([CHR 0xD1, CHR 0x90], [CHR 0xD0, CHR 0x80]),
      ([CHR 0xD1, CHR 0x91], [CHR 0xD0, CHR 0x81]),
      ([CHR 0xD1, CHR 0x92], [CHR 0xD0, CHR 0x82]),
      ([CHR 0xD1, CHR 0x93], [CHR 0xD0, CHR 0x83]),
      ([CHR 0xD1, CHR 0x94], [CHR 0xD0, CHR 0x84]),
      ([CHR 0xD1, CHR 0x95], [CHR 0xD0, CHR 0x85]),
      ([CHR 0xD1, CHR 0x96], [CHR 0xD0, CHR 0x86]),
      ([CHR 0xD1, CHR 0x97], [CHR 0xD0, CHR 0x87]),
      ([CHR 0xD1, CHR 0x98], [CHR 0xD0, CHR 0x88]),
      ([CHR 0xD1, CHR 0x99], [CHR 0xD0, CHR 0x89]),
      ([CHR 0xD1, CHR 0x9A], [CHR 0xD0, CHR 0x8A]),
      ([CHR 0xD1, CHR 0x9B], [CHR 0xD0, CHR 0x8B]),
      ([CHR 0xD1, CHR 0x9C], [CHR 0xD0, CHR 0x8C]),
      ([CHR 0xD1, CHR 0x9D], [CHR 0xD0, CHR 0x8D]),
      ([CHR 0xD1, CHR 0x9E], [CHR 0xD0, CHR 0x8E]),
      ([CHR 0xD1, CHR 0x9F], [CHR 0xD0, CHR 0x8F]),
      ([CHR 0xD1, CHR 0xA1], [CHR 0xD1, CHR 0xA0]),
      ([CHR 0xD1, CHR 0xA3], [CHR 0xD1, CHR 0xA2]),
      ([CHR 0xD1, CHR 0xA5], [CHR 0xD1, CHR 0xA4]),
      ([CHR 0xD1, CHR 0xA7], [CHR 0xD1, CHR 0xA6]),
      ([CHR 0xD1, CHR 0xA9], [CHR 0xD1, CHR 0xA8]),
      ([CHR 0xD1, CHR 0xAB], [CHR 0xD1, CHR 0xAA]),
      ([CHR 0xD1, CHR 0xAD], [CHR 0xD1, CHR 0xAC]),
      ([CHR 0xD1, CHR 0xAF], [CHR 0xD1, CHR 0xAE]),
      ([CHR 0xD1, CHR 0xB1], [CHR 0xD1, CHR 0xB0]),
      ([CHR 0xD1, CHR 0xB3], [CHR 0xD1, CHR 0xB2]),
      ([CHR 0xD1, CHR 0xB5], [CHR 0xD1, CHR 0xB4]),
      ([CHR 0xD1, CHR 0xB7], [CHR 0xD1, CHR 0xB6]),
      ([CHR 0xD1, CHR 0xB9], [CHR 0xD1, CHR 0xB8]),
      ([CHR 0xD1, CHR 0xBB], [CHR 0xD1, CHR 0xBA]),
      ([CHR 0xD1, CHR 0xBD], [CHR 0xD1, CHR 0xBC]),
      ([CHR 0xD1, CHR 0xBF], [CHR 0xD1, CHR 0xBE])]"

definition upperD2 :: "(string \<times> string) list" where
  "upperD2 =
     [([CHR 0xD2, CHR 0x81], [CHR 0xD2, CHR 0x80]),
      ([CHR 0xD2, CHR 0x8B], [CHR 0xD2, CHR 0x8A]),
      ([CHR 0xD2, CHR 0x8D], [CHR 0xD2, CHR 0x8C]),
      ([CHR 0xD2, CHR 0x8F], [CHR 0xD2, CHR 0x8E]),
      ([CHR 0xD2, CHR 0x91], [CHR 0xD2, CHR 0x90]),
      ([CHR 0xD2, CHR 0x93], [CHR 0xD2, CHR 0x92]),
      ([CHR 0xD2, CHR 0x95], [CHR 0xD2, CHR 0x94]),
      ([CHR 0xD2, CHR 0x97], [CHR 0xD2, CHR 0x96]),
      ([CHR 0xD2, CHR 0x99], [CHR 0xD2, CHR 0x98]),
      ([CHR 0xD2, CHR 0x9B], [CHR 0xD2, CHR 0x9A]),
      ([CHR 0xD2, CHR 0x9D], [CHR 0xD2, CHR 0x9C]),
      ([CHR 0xD2, CHR 0x9F], [CHR 0xD2, CHR 0x9E]),
      ([CHR 0xD2, CHR 0xA1], [CHR 0xD2, CHR 0xA0]),
      ([CHR 0xD2, CHR 0xA3], [CHR 0xD2, CHR 0xA2]),
      ([CHR 0xD2, CHR 0xA5], [CHR 0xD2, CHR 0xA4]),
      ([CHR 0xD2, CHR 0xA7], [CHR 0xD2, CHR 0xA6]),
      ([CHR 0xD2, CHR 0xA9], [CHR 0xD2, CHR 0xA8]),
      ([CHR 0xD2, CHR 0xAB], [CHR 0xD2, CHR 0xAA]),
      ([CHR 0xD2, CHR 0xAD], [CHR 0xD2, CHR 0xAC]),
      ([CHR 0xD2, CHR 0xAF], [CHR 0xD2, CHR 0xAE]),
      ([CHR 0xD2, CHR 0xB1], [CHR 0xD2, CHR 0xB0]),
      ([CHR 0xD2, CHR 0xB3], [CHR 0xD2, CHR 0xB2]),
      ([CHR 0xD2, CHR 0xB5], [CHR 0xD2, CHR 0xB4]),
      ([CHR 0xD2, CHR 0xB7], [CHR 0xD2, CHR 0xB6]),
      ([CHR 0xD2, CHR 0xB9], [CHR 0xD2, CHR 0xB8]),
      ([CHR 0xD2, CHR 0xBB], [CHR 0xD2, CHR 0xBA]),
      ([CHR 0xD2, CHR 0xBD], [CHR 0xD2, CHR 0xBC]),
      ([CHR 0xD2, CHR 0xBF], [CHR 0xD2, CHR 0xBE])]"

definition upperD3 :: "(string \<times> string) list" where
  "upperD3 =
     [([CHR 0xD3, CHR 0x82], [CHR 0xD3, CHR 0x81]),
      ([CHR 0xD3, CHR 0x84], [CHR 0xD3, CHR 0x83]),
      ([CHR 0xD3, CHR 0x86], [CHR 0xD3, CHR 0x85]),
      ([CHR 0xD3, CHR 0x88], [CHR 0xD3, CHR 0x87]),
      ([CHR 0xD3, CHR 0x8A], [CHR 0xD3, CHR 0x89]),
      ([CHR 0xD3, CHR 0x8C], [CHR 0xD3, CHR 0x8B]),
      ([CHR 0xD3, CHR 0x8E], [CHR 0xD3, CHR 0x8D]),
      ([CHR 0xD3, CHR 0x8F], [CHR 0xD3, CHR 0x80]),
      ([CHR 0xD3, CHR 0x91], [CHR 0xD3, CHR 0x90]),
      ([CHR 0xD3, CHR 0x93], [CHR 0xD3, CHR 0x92]),
      ([CHR 0xD3, CHR 0x95], [CHR 0xD3, CHR 0x94]),
      ([CHR 0xD3, CHR 0x97], [CHR 0xD3, CHR 0x96]),
      ([CHR 0xD3, CHR 0x99], [CHR 0xD3, CHR 0x98]),
      ([CHR 0xD3, CHR 0x9B], [CHR 0xD3, CHR 0x9A]),
      ([CHR 0xD3, CHR 0x9D], [CHR 0xD3, CHR 0x9C]),
      ([CHR 0xD3, CHR 0x9F], [CHR 0xD3, CHR 0x9E]),
      ([CHR 0xD3, CHR 0xA1], [CHR 0xD3, CHR 0xA0]),
      ([CHR 0xD3, CHR 0xA3], [CHR 0xD3, CHR 0xA2]),
      ([CHR 0xD3, CHR 0xA5], [CHR 0xD3, CHR 0xA4]),
      ([CHR 0xD3, CHR 0xA7], [CHR 0xD3, CHR 0xA6]),
      ([CHR 0xD3, CHR 0xA9], [CHR 0xD3, CHR 0xA8]),
      ([CHR 0xD3, CHR 0xAB], [CHR 0xD3, CHR 0xAA]),
      ([CHR 0xD3, CHR 0xAD], [CHR 0xD3, CHR 0xAC]),
      ([CHR 0xD3, CHR 0xAF], [CHR 0xD3, CHR 0xAE]),
      ([CHR 0xD3, CHR 0xB1], [CHR 0xD3, CHR 0xB0]),
      ([CHR 0xD3, CHR 0xB3], [CHR 0xD3, CHR 0xB2]),
      ([CHR 0xD3, CHR 0xB5], [CHR 0xD3, CHR 0xB4]),
      ([CHR 0xD3, CHR 0xB7], [CHR 0xD3, CHR 0xB6]),
      ([CHR 0xD3, CHR 0xB9], [CHR 0xD3, CHR 0xB8]),
      ([CHR 0xD3, CHR 0xBB], [CHR 0xD3, CHR 0xBA]),
      ([CHR 0xD3, CHR 0xBD], [CHR 0xD3, CHR 0xBC]),
      ([CHR 0xD3, CHR 0xBF], [CHR 0xD3, CHR 0xBE])]"

definition upperD4 :: "(string \<times> string) list" where
  "upperD4 =
     [([CHR 0xD4, CHR 0x81], [CHR 0xD4, CHR 0x80]),
      ([CHR 0xD4, CHR 0x83], [CHR 0xD4, CHR 0x82]),
      ([CHR 0xD4, CHR 0x85], [CHR 0xD4, CHR 0x84]),
      ([CHR 0xD4, CHR 0x87], [CHR 0xD4, CHR 0x86]),
      ([CHR 0xD4, CHR 0x89], [CHR 0xD4, CHR 0x88]),
      ([CHR 0xD4, CHR 0x8B], [CHR 0xD4, CHR 0x8A]),
      ([CHR 0xD4, CHR 0x8D], [CHR 0xD4, CHR 0x8C]),
      ([CHR 0xD4, CHR 0x8F], [CHR 0xD4, CHR 0x8E]),
      ([CHR 0xD4, CHR 0x91], [CHR 0xD4, CHR 0x90]),
      ([CHR 0xD4, CHR 0x93], [CHR 0xD4, CHR 0x92]),
      ([CHR 0xD4, CHR 0x95], [CHR 0xD4, CHR 0x94]),
      ([CHR 0xD4, CHR 0x97], [CHR 0xD4, CHR 0x96]),
      ([CHR 0xD4, CHR 0x99], [CHR 0xD4, CHR 0x98]),
      ([CHR 0xD4, CHR 0x9B], [CHR 0xD4, CHR 0x9A]),
      ([CHR 0xD4, CHR 0x9D], [CHR 0xD4, CHR 0x9C]),
      ([CHR 0xD4, CHR 0x9F], [CHR 0xD4, CHR 0x9E]),
      ([CHR 0xD4, CHR 0xA1], [CHR 0xD4, CHR 0xA0]),
      ([CHR 0xD4, CHR 0xA3], [CHR 0xD4, CHR 0xA2]),
      ([CHR 0xD4, CHR 0xA5], [CHR 0xD4, CHR 0xA4]),
      ([CHR 0xD4, CHR 0xA7], [CHR 0xD4, CHR 0xA6]),
      ([CHR 0xD4, CHR 0xA9], [CHR 0xD4, CHR 0xA8]),
      ([CHR 0xD4, CHR 0xAB], [CHR 0xD4, CHR 0xAA]),
      ([CHR 0xD4, CHR 0xAD], [CHR 0xD4, CHR 0xAC]),
      ([CHR 0xD4, CHR 0xAF], [CHR 0xD4, CHR 0xAE])]"

definition upperD5 :: "(string \<times> string) list" where
  "upperD5 =
     [([CHR 0xD5, CHR 0xA1], [CHR 0xD4, CHR 0xB1]),
      ([CHR 0xD5, CHR 0xA2], [CHR 0xD4, CHR 0xB2]),
      ([CHR 0xD5, CHR 0xA3], [CHR 0xD4, CHR 0xB3]),
      ([CHR 0xD5, CHR 0xA4], [CHR 0xD4, CHR 0xB4]),
      ([CHR 0xD5, CHR 0xA5], [CHR 0xD4, CHR 0xB5]),
      ([CHR 0xD5, CHR 0xA6], [CHR 0xD4, CHR 0xB6]),
      ([CHR 0xD5, CHR 0xA7], [CHR 0xD4, CHR 0xB7]),
      ([CHR 0xD5, CHR 0xA8], [CHR 0xD4, CHR 0xB8]),
      ([CHR 0xD5, CHR 0xA9], [CHR 0xD4, CHR 0xB9]),
      ([CHR 0xD5, CHR 0xAA], [CHR 0xD4, CHR 0xBA]),
      ([CHR 0xD5, CHR 0xAB], [CHR 0xD4, CHR 0xBB]),
      ([CHR 0xD5, CHR 0xAC], [CHR 0xD4, CHR 0xBC]),
      ([CHR 0xD5, CHR 0xAD], [CHR 0xD4, CHR 0xBD]),
      ([CHR 0xD5, CHR 0xAE], [CHR 0xD4, CHR 0xBE]),
      ([CHR 0xD5, CHR 0xAF], [CHR 0xD4, CHR 0xBF]),
      ([CHR 0xD5, CHR 0xB0], [CHR 0xD5, CHR 0x80]),
      ([CHR 0xD5, CHR 0xB1], [CHR 0xD5, CHR 0x81]),
      ([CHR 0xD5, CHR 0xB2], [CHR 0xD5, CHR 0x82]),
      ([CHR 0xD5, CHR 0xB3], [CHR 0xD5, CHR 0x83]),
      ([CHR 0xD5, CHR 0xB4], [CHR 0xD5, CHR 0x84]),
      ([CHR 0xD5, CHR 0xB5], [CHR 0xD5, CHR 0x85]),
      ([CHR 0xD5, CHR 0xB6], [CHR 0xD5, CHR 0x86]),
      ([CHR 0xD5, CHR 0xB7], [CHR 0xD5, CHR 0x87]),
      ([CHR 0xD5, CHR 0xB8], [CHR 0xD5, CHR 0x88]),
      ([CHR 0xD5, CHR 0xB9], [CHR 0xD5, CHR 0x89]),
      ([CHR 0xD5, CHR 0xBA], [CHR 0xD5, CHR 0x8A]),
      ([CHR 0xD5, CHR 0xBB], [CHR 0xD5, CHR 0x8B]),
      ([CHR 0xD5, CHR 0xBC], [CHR 0xD5, CHR 0x8C]),
      ([CHR 0xD5, CHR 0xBD], [CHR 0xD5, CHR 0x8D]),
      ([CHR 0xD5, CHR 0xBE], [CHR 0xD5, CHR 0x8E]),
      ([CHR 0xD5, CHR 0xBF], [CHR 0xD5, CHR 0x8F])]"

definition upperD6 :: "(string \<times> string) list" where
  "upperD6 =
     [([CHR 0xD6, CHR 0x80], [CHR 0xD5, CHR 0x90]),
      ([CHR 0xD6, CHR 0x81], [CHR 0xD5, CHR 0x91]),
      ([CHR 0xD6, CHR 0x82], [CHR 0xD5, CHR 0x92]),
      ([CHR 0xD6, CHR 0x83], [CHR 0xD5, CHR 0x93]),
      ([CHR 0xD6, CHR 0x84], [CHR 0xD5, CHR 0x94]),
      ([CHR 0xD6, CHR 0x85], [CHR 0xD5, CHR 0x95]),
      ([CHR 0xD6, CHR 0x86], [CHR 0xD5, CHR 0x96]),
      ([CHR 0xD6, CHR 0x87], [CHR 0xD4, CHR 0xB5, CHR 0xD5, CHR 0x92])]"

definition upperE1 :: "(string \<times> string) list" where
  "upperE1 =
     [([CHR 0xE1, CHR 0x83, CHR 0x90], [CHR 0xE1, CHR 0xB2, CHR 0x90]),
      ([CHR 0xE1, CHR 0x83, CHR 0x91], [CHR 0xE1, CHR 0xB2, CHR 0x91]),
      ([CHR 0xE1, CHR 0x83, CHR 0x92], [CHR 0xE1, CHR 0xB2, CHR 0x92]),
      ([CHR 0xE1, CHR 0x83, CHR 0x93], [CHR 0xE1, CHR 0xB2, CHR 0x93]),
      ([CHR 0xE1, CHR 0x83, CHR 0x94], [CHR 0xE1, CHR 0xB2, CHR 0x94]),
      ([CHR 0xE1, CHR 0x83, CHR 0x95], [CHR 0xE1, CHR 0xB2, CHR 0x95]),
      ([CHR 0xE1, CHR 0x83, CHR 0x96], [CHR 0xE1, CHR 0xB2, CHR 0x96]),
      ([CHR 0xE1, CHR 0x83, CHR 0x97], [CHR 0xE1, CHR 0xB2, CHR 0x97]),
      ([CHR 0xE1, CHR 0x83, CHR 0x98], [CHR 0xE1, CHR 0xB2, CHR 0x98]),
      ([CHR 0xE1, CHR 0x83, CHR 0x99], [CHR 0xE1, CHR 0xB2, CHR 0x99]),
      ([CHR 0xE1, CHR 0x83, CHR 0x9A], [CHR 0xE1, CHR 0xB2, CHR 0x9A]),
      ([CHR 0xE1, CHR 0x83, CHR 0x9B], [CHR 0xE1, CHR 0xB2, CHR 0x9B]),
      ([CHR 0xE1, CHR 0x83, CHR 0x9C], [CHR 0xE1, CHR 0xB2, CHR 0x9C]),
      ([CHR 0xE1, CHR 0x83, CHR 0x9D], [CHR 0xE1, CHR 0xB2, CHR 0x9D]),
      ([CHR 0xE1, CHR 0x83, CHR 0x9E], [CHR 0xE1, CHR 0xB2, CHR 0x9E]),
      ([CHR 0xE1, CHR 0x83, CHR 0x9F], [CHR 0xE1, CHR 0xB2, CHR 0x9F]),
      ([CHR 0xE1, CHR 0x83, CHR 0xA0], [CHR 0xE1, CHR 0xB2, CHR 0xA0]),
      ([CHR 0xE1, CHR 0x83, CHR 0xA1], [CHR 0xE1, CHR 0xB2, CHR 0xA1]),
      ([CHR 0xE1, CHR 0x83, CHR 0xA2], [CHR 0xE1, CHR 0xB2, CHR 0xA2]),
      ([CHR 0xE1, CHR 0x83, CHR 0xA3], [CHR 0xE1, CHR 0xB2, CHR 0xA3]),
      ([CHR 0xE1, CHR 0x83, CHR 0xA4], [CHR 0xE1, CHR 0xB2, CHR 0xA4]),
      ([CHR 0xE1, CHR 0x83, CHR 0xA5], [CHR 0xE1, CHR 0xB2, CHR 0xA5]),
      ([CHR 0xE1, CHR 0x83, CHR 0xA6], [CHR 0xE1, CHR 0xB2, CHR 0xA6]),
      ([CHR 0xE1, CHR 0x83, CHR 0xA7], [CHR 0xE1, CHR 0xB2, CHR 0xA7]),
      ([CHR 0xE1, CHR 0x83, CHR 0xA8], [CHR 0xE1, CHR 0xB2, CHR 0xA8]),
      ([CHR 0xE1, CHR 0x83, CHR 0xA9], [CHR 0xE1, CHR 0xB2, CHR 0xA9]),
      ([CHR 0xE1, CHR 0x83, CHR 0xAA], [CHR 0xE1, CHR 0xB2, CHR 0xAA]),
      ([CHR 0xE1, CHR 0x83, CHR 0xAB], [CHR 0xE1, CHR 0xB2, CHR 0xAB]),
      ([CHR 0xE1, CHR 0x83, CHR 0xAC], [CHR 0xE1, CHR 0xB2, CHR 0xAC]),
      ([CHR 0xE1, CHR 0x83, CHR 0xAD], [CHR 0xE1, CHR 0xB2, CHR 0xAD]),
      ([CHR 0xE1, CHR 0x83, CHR 0xAE], [CHR 0xE1, CHR 0xB2, CHR 0xAE]),
      ([CHR 0xE1, CHR 0x83, CHR 0xAF], [CHR 0xE1, CHR 0xB2, CHR 0xAF]),
      ([CHR 0xE1, CHR 0x83, CHR 0xB0], [CHR 0xE1, CHR 0xB2, CHR 0xB0]),
      ([CHR 0xE1, CHR 0x83, CHR 0xB1], [CHR 0xE1, CHR 0xB2, CHR 0xB1]),
      ([CHR 0xE1, CHR 0x83, CHR 0xB2], [CHR 0xE1, CHR 0xB2, CHR 0xB2]),
      ([CHR 0xE1, CHR 0x83, CHR 0xB3], [CHR 0xE1, CHR 0xB2, CHR 0xB3]),
      ([CHR 0xE1, CHR 0x83, CHR 0xB4], [CHR 0xE1, CHR 0xB2, CHR 0xB4]),
      ([CHR 0xE1, CHR 0x83, CHR 0xB5], [CHR 0xE1, CHR 0xB2, CHR 0xB5]),
      ([CHR 0xE1, CHR 0x83, CHR 0xB6], [CHR 0xE1, CHR 0xB2, CHR 0xB6]),
      ([CHR 0xE1, CHR 0x83, CHR 0xB7], [CHR 0xE1, CHR 0xB2, CHR 0xB7]),
      ([CHR 0xE1, CHR 0x83, CHR 0xB8], [CHR 0xE1, CHR 0xB2, CHR 0xB8]),
      ([CHR 0xE1, CHR 0x83, CHR 0xB9], [CHR 0xE1, CHR 0xB2, CHR 0xB9]),
      ([CHR 0xE1, CHR 0x83, CHR 0xBA], [CHR 0xE1, CHR 0xB2, CHR 0xBA]),
      ([CHR 0xE1, CHR 0x83, CHR 0xBD], [CHR 0xE1, CHR 0xB2, CHR 0xBD]),
      ([CHR 0xE1, CHR 0x83, CHR 0xBE], [CHR 0xE1, CHR 0xB2, CHR 0xBE]),
      ([CHR 0xE1, CHR 0x83, CHR 0xBF], [CHR 0xE1, CHR 0xB2, CHR 0xBF]),
      ([CHR 0xE1, CHR 0x8F, CHR 0xB8], [CHR 0xE1, CHR 0x8F, CHR 0xB0]),
      ([CHR 0xE1, CHR 0x8F, CHR 0xB9], [CHR 0xE1, CHR 0x8F, CHR 0xB1]),
      ([CHR 0xE1, CHR 0x8F, CHR 0xBA], [CHR 0xE1, CHR 0x8F, CHR 0xB2]),
      ([CHR 0xE1, CHR 0x8F, CHR 0xBB], [CHR 0xE1, CHR 0x8F, CHR 0xB3]),
      ([CHR 0xE1, CHR 0x8F, CHR 0xBC], [CHR 0xE1, CHR 0x8F, CHR 0xB4]),
      ([CHR 0xE1, CHR 0x8F, CHR 0xBD], [CHR 0xE1, CHR 0x8F, CHR 0xB5]),
      ([CHR 0xE1, CHR 0xB2, CHR 0x80], [CHR 0xD0, CHR 0x92]),
      ([CHR 0xE1, CHR 0xB2, CHR 0x81], [CHR 0xD0, CHR 0x94]),
      ([CHR 0xE1, CHR 0xB2, CHR 0x82], [CHR 0xD0, CHR 0x9E]),
      ([CHR 0xE1, CHR 0xB2, CHR 0x83], [CHR 0xD0, CHR 0xA1]),
      ([CHR 0xE1, CHR 0xB2, CHR 0x84], [CHR 0xD0, CHR 0xA2]),
      ([CHR 0xE1, CHR 0xB2, CHR 0x85], [CHR 0xD0, CHR 0xA2]),
      ([CHR 0xE1, CHR 0xB2, CHR 0x86], [CHR 0xD0, CHR 0xAA]),
      ([CHR 0xE1, CHR 0xB2, CHR 0x87], [CHR 0xD1, CHR 0xA2]),
      ([CHR 0xE1, CHR 0xB2, CHR 0x88], [CHR 0xEA, CHR 0x99, CHR 0x8A]),
      ([CHR 0xE1, CHR 0xB5, CHR 0xB9], [CHR 0xEA, CHR 0x9D, CHR 0xBD]),
      ([CHR 0xE1, CHR 0xB5, CHR 0xBD], [CHR 0xE2, CHR 0xB1, CHR 0xA3]),
      ([CHR 0xE1, CHR 0xB6, CHR 0x8E], [CHR 0xEA, CHR 0x9F, CHR 0x86]),
      ([CHR 0xE1, CHR 0xB8, CHR 0x81], [CHR 0xE1, CHR 0xB8, CHR 0x80]),
      ([CHR 0xE1, CHR 0xB8, CHR 0x83], [CHR 0xE1, CHR 0xB8, CHR 0x82]),
      ([CHR 0xE1, CHR 0xB8, CHR 0x85], [CHR 0xE1, CHR 0xB8, CHR 0x84]),
      ([CHR 0xE1, CHR 0xB8, CHR 0x87], [CHR 0xE1, CHR 0xB8, CHR 0x86]),
      ([CHR 0xE1, CHR 0xB8, CHR 0x89], [CHR 0xE1, CHR 0xB8, CHR 0x88]),
      ([CHR 0xE1, CHR 0xB8, CHR 0x8B], [CHR 0xE1, CHR 0xB8, CHR 0x8A]),
      ([CHR 0xE1, CHR 0xB8, CHR 0x8D], [CHR 0xE1, CHR 0xB8, CHR 0x8C]),
      ([CHR 0xE1, CHR 0xB8, CHR 0x8F], [CHR 0xE1, CHR 0xB8, CHR 0x8E]),
      ([CHR 0xE1, CHR 0xB8, CHR 0x91], [CHR 0xE1, CHR 0xB8, CHR 0x90]),
      ([CHR 0xE1, CHR 0xB8, CHR 0x93], [CHR 0xE1, CHR 0xB8, CHR 0x92]),
      ([CHR 0xE1, CHR 0xB8, CHR 0x95], [CHR 0xE1, CHR 0xB8, CHR 0x94]),
      ([CHR 0xE1, CHR 0xB8, CHR 0x97], [CHR 0xE1, CHR 0xB8, CHR 0x96]),
      ([CHR 0xE1, CHR 0xB8, CHR 0x99], [CHR 0xE1, CHR 0xB8, CHR 0x98]),
      ([CHR 0xE1, CHR 0xB8, CHR 0x9B], [CHR 0xE1, CHR 0xB8, CHR 0x9A]),
      ([CHR 0xE1, CHR 0xB8, CHR 0x9D], [CHR 0xE1, CHR 0xB8, CHR 0x9C]),
      ([CHR 0xE1, CHR 0xB8, CHR 0x9F], [CHR 0xE1, CHR 0xB8, CHR 0x9E]),
      ([CHR 0xE1, CHR 0xB8, CHR 0xA1], [CHR 0xE1, CHR 0xB8, CHR 0xA0]),
      ([CHR 0xE1, CHR 0xB8, CHR 0xA3], [CHR 0xE1, CHR 0xB8, CHR 0xA2]),
      ([CHR 0xE1, CHR 0xB8, CHR 0xA5], [CHR 0xE1, CHR 0xB8, CHR 0xA4]),
      ([CHR 0xE1, CHR 0xB8, CHR 0xA7], [CHR 0xE1, CHR 0xB8, CHR 0xA6]),
      ([CHR 0xE1, CHR 0xB8, CHR 0xA9], [CHR 0xE1, CHR 0xB8, CHR 0xA8]),
      ([CHR 0xE1, CHR 0xB8, CHR 0xAB], [CHR 0xE1, CHR 0xB8, CHR 0xAA]),
      ([CHR 0xE1, CHR 0xB8, CHR 0xAD], [CHR 0xE1, CHR 0xB8, CHR 0xAC]),
      ([CHR 0xE1, CHR 0xB8, CHR 0xAF], [CHR 0xE1, CHR 0xB8, CHR 0xAE]),
      ([CHR 0xE1, CHR 0xB8, CHR 0xB1], [CHR 0xE1, CHR 0xB8, CHR 0xB0]),
      ([CHR 0xE1, CHR 0xB8, CHR 0xB3], [CHR 0xE1, CHR 0xB8, CHR 0xB2]),
      ([CHR 0xE1, CHR 0xB8, CHR 0xB5], [CHR 0xE1, CHR 0xB8, CHR 0xB4]),
      ([CHR 0xE1, CHR 0xB8, CHR 0xB7], [CHR 0xE1, CHR 0xB8, CHR 0xB6]),
      ([CHR 0xE1, CHR 0xB8, CHR 0xB9], [CHR 0xE1, CHR 0xB8, CHR 0xB8]),
      ([CHR 0xE1, CHR 0xB8, CHR 0xBB], [CHR 0xE1, CHR 0xB8, CHR 0xBA]),
      ([CHR 0xE1, CHR 0xB8, CHR 0xBD], [CHR 0xE1, CHR 0xB8, CHR 0xBC]),
      ([CHR 0xE1, CHR 0xB8, CHR 0xBF], [CHR 0xE1, CHR 0xB8, CHR 0xBE]),
      ([CHR 0xE1, CHR 0xB9, CHR 0x81], [CHR 0xE1, CHR 0xB9, CHR 0x80]),
      ([CHR 0xE1, CHR 0xB9, CHR 0x83], [CHR 0xE1, CHR 0xB9, CHR 0x82]),
      ([CHR 0xE1, CHR 0xB9, CHR 0x85], [CHR 0xE1, CHR 0xB9, CHR 0x84]),
      ([CHR 0xE1, CHR 0xB9, CHR 0x87], [CHR 0xE1, CHR 0xB9, CHR 0x86]),
      ([CHR 0xE1, CHR 0xB9, CHR 0x89], [CHR 0xE1, CHR 0xB9, CHR 0x88]),
      ([CHR 0xE1, CHR 0xB9, CHR 0x8B], [CHR 0xE1, CHR 0xB9, CHR 0x8A]),
      ([CHR 0xE1, CHR 0xB9, CHR 0x8D], [CHR 0xE1, CHR 0xB9, CHR 0x8C]),
      ([CHR 0xE1, CHR 0xB9, CHR 0x8F], [CHR 0xE1, CHR 0xB9, CHR 0x8E]),
      ([CHR 0xE1, CHR 0xB9, CHR 0x91], [CHR 0xE1, CHR 0xB9, CHR 0x90]),
      ([CHR 0xE1, CHR 0xB9, CHR 0x93], [CHR 0xE1, CHR 0xB9, CHR 0x92]),
      ([CHR 0xE1, CHR 0xB9, CHR 0x95], [CHR 0xE1, CHR 0xB9, CHR 0x94]),
      ([CHR 0xE1, CHR 0xB9, CHR 0x97], [CHR 0xE1, CHR 0xB9, CHR 0x96]),
      ([CHR 0xE1, CHR 0xB9, CHR 0x99], [CHR 0xE1, CHR 0xB9, CHR 0x98]),
      ([CHR 0xE1, CHR 0xB9, CHR 0x9B], [CHR 0xE1, CHR 0xB9, CHR 0x9A]),
      ([CHR 0xE1, CHR 0xB9, CHR 0x9D], [CHR 0xE1, CHR 0xB9, CHR 0x9C]),
      ([CHR 0xE1, CHR 0xB9, CHR 0x9F], [CHR 0xE1, CHR 0xB9, CHR 0x9E]),
      ([CHR 0xE1, CHR 0xB9, CHR 0xA1], [CHR 0xE1, CHR 0xB9, CHR 0xA0]),
      ([CHR 0xE1, CHR 0xB9, CHR 0xA3], [CHR 0xE1, CHR 0xB9, CHR 0xA2]),
      ([CHR 0xE1, CHR 0xB9, CHR 0xA5], [CHR 0xE1, CHR 0xB9, CHR 0xA4]),
      ([CHR 0xE1, CHR 0xB9, CHR 0xA7], [CHR 0xE1, CHR 0xB9, CHR 0xA6]),
      ([CHR 0xE1, CHR 0xB9, CHR 0xA9], [CHR 0xE1, CHR 0xB9, CHR 0xA8]),
      ([CHR 0xE1, CHR 0xB9, CHR 0xAB], [CHR 0xE1, CHR 0xB9, CHR 0xAA]),
      ([CHR 0xE1, CHR 0xB9, CHR 0xAD], [CHR 0xE1, CHR 0xB9, CHR 0xAC]),
      ([CHR 0xE1, CHR 0xB9, CHR 0xAF], [CHR 0xE1, CHR 0xB9, CHR 0xAE]),
      ([CHR 0xE1, CHR 0xB9, CHR 0xB1], [CHR 0xE1, CHR 0xB9, CHR 0xB0]),
      ([CHR 0xE1, CHR 0xB9, CHR 0xB3], [CHR 0xE1, CHR 0xB9, CHR 0xB2]),
      ([CHR 0xE1, CHR 0xB9, CHR 0xB5], [CHR 0xE1, CHR 0xB9, CHR 0xB4]),
      ([CHR 0xE1, CHR 0xB9, CHR 0xB7], [CHR 0xE1, CHR 0xB9, CHR 0xB6]),
      ([CHR 0xE1, CHR 0xB9, CHR 0xB9], [CHR 0xE1, CHR 0xB9, CHR 0xB8]),
      ([CHR 0xE1, CHR 0xB9, CHR 0xBB], [CHR 0xE1, CHR 0xB9, CHR 0xBA]),
      ([CHR 0xE1, CHR 0xB9, CHR 0xBD], [CHR 0xE1, CHR 0xB9, CHR 0xBC]),
      ([CHR 0xE1, CHR 0xB9, CHR 0xBF], [CHR 0xE1, CHR 0xB9, CHR 0xBE]),
      ([CHR 0xE1, CHR 0xBA, CHR 0x81], [CHR 0xE1, CHR 0xBA, CHR 0x80]),
      ([CHR 0xE1, CHR 0xBA, CHR 0x83], [CHR 0xE1, CHR 0xBA, CHR 0x82]),
      ([CHR 0xE1, CHR 0xBA, CHR 0x85], [CHR 0xE1, CHR 0xBA, CHR 0x84]),
      ([CHR 0xE1, CHR 0xBA, CHR 0x87], [CHR 0xE1, CHR 0xBA, CHR 0x86]),
      ([CHR 0xE1, CHR 0xBA, CHR 0x89], [CHR 0xE1, CHR 0xBA, CHR 0x88]),
      ([CHR 0xE1, CHR 0xBA, CHR 0x8B], [CHR 0xE1, CHR 0xBA, CHR 0x8A]),
      ([CHR 0xE1, CHR 0xBA, CHR 0x8D], [CHR 0xE1, CHR 0xBA, CHR 0x8C]),
      ([CHR 0xE1, CHR 0xBA, CHR 0x8F], [CHR 0xE1, CHR 0xBA, CHR 0x8E]),
      ([CHR 0xE1, CHR 0xBA, CHR 0x91], [CHR 0xE1, CHR 0xBA, CHR 0x90]),
      ([CHR 0xE1, CHR 0xBA, CHR 0x93], [CHR 0xE1, CHR 0xBA, CHR 0x92]),
      ([CHR 0xE1, CHR 0xBA, CHR 0x95], [CHR 0xE1, CHR 0xBA, CHR 0x94]),
      ([CHR 0xE1, CHR 0xBA, CHR 0x96], [CHR 0x48, CHR 0xCC, CHR 0xB1]),
      ([CHR 0xE1, CHR 0xBA, CHR 0x97], [CHR 0x54, CHR 0xCC, CHR 0x88]),
      ([CHR 0xE1, CHR 0xBA, CHR 0x98], [CHR 0x57, CHR 0xCC, CHR 0x8A]),
      ([CHR 0xE1, CHR 0xBA, CHR 0x99], [CHR 0x59, CHR 0xCC, CHR 0x8A]),
      ([CHR 0xE1, CHR 0xBA, CHR 0x9A], [CHR 0x41, CHR 0xCA, CHR 0xBE]),
      ([CHR 0xE1, CHR 0xBA, CHR 0x9B], [CHR 0xE1, CHR 0xB9, CHR 0xA0]),
      ([CHR 0xE1, CHR 0xBA, CHR 0xA1], [CHR 0xE1, CHR 0xBA, CHR 0xA0]),
      ([CHR 0xE1, CHR 0xBA, CHR 0xA3], [CHR 0xE1, CHR 0xBA, CHR 0xA2]),
      ([CHR 0xE1, CHR 0xBA, CHR 0xA5], [CHR 0xE1, CHR 0xBA, CHR 0xA4]),
      ([CHR 0xE1, CHR 0xBA, CHR 0xA7], [CHR 0xE1, CHR 0xBA, CHR 0xA6]),
      ([CHR 0xE1, CHR 0xBA, CHR 0xA9], [CHR 0xE1, CHR 0xBA, CHR 0xA8]),
      ([CHR 0xE1, CHR 0xBA, CHR 0xAB], [CHR 0xE1, CHR 0xBA, CHR 0xAA]),
      ([CHR 0xE1, CHR 0xBA, CHR 0xAD], [CHR 0xE1, CHR 0xBA, CHR 0xAC]),
      ([CHR 0xE1, CHR 0xBA, CHR 0xAF], [CHR 0xE1, CHR 0xBA, CHR 0xAE]),
      ([CHR 0xE1, CHR 0xBA, CHR 0xB1], [CHR 0xE1, CHR 0xBA, CHR 0xB0]),
      ([CHR 0xE1, CHR 0xBA, CHR 0xB3], [CHR 0xE1, CHR 0xBA, CHR 0xB2]),
      ([CHR 0xE1, CHR 0xBA, CHR 0xB5], [CHR 0xE1, CHR 0xBA, CHR 0xB4]),
      ([CHR 0xE1, CHR 0xBA, CHR 0xB7], [CHR 0xE1, CHR 0xBA, CHR 0xB6]),
      ([CHR 0xE1, CHR 0xBA, CHR 0xB9], [CHR 0xE1, CHR 0xBA, CHR 0xB8]),
      ([CHR 0xE1, CHR 0xBA, CHR 0xBB], [CHR 0xE1, CHR 0xBA, CHR 0xBA]),
      ([CHR 0xE1, CHR 0xBA, CHR 0xBD], [CHR 0xE1, CHR 0xBA, CHR 0xBC]),
      ([CHR 0xE1, CHR 0xBA, CHR 0xBF], [CHR 0xE1, CHR 0xBA, CHR 0xBE]),
      ([CHR 0xE1, CHR 0xBB, CHR 0x81], [CHR 0xE1, CHR 0xBB, CHR 0x80]),
      ([CHR 0xE1, CHR 0xBB, CHR 0x83], [CHR 0xE1, CHR 0xBB, CHR 0x82]),
      ([CHR 0xE1, CHR 0xBB, CHR 0x85], [CHR 0xE1, CHR 0xBB, CHR 0x84]),
      ([CHR 0xE1, CHR 0xBB, CHR 0x87], [CHR 0xE1, CHR 0xBB, CHR 0x86]),
      ([CHR 0xE1, CHR 0xBB, CHR 0x89], [CHR 0xE1, CHR 0xBB, CHR 0x88]),
      ([CHR 0xE1, CHR 0xBB, CHR 0x8B], [CHR 0xE1, CHR 0xBB, CHR 0x8A]),
      ([CHR 0xE1, CHR 0xBB, CHR 0x8D], [CHR 0xE1, CHR 0xBB, CHR 0x8C]),
      ([CHR 0xE1, CHR 0xBB, CHR 0x8F], [CHR 0xE1, CHR 0xBB, CHR 0x8E]),
      ([CHR 0xE1, CHR 0xBB, CHR 0x91], [CHR 0xE1, CHR 0xBB, CHR 0x90]),
      ([CHR 0xE1, CHR 0xBB, CHR 0x93], [CHR 0xE1, CHR 0xBB, CHR 0x92]),
      ([CHR 0xE1, CHR 0xBB, CHR 0x95], [CHR 0xE1, CHR 0xBB, CHR 0x94]),
      ([CHR 0xE1, CHR 0xBB, CHR 0x97], [CHR 0xE1, CHR 0xBB, CHR 0x96]),
      ([CHR 0xE1, CHR 0xBB, CHR 0x99], [CHR 0xE1, CHR 0xBB, CHR 0x98]),
      ([CHR 0xE1, CHR 0xBB, CHR 0x9B], [CHR 0xE1, CHR 0xBB, CHR 0x9A]),
      ([CHR 0xE1, CHR 0xBB, CHR 0x9D], [CHR 0xE1, CHR 0xBB, CHR 0x9C]),
      ([CHR 0xE1, CHR 0xBB, CHR 0x9F], [CHR 0xE1, CHR 0xBB, CHR 0x9E]),
      ([CHR 0xE1, CHR 0xBB, CHR 0xA1], [CHR 0xE1, CHR 0xBB, CHR 0xA0]),
      ([CHR 0xE1, CHR 0xBB, CHR 0xA3], [CHR 0xE1, CHR 0xBB, CHR 0xA2]),
      ([CHR 0xE1, CHR 0xBB, CHR 0xA5], [CHR 0xE1, CHR 0xBB, CHR 0xA4]),
      ([CHR 0xE1, CHR 0xBB, CHR 0xA7], [CHR 0xE1, CHR 0xBB, CHR 0xA6]),
      ([CHR 0xE1, CHR 0xBB, CHR 0xA9], [CHR 0xE1, CHR 0xBB, CHR 0xA8]),
      ([CHR 0xE1, CHR 0xBB, CHR 0xAB], [CHR 0xE1, CHR 0xBB, CHR 0xAA]),
      ([CHR 0xE1, CHR 0xBB, CHR 0xAD], [CHR 0xE1, CHR 0xBB, CHR 0xAC]),
      ([CHR 0xE1, CHR 0xBB, CHR 0xAF], [CHR 0xE1, CHR 0xBB, CHR 0xAE]),
      ([CHR 0xE1, CHR 0xBB, CHR 0xB1], [CHR 0xE1, CHR 0xBB, CHR 0xB0]),
      ([CHR 0xE1, CHR 0xBB, CHR 0xB3], [CHR 0xE1, CHR 0xBB, CHR 0xB2]),
      ([CHR 0xE1, CHR 0xBB, CHR 0xB5], [CHR 0xE1, CHR 0xBB, CHR 0xB4]),
      ([CHR 0xE1, CHR 0xBB, CHR 0xB7], [CHR 0xE1, CHR 0xBB, CHR 0xB6]),
      ([CHR 0xE1, CHR 0xBB, CHR 0xB9], [CHR 0xE1, CHR 0xBB, CHR 0xB8]),
      ([CHR 0xE1, CHR 0xBB, CHR 0xBB], [CHR 0xE1, CHR 0xBB, CHR 0xBA]),
      ([CHR 0xE1, CHR 0xBB, CHR 0xBD], [CHR 0xE1, CHR 0xBB, CHR 0xBC]),
      ([CHR 0xE1, CHR 0xBB, CHR 0xBF], [CHR 0xE1, CHR 0xBB, CHR 0xBE]),
      ([CHR 0xE1, CHR 0xBC, CHR 0x80], [CHR 0xE1, CHR 0xBC, CHR 0x88]),
      ([CHR 0xE1, CHR 0xBC, CHR 0x81], [CHR 0xE1, CHR 0xBC, CHR 0x89]),
      ([CHR 0xE1, CHR 0xBC, CHR 0x82], [CHR 0xE1, CHR 0xBC, CHR 0x8A]),
      ([CHR 0xE1, CHR 0xBC, CHR 0x83], [CHR 0xE1, CHR 0xBC, CHR 0x8B]),
      ([CHR 0xE1, CHR 0xBC, CHR 0x84], [CHR 0xE1, CHR 0xBC, CHR 0x8C]),
      ([CHR 0xE1, CHR 0xBC, CHR 0x85], [CHR 0xE1, CHR 0xBC, CHR 0x8D]),
      ([CHR 0xE1, CHR 0xBC, CHR 0x86], [CHR 0xE1, CHR 0xBC, CHR 0x8E]),
      ([CHR 0xE1, CHR 0xBC, CHR 0x87], [CHR 0xE1, CHR 0xBC, CHR 0x8F]),
      ([CHR 0xE1, CHR 0xBC, CHR 0x90], [CHR 0xE1, CHR 0xBC, CHR 0x98]),
      ([CHR 0xE1, CHR 0xBC, CHR 0x91], [CHR 0xE1, CHR 0xBC, CHR 0x99]),
      ([CHR 0xE1, CHR 0xBC, CHR 0x92], [CHR 0xE1, CHR 0xBC, CHR 0x9A]),
      ([CHR 0xE1, CHR 0xBC, CHR 0x93], [CHR 0xE1, CHR 0xBC, CHR 0x9B]),
      ([CHR 0xE1, CHR 0xBC, CHR 0x94], [CHR 0xE1, CHR 0xBC, CHR 0x9C]),
      ([CHR 0xE1, CHR 0xBC, CHR 0x95], [CHR 0xE1, CHR 0xBC, CHR 0x9D]),
      ([CHR 0xE1, CHR 0xBC, CHR 0xA0], [CHR 0xE1, CHR 0xBC, CHR 0xA8]),
      ([CHR 0xE1, CHR 0xBC, CHR 0xA1], [CHR 0xE1, CHR 0xBC, CHR 0xA9]),
      ([CHR 0xE1, CHR 0xBC, CHR 0xA2], [CHR 0xE1, CHR 0xBC, CHR 0xAA]),
      ([CHR 0xE1, CHR 0xBC, CHR 0xA3], [CHR 0xE1, CHR 0xBC, CHR 0xAB]),
      ([CHR 0xE1, CHR 0xBC, CHR 0xA4], [CHR 0xE1, CHR 0xBC, CHR 0xAC]),
      ([CHR 0xE1, CHR 0xBC, CHR 0xA5], [CHR 0xE1, CHR 0xBC, CHR 0xAD]),
      ([CHR 0xE1, CHR 0xBC, CHR 0xA6], [CHR 0xE1, CHR 0xBC, CHR 0xAE]),
      ([CHR 0xE1, CHR 0xBC, CHR 0xA7], [CHR 0xE1, CHR 0xBC, CHR 0xAF]),
      ([CHR 0xE1, CHR 0xBC, CHR 0xB0], [CHR 0xE1, CHR 0xBC, CHR 0xB8]),
      ([CHR 0xE1, CHR 0xBC, CHR 0xB1], [CHR 0xE1, CHR 0xBC, CHR 0xB9]),
      ([CHR 0xE1, CHR 0xBC, CHR 0xB2], [CHR 0xE1, CHR 0xBC, CHR 0xBA]),
      ([CHR 0xE1, CHR 0xBC, CHR 0xB3], [CHR 0xE1, CHR 0xBC, CHR 0xBB]),
      ([CHR 0xE1, CHR 0xBC, CHR 0xB4], [CHR 0xE1, CHR 0xBC, CHR 0xBC]),
      ([CHR 0xE1, CHR 0xBC, CHR 0xB5], [CHR 0xE1, CHR 0xBC, CHR 0xBD]),
      ([CHR 0xE1, CHR 0xBC, CHR 0xB6], [CHR 0xE1, CHR 0xBC, CHR 0xBE]),
      ([CHR 0xE1, CHR 0xBC, CHR 0xB7], [CHR 0xE1, CHR 0xBC, CHR 0xBF]),
      ([CHR 0xE1, CHR 0xBD, CHR 0x80], [CHR 0xE1, CHR 0xBD, CHR 0x88]),
      ([CHR 0xE1, CHR 0xBD, CHR 0x81], [CHR 0xE1, CHR 0xBD, CHR 0x89]),
      ([CHR 0xE1, CHR 0xBD, CHR 0x82], [CHR 0xE1, CHR 0xBD, CHR 0x8A]),
      ([CHR 0xE1, CHR 0xBD, CHR 0x83], [CHR 0xE1, CHR 0xBD, CHR 0x8B]),
      ([CHR 0xE1, CHR 0xBD, CHR 0x84], [CHR 0xE1, CHR 0xBD, CHR 0x8C]),
      ([CHR 0xE1, CHR 0xBD, CHR 0x85], [CHR 0xE1, CHR 0xBD, CHR 0x8D]),
      ([CHR 0xE1, CHR 0xBD, CHR 0x90], [CHR 0xCE, CHR 0xA5, CHR 0xCC, CHR 0x93]),
      ([CHR 0xE1, CHR 0xBD, CHR 0x91], [CHR 0xE1, CHR 0xBD, CHR 0x99]),
      ([CHR 0xE1, CHR 0xBD, CHR 0x92], [CHR 0xCE, CHR 0xA5, CHR 0xCC, CHR 0x93, CHR 0xCC, CHR 0x80]),
      ([CHR 0xE1, CHR 0xBD, CHR 0x93], [CHR 0xE1, CHR 0xBD, CHR 0x9B]),
      ([CHR 0xE1, CHR 0xBD, CHR 0x94], [CHR 0xCE, CHR 0xA5, CHR 0xCC, CHR 0x93, CHR 0xCC, CHR 0x81]),
      ([CHR 0xE1, CHR 0xBD, CHR 0x95], [CHR 0xE1, CHR 0xBD, CHR 0x9D]),
      ([CHR 0xE1, CHR 0xBD, CHR 0x96], [CHR 0xCE, CHR 0xA5, CHR 0xCC, CHR 0x93, CHR 0xCD, CHR 0x82]),
      ([CHR 0xE1, CHR 0xBD, CHR 0x97], [CHR 0xE1, CHR 0xBD, CHR 0x9F]),
      ([CHR 0xE1, CHR 0xBD, CHR 0xA0], [CHR 0xE1, CHR 0xBD, CHR 0xA8]),
      ([CHR 0xE1, CHR 0xBD, CHR 0xA1], [CHR 0xE1, CHR 0xBD, CHR 0xA9]),
      ([CHR 0xE1, CHR 0xBD, CHR 0xA2], [CHR 0xE1, CHR 0xBD, CHR 0xAA]),
      ([CHR 0xE1, CHR 0xBD, CHR 0xA3], [CHR 0xE1, CHR 0xBD, CHR 0xAB]),
      ([CHR 0xE1, CHR 0xBD, CHR 0xA4], [CHR 0xE1, CHR 0xBD, CHR 0xAC]),
      ([CHR 0xE1, CHR 0xBD, CHR 0xA5], [CHR 0xE1, CHR 0xBD, CHR 0xAD]),
      ([CHR 0xE1, CHR 0xBD, CHR 0xA6], [CHR 0xE1, CHR 0xBD, CHR 0xAE]),
      ([CHR 0xE1, CHR 0xBD, CHR 0xA7], [CHR 0xE1, CHR 0xBD, CHR 0xAF]),
      ([CHR 0xE1, CHR 0xBD, CHR 0xB0], [CHR 0xE1, CHR 0xBE, CHR 0xBA]),
      ([CHR 0xE1, CHR 0xBD, CHR 0xB1], [CHR 0xE1, CHR 0xBE, CHR 0xBB]),
      ([CHR 0xE1, CHR 0xBD, CHR 0xB2], [CHR 0xE1, CHR 0xBF, CHR 0x88]),
      ([CHR 0xE1, CHR 0xBD, CHR 0xB3], [CHR 0xE1, CHR 0xBF, CHR 0x89]),
      ([CHR 0xE1, CHR 0xBD, CHR 0xB4], [CHR 0xE1, CHR 0xBF, CHR 0x8A]),
      ([CHR 0xE1, CHR 0xBD, CHR 0xB5], [CHR 0xE1, CHR 0xBF, CHR 0x8B]),
      ([CHR 0xE1, CHR 0xBD, CHR 0xB6], [CHR 0xE1, CHR 0xBF, CHR 0x9A]),
      ([CHR 0xE1, CHR 0xBD, CHR 0xB7], [CHR 0xE1, CHR 0xBF, CHR 0x9B]),
      ([CHR 0xE1, CHR 0xBD, CHR 0xB8], [CHR 0xE1, CHR 0xBF, CHR 0xB8]),
      ([CHR 0xE1, CHR 0xBD, CHR 0xB9], [CHR 0xE1, CHR 0xBF, CHR 0xB9]),
      ([CHR 0xE1, CHR 0xBD, CHR 0xBA], [CHR 0xE1, CHR 0xBF, CHR 0xAA]),
      ([CHR 0xE1, CHR 0xBD, CHR 0xBB], [CHR 0xE1, CHR 0xBF, CHR 0xAB]),
      ([CHR 0xE1, CHR 0xBD, CHR 0xBC], [CHR 0xE1, CHR 0xBF, CHR 0xBA]),
      ([CHR 0xE1, CHR 0xBD, CHR 0xBD], [CHR 0xE1, CHR 0xBF, CHR 0xBB]),
      ([CHR 0xE1, CHR 0xBE, CHR 0x80], [CHR 0xE1, CHR 0xBC, CHR 0x88, CHR 0xCE, CHR 0x99]),
      ([CHR 0xE1, CHR 0xBE, CHR 0x81], [CHR 0xE1, CHR 0xBC, CHR 0x89, CHR 0xCE, CHR 0x99]),
      ([CHR 0xE1, CHR 0xBE, CHR 0x82], [CHR 0xE1, CHR 0xBC, CHR 0x8A, CHR 0xCE, CHR 0x99]),
      ([CHR 0xE1, CHR 0xBE, CHR 0x83], [CHR 0xE1, CHR 0xBC, CHR 0x8B, CHR 0xCE, CHR 0x99]),
      ([CHR 0xE1, CHR 0xBE, CHR 0x84], [CHR 0xE1, CHR 0xBC, CHR 0x8C, CHR 0xCE, CHR 0x99]),
      ([CHR 0xE1, CHR 0xBE, CHR 0x85], [CHR 0xE1, CHR 0xBC, CHR 0x8D, CHR 0xCE, CHR 0x99]),
      ([CHR 0xE1, CHR 0xBE, CHR 0x86], [CHR 0xE1, CHR 0xBC, CHR 0x8E, CHR 0xCE, CHR 0x99]),
      ([CHR 0xE1, CHR 0xBE, CHR 0x87], [CHR 0xE1, CHR 0xBC, CHR 0x8F, CHR 0xCE, CHR 0x99]),
      ([CHR 0xE1, CHR 0xBE, CHR 0x88], [CHR 0xE1, CHR 0xBC, CHR 0x88, CHR 0xCE, CHR 0x99]),
      ([CHR 0xE1, CHR 0xBE, CHR 0x89], [CHR 0xE1, CHR 0xBC, CHR 0x89, CHR 0xCE, CHR 0x99]),
      ([CHR 0xE1, CHR 0xBE, CHR 0x8A], [CHR 0xE1, CHR 0xBC, CHR 0x8A, CHR 0xCE, CHR 0x99]),
      ([CHR 0xE1, CHR 0xBE, CHR 0x8B], [CHR 0xE1, CHR 0xBC, CHR 0x8B, CHR 0xCE, CHR 0x99]),
      ([CHR 0xE1, CHR 0xBE, CHR 0x8C], [CHR 0xE1, CHR 0xBC, CHR 0x8C, CHR 0xCE, CHR 0x99]),
      ([CHR 0xE1, CHR 0xBE, CHR 0x8D], [CHR 0xE1, CHR 0xBC, CHR 0x8D, CHR 0xCE, CHR 0x99]),
      ([CHR 0xE1, CHR 0xBE, CHR 0x8E], [CHR 0xE1, CHR 0xBC, CHR 0x8E, CHR 0xCE, CHR 0x99]),
      ([CHR 0xE1, CHR 0xBE, CHR 0x8F], [CHR 0xE1, CHR 0xBC, CHR 0x8F, CHR 0xCE, CHR 0x99]),
      ([CHR 0xE1, CHR 0xBE, CHR 0x90], [CHR 0xE1, CHR 0xBC, CHR 0xA8, CHR 0xCE, CHR 0x99]),
      ([CHR 0xE1, CHR 0xBE, CHR 0x91], [CHR 0xE1, CHR 0xBC, CHR 0xA9, CHR 0xCE, CHR 0x99]),
      ([CHR 0xE1, CHR 0xBE, CHR 0x92], [CHR 0xE1, CHR 0xBC, CHR 0xAA, CHR 0xCE, CHR 0x99]),
      ([CHR 0xE1, CHR 0xBE, CHR 0x93], [CHR 0xE1, CHR 0xBC, CHR 0xAB, CHR 0xCE, CHR 0x99]),
      ([CHR 0xE1, CHR 0xBE, CHR 0x94], [CHR 0xE1, CHR 0xBC, CHR 0xAC, CHR 0xCE, CHR 0x99]),
      ([CHR 0xE1, CHR 0xBE, CHR 0x95], [CHR 0xE1, CHR 0xBC, CHR 0xAD, CHR 0xCE, CHR 0x99]),
      ([CHR 0xE1, CHR 0xBE, CHR 0x96], [CHR 0xE1, CHR 0xBC, CHR 0xAE, CHR 0xCE, CHR 0x99]),
      ([CHR 0xE1, CHR 0xBE, CHR 0x97], [CHR 0xE1, CHR 0xBC, CHR 0xAF, CHR 0xCE, CHR 0x99]),
      ([CHR 0xE1, CHR 0xBE, CHR 0x98], [CHR 0xE1, CHR 0xBC, CHR 0xA8, CHR 0xCE, CHR 0x99]),
      ([CHR 0xE1, CHR 0xBE, CHR 0x99], [CHR 0xE1, CHR 0xBC, CHR 0xA9, CHR 0xCE, CHR 0x99]),
      ([CHR 0xE1, CHR 0xBE, CHR 0x9A], [CHR 0xE1, CHR 0xBC, CHR 0xAA, CHR 0xCE, CHR 0x99]),
      ([CHR 0xE1, CHR 0xBE, CHR 0x9B], [CHR 0xE1, CHR 0xBC, CHR 0xAB, CHR 0xCE, CHR 0x99]),
      ([CHR 0xE1, CHR 0xBE, CHR 0x9C], [CHR 0xE1, CHR 0xBC, CHR 0xAC, CHR 0xCE, CHR 0x99]),
      ([CHR 0xE1, CHR 0xBE, CHR 0x9D], [CHR 0xE1, CHR 0xBC, CHR 0xAD, CHR 0xCE, CHR 0x99]),
      ([CHR 0xE1, CHR 0xBE, CHR 0x9E], [CHR 0xE1, CHR 0xBC, CHR 0xAE, CHR 0xCE, CHR 0x99]),
      ([CHR 0xE1, CHR 0xBE, CHR 0x9F], [CHR 0xE1, CHR 0xBC, CHR 0xAF, CHR 0xCE, CHR 0x99]),
      ([CHR 0xE1, CHR 0xBE, CHR 0xA0], [CHR 0xE1, CHR 0xBD, CHR 0xA8, CHR 0xCE, CHR 0x99]),
      ([CHR 0xE1, CHR 0xBE, CHR 0xA1], [CHR 0xE1, CHR 0xBD, CHR 0xA9, CHR 0xCE, CHR 0x99]),
      ([CHR 0xE1, CHR 0xBE, CHR 0xA2], [CHR 0xE1, CHR 0xBD, CHR 0xAA, CHR 0xCE, CHR 0x99]),
      ([CHR 0xE1, CHR 0xBE, CHR 0xA3], [CHR 0xE1, CHR 0xBD, CHR 0xAB, CHR 0xCE, CHR 0x99]),
      ([CHR 0xE1, CHR 0xBE, CHR 0xA4], [CHR 0xE1, CHR 0xBD, CHR 0xAC, CHR 0xCE, CHR 0x99]),
      ([CHR 0xE1, CHR 0xBE, CHR 0xA5], [CHR 0xE1, CHR 0xBD, CHR 0xAD, CHR 0xCE, CHR 0x99]),
      ([CHR 0xE1, CHR 0xBE, CHR 0xA6], [CHR 0xE1, CHR 0xBD, CHR 0xAE, CHR 0xCE, CHR 0x99]),
      ([CHR 0xE1, CHR 0xBE, CHR 0xA7], [CHR 0xE1, CHR 0xBD, CHR 0xAF, CHR 0xCE, CHR 0x99]),
      ([CHR 0xE1, CHR 0xBE, CHR 0xA8], [CHR 0xE1, CHR 0xBD, CHR 0xA8, CHR 0xCE, CHR 0x99]),
      ([CHR 0xE1, CHR 0xBE, CHR 0xA9], [CHR 0xE1, CHR 0xBD, CHR 0xA9, CHR 0xCE, CHR 0x99]),
      ([CHR 0xE1, CHR 0xBE, CHR 0xAA], [CHR 0xE1, CHR 0xBD, CHR 0xAA, CHR 0xCE, CHR 0x99]),
      ([CHR 0xE1, CHR 0xBE, CHR 0xAB], [CHR 0xE1, CHR 0xBD, CHR 0xAB, CHR 0xCE, CHR 0x99]),
      ([CHR 0xE1, CHR 0xBE, CHR 0xAC], [CHR 0xE1, CHR 0xBD, CHR 0xAC, CHR 0xCE, CHR 0x99]),
      ([CHR 0xE1, CHR 0xBE, CHR 0xAD], [CHR 0xE1, CHR 0xBD, CHR 0xAD, CHR 0xCE, CHR 0x99]),
      ([CHR 0xE1, CHR 0xBE, CHR 0xAE], [CHR 0xE1, CHR 0xBD, CHR 0xAE, CHR 0xCE, CHR 0x99]),
      ([CHR 0xE1, CHR 0xBE, CHR 0xAF], [CHR 0xE1, CHR 0xBD, CHR 0xAF, CHR 0xCE, CHR 0x99]),
      ([CHR 0xE1, CHR 0xBE, CHR 0xB0], [CHR 0xE1, CHR 0xBE, CHR 0xB8]),
      ([CHR 0xE1, CHR 0xBE, CHR 0xB1], [CHR 0xE1, CHR 0xBE, CHR 0xB9]),
      ([CHR 0xE1, CHR 0xBE, CHR 0xB2], [CHR 0xE1, CHR 0xBE, CHR 0xBA, CHR 0xCE, CHR 0x99]),
      ([CHR 0xE1, CHR 0xBE, CHR 0xB3], [CHR 0xCE, CHR 0x91, CHR 0xCE, CHR 0x99]),
      ([CHR 0xE1, CHR 0xBE, CHR 0xB4], [CHR 0xCE, CHR 0x86, CHR 0xCE, CHR 0x99]),
      ([CHR 0xE1, CHR 0xBE, CHR 0xB6], [CHR 0xCE, CHR 0x91, CHR 0xCD, CHR 0x82]),
      ([CHR 0xE1, CHR 0xBE, CHR 0xB7], [CHR 0xCE, CHR 0x91, CHR 0xCD, CHR 0x82, CHR 0xCE, CHR 0x99]),
      ([CHR 0xE1, CHR 0xBE, CHR 0xBC], [CHR 0xCE, CHR 0x91, CHR 0xCE, CHR 0x99]),
      ([CHR 0xE1, CHR 0xBE, CHR 0xBE], [CHR 0xCE, CHR 0x99]),
      ([CHR 0xE1, CHR 0xBF, CHR 0x82], [CHR 0xE1, CHR 0xBF, CHR 0x8A, CHR 0xCE, CHR 0x99]),
      ([CHR 0xE1, CHR 0xBF, CHR 0x83], [CHR 0xCE, CHR 0x97, CHR 0xCE, CHR 0x99]),
      ([CHR 0xE1, CHR 0xBF, CHR 0x84], [CHR 0xCE, CHR 0x89, CHR 0xCE, CHR 0x99]),
      ([CHR 0xE1, CHR 0xBF, CHR 0x86], [CHR 0xCE, CHR 0x97, CHR 0xCD, CHR 0x82]),
      ([CHR 0xE1, CHR 0xBF, CHR 0x87], [CHR 0xCE, CHR 0x97, CHR 0xCD, CHR 0x82, CHR 0xCE, CHR 0x99]),
      ([CHR 0xE1, CHR 0xBF, CHR 0x8C], [CHR 0xCE, CHR 0x97, CHR 0xCE, CHR 0x99]),
      ([CHR 0xE1, CHR 0xBF, CHR 0x90], [CHR 0xE1, CHR 0xBF, CHR 0x98]),
      ([CHR 0xE1, CHR 0xBF, CHR 0x91], [CHR 0xE1, CHR 0xBF, CHR 0x99]),
      ([CHR 0xE1, CHR 0xBF, CHR 0x92], [CHR 0xCE, CHR 0x99, CHR 0xCC, CHR 0x88, CHR 0xCC, CHR 0x80]),
      ([CHR 0xE1, CHR 0xBF, CHR 0x93], [CHR 0xCE, CHR 0x99, CHR 0xCC, CHR 0x88, CHR 0xCC, CHR 0x81]),
      ([CHR 0xE1, CHR 0xBF, CHR 0x96], [CHR 0xCE, CHR 0x99, CHR 0xCD, CHR 0x82]),
      ([CHR 0xE1, CHR 0xBF, CHR 0x97], [CHR 0xCE, CHR 0x99, CHR 0xCC, CHR 0x88, CHR 0xCD, CHR 0x82]),
      ([CHR 0xE1, CHR 0xBF, CHR 0xA0], [CHR 0xE1, CHR 0xBF, CHR 0xA8]),
      ([CHR 0xE1, CHR 0xBF, CHR 0xA1], [CHR 0xE1, CHR 0xBF, CHR 0xA9]),
      ([CHR 0xE1, CHR 0xBF, CHR 0xA2], [CHR 0xCE, CHR 0xA5, CHR 0xCC, CHR 0x88, CHR 0xCC, CHR 0x80]),
      ([CHR 0xE1, CHR 0xBF, CHR 0xA3], [CHR 0xCE, CHR 0xA5, CHR 0xCC, CHR 0x88, CHR 0xCC, CHR 0x81]),
      ([CHR 0xE1, CHR 0xBF, CHR 0xA4], [CHR 0xCE, CHR 0xA1, CHR 0xCC, CHR 0x93]),
      ([CHR 0xE1, CHR 0xBF, CHR 0xA5], [CHR 0xE1, CHR 0xBF, CHR 0xAC]),
      ([CHR 0xE1, CHR 0xBF, CHR 0xA6], [CHR 0xCE, CHR 0xA5, CHR 0xCD, CHR 0x82]),
      ([CHR 0xE1, CHR 0xBF, CHR 0xA7], [CHR 0xCE, CHR 0xA5, CHR 0xCC, CHR 0x88, CHR 0xCD, CHR 0x82]),
      ([CHR 0xE1, CHR 0xBF, CHR 0xB2], [CHR 0xE1, CHR 0xBF, CHR 0xBA, CHR 0xCE, CHR 0x99]),
      ([CHR 0xE1, CHR 0xBF, CHR 0xB3], [CHR 0xCE, CHR 0xA9, CHR 0xCE, CHR 0x99]),
      ([CHR 0xE1, CHR 0xBF, CHR 0xB4], [CHR 0xCE, CHR 0x8F, CHR 0xCE, CHR 0x99]),
      ([CHR 0xE1, CHR 0xBF, CHR 0xB6], [CHR 0xCE, CHR 0xA9, CHR 0xCD, CHR 0x82]),
      ([CHR 0xE1, CHR 0xBF, CHR 0xB7], [CHR 0xCE, CHR 0xA9, CHR 0xCD, CHR 0x82, CHR 0xCE, CHR 0x99]),
      ([CHR 0xE1, CHR 0xBF, CHR 0xBC], [CHR 0xCE, CHR 0xA9, CHR 0xCE, CHR 0x99])]"

definition upperE2 :: "(string \<times> string) list" where
  "upperE2 =
     [([CHR 0xE2, CHR 0x85, CHR 0x8E], [CHR 0xE2, CHR 0x84, CHR 0xB2]),
      ([CHR 0xE2, CHR 0x85, CHR 0xB0], [CHR 0xE2, CHR 0x85, CHR 0xA0]),
      ([CHR 0xE2, CHR 0x85, CHR 0xB1], [CHR 0xE2, CHR 0x85, CHR 0xA1]),
      ([CHR 0xE2, CHR 0x85, CHR 0xB2], [CHR 0xE2, CHR 0x85, CHR 0xA2]),
      ([CHR 0xE2, CHR 0x85, CHR 0xB3], [CHR 0xE2, CHR 0x85, CHR 0xA3]),
      ([CHR 0xE2, CHR 0x85, CHR 0xB4], [CHR 0xE2, CHR 0x85, CHR 0xA4]),
      ([CHR 0xE2, CHR 0x85, CHR 0xB5], [CHR 0xE2, CHR 0x85, CHR 0xA5]),
      ([CHR 0xE2, CHR 0x85, CHR 0xB6], [CHR 0xE2, CHR 0x85, CHR 0xA6]),
      ([CHR 0xE2, CHR 0x85, CHR 0xB7], [CHR 0xE2, CHR 0x85, CHR 0xA7]),
      ([CHR 0xE2, CHR 0x85, CHR 0xB8], [CHR 0xE2, CHR 0x85, CHR 0xA8]),
      ([CHR 0xE2, CHR 0x85, CHR 0xB9], [CHR 0xE2, CHR 0x85, CHR 0xA9]),
      ([CHR 0xE2, CHR 0x85, CHR 0xBA], [CHR 0xE2, CHR 0x85, CHR 0xAA]),
      ([CHR 0xE2, CHR 0x85, CHR 0xBB], [CHR 0xE2, CHR 0x85, CHR 0xAB]),
      ([CHR 0xE2, CHR 0x85, CHR 0xBC], [CHR 0xE2, CHR 0x85, CHR 0xAC]),
      ([CHR 0xE2, CHR 0x85, CHR 0xBD], [CHR 0xE2, CHR 0x85, CHR 0xAD]),
      ([CHR 0xE2, CHR 0x85, CHR 0xBE], [CHR 0xE2, CHR 0x85, CHR 0xAE]),
      ([CHR 0xE2, CHR 0x85, CHR 0xBF], [CHR 0xE2, CHR 0x85, CHR 0xAF]),
      ([CHR 0xE2, CHR 0x86, CHR 0x84], [CHR 0xE2, CHR 0x86, CHR 0x83]),
      ([CHR 0xE2, CHR 0x93, CHR 0x90], [CHR 0xE2, CHR 0x92, CHR 0xB6]),
      ([CHR 0xE2, CHR 0x93, CHR 0x91], [CHR 0xE2, CHR 0x92, CHR 0xB7]),
      ([CHR 0xE2, CHR 0x93, CHR 0x92], [CHR 0xE2, CHR 0x92, CHR 0xB8]),
      ([CHR 0xE2, CHR 0x93, CHR 0x93], [CHR 0xE2, CHR 0x92, CHR 0xB9]),
      ([CHR 0xE2, CHR 0x93, CHR 0x94], [CHR 0xE2, CHR 0x92, CHR 0xBA]),
      ([CHR 0xE2, CHR 0x93, CHR 0x95], [CHR 0xE2, CHR 0x92, CHR 0xBB]),
      ([CHR 0xE2, CHR 0x93, CHR 0x96], [CHR 0xE2, CHR 0x92, CHR 0xBC]),
      ([CHR 0xE2, CHR 0x93, CHR 0x97], [CHR 0xE2, CHR 0x92, CHR 0xBD]),
      ([CHR 0xE2, CHR 0x93, CHR 0x98], [CHR 0xE2, CHR 0x92, CHR 0xBE]),
      ([CHR 0xE2, CHR 0x93, CHR 0x99], [CHR 0xE2, CHR 0x92, CHR 0xBF]),
      ([CHR 0xE2, CHR 0x93, CHR 0x9A], [CHR 0xE2, CHR 0x93, CHR 0x80]),
      ([CHR 0xE2, CHR 0x93, CHR 0x9B], [CHR 0xE2, CHR 0x93, CHR 0x81]),
      ([CHR 0xE2, CHR 0x93, CHR 0x9C], [CHR 0xE2, CHR 0x93, CHR 0x82]),
      ([CHR 0xE2, CHR 0x93, CHR 0x9D], [CHR 0xE2, CHR 0x93, CHR 0x83]),
      ([CHR 0xE2, CHR 0x93, CHR 0x9E], [CHR 0xE2, CHR 0x93, CHR 0x84]),
      ([CHR 0xE2, CHR 0x93, CHR 0x9F], [CHR 0xE2, CHR 0x93, CHR 0x85]),
      ([CHR 0xE2, CHR 0x93, CHR 0xA0], [CHR 0xE2, CHR 0x93, CHR 0x86]),
      ([CHR 0xE2, CHR 0x93, CHR 0xA1], [CHR 0xE2, CHR 0x93, CHR 0x87]),
      ([CHR 0xE2, CHR 0x93, CHR 0xA2], [CHR 0xE2, CHR 0x93, CHR 0x88]),
      ([CHR 0xE2, CHR 0x93, CHR 0xA3], [CHR 0xE2, CHR 0x93, CHR 0x89]),
      ([CHR 0xE2, CHR 0x93, CHR 0xA4], [CHR 0xE2, CHR 0x93, CHR 0x8A]),
      ([CHR 0xE2, CHR 0x93, CHR 0xA5], [CHR 0xE2, CHR 0x93, CHR 0x8B]),
      ([CHR 0xE2, CHR 0x93, CHR 0xA6], [CHR 0xE2, CHR 0x93, CHR 0x8C]),
      ([CHR 0xE2, CHR 0x93, CHR 0xA7], [CHR 0xE2, CHR 0x93, CHR 0x8D]),
      ([CHR 0xE2, CHR 0x93, CHR 0xA8], [CHR 0xE2, CHR 0x93, CHR 0x8E]),
      ([CHR 0xE2, CHR 0x93, CHR 0xA9], [CHR 0xE2, CHR 0x93, CHR 0x8F]),
      ([CHR 0xE2, CHR 0xB0, CHR 0xB0], [CHR 0xE2, CHR 0xB0, CHR 0x80]),
      ([CHR 0xE2, CHR 0xB0, CHR 0xB1], [CHR 0xE2, CHR 0xB0, CHR 0x81]),
      ([CHR 0xE2, CHR 0xB0, CHR 0xB2], [CHR 0xE2, CHR 0xB0, CHR 0x82]),
      ([CHR 0xE2, CHR 0xB0, CHR 0xB3], [CHR 0xE2, CHR 0xB0, CHR 0x83]),
      ([CHR 0xE2, CHR 0xB0, CHR 0xB4], [CHR 0xE2, CHR 0xB0, CHR 0x84]),
      ([CHR 0xE2, CHR 0xB0, CHR 0xB5], [CHR 0xE2, CHR 0xB0, CHR 0x85]),
      ([CHR 0xE2, CHR 0xB0, CHR 0xB6], [CHR 0xE2, CHR 0xB0, CHR 0x86]),
      ([CHR 0xE2, CHR 0xB0, CHR 0xB7], [CHR 0xE2, CHR 0xB0, CHR 0x87]),
      ([CHR 0xE2, CHR 0xB0, CHR 0xB8], [CHR 0xE2, CHR 0xB0, CHR 0x88]),
      ([CHR 0xE2, CHR 0xB0, CHR 0xB9], [CHR 0xE2, CHR 0xB0, CHR 0x89]),
      ([CHR 0xE2, CHR 0xB0, CHR 0xBA], [CHR 0xE2, CHR 0xB0, CHR 0x8A]),
      ([CHR 0xE2, CHR 0xB0, CHR 0xBB], [CHR 0xE2, CHR 0xB0, CHR 0x8B]),
      ([CHR 0xE2, CHR 0xB0, CHR 0xBC], [CHR 0xE2, CHR 0xB0, CHR 0x8C]),
      ([CHR 0xE2, CHR 0xB0, CHR 0xBD], [CHR 0xE2, CHR 0xB0, CHR 0x8D]),
      ([CHR 0xE2, CHR 0xB0, CHR 0xBE], [CHR 0xE2, CHR 0xB0, CHR 0x8E]),
      ([CHR 0xE2, CHR 0xB0, CHR 0xBF], [CHR 0xE2, CHR 0xB0, CHR 0x8F]),
      ([CHR 0xE2, CHR 0xB1, CHR 0x80], [CHR 0xE2, CHR 0xB0, CHR 0x90]),
      ([CHR 0xE2, CHR 0xB1, CHR 0x81], [CHR 0xE2, CHR 0xB0, CHR 0x91]),
      ([CHR 0xE2, CHR 0xB1, CHR 0x82], [CHR 0xE2, CHR 0xB0, CHR 0x92]),
      ([CHR 0xE2, CHR 0xB1, CHR 0x83], [CHR 0xE2, CHR 0xB0, CHR 0x93]),
      ([CHR 0xE2, CHR 0xB1, CHR 0x84], [CHR 0xE2, CHR 0xB0, CHR 0x94]),
      ([CHR 0xE2, CHR 0xB1, CHR 0x85], [CHR 0xE2, CHR 0xB0, CHR 0x95]),
      ([CHR 0xE2, CHR 0xB1, CHR 0x86], [CHR 0xE2, CHR 0xB0, CHR 0x96]),
      ([CHR 0xE2, CHR 0xB1, CHR 0x87], [CHR 0xE2, CHR 0xB0, CHR 0x97]),
      ([CHR 0xE2, CHR 0xB1, CHR 0x88], [CHR 0xE2, CHR 0xB0, CHR 0x98]),
      ([CHR 0xE2, CHR 0xB1, CHR 0x89], [CHR 0xE2, CHR 0xB0, CHR 0x99]),
      ([CHR 0xE2, CHR 0xB1, CHR 0x8A], [CHR 0xE2, CHR 0xB0, CHR 0x9A]),
      ([CHR 0xE2, CHR 0xB1, CHR 0x8B], [CHR 0xE2, CHR 0xB0, CHR 0x9B]),
      ([CHR 0xE2, CHR 0xB1, CHR 0x8C], [CHR 0xE2, CHR 0xB0, CHR 0x9C]),
      ([CHR 0xE2, CHR 0xB1, CHR 0x8D], [CHR 0xE2, CHR 0xB0, CHR 0x9D]),
      ([CHR 0xE2, CHR 0xB1, CHR 0x8E], [CHR 0xE2, CHR 0xB0, CHR 0x9E]),
      ([CHR 0xE2, CHR 0xB1, CHR 0x8F], [CHR 0xE2, CHR 0xB0, CHR 0x9F]),
      ([CHR 0xE2, CHR 0xB1, CHR 0x90], [CHR 0xE2, CHR 0xB0, CHR 0xA0]),
      ([CHR 0xE2, CHR 0xB1, CHR 0x91], [CHR 0xE2, CHR 0xB0, CHR 0xA1]),
      ([CHR 0xE2, CHR 0xB1, CHR 0x92], [CHR 0xE2, CHR 0xB0, CHR 0xA2]),
      ([CHR 0xE2, CHR 0xB1, CHR 0x93], [CHR 0xE2, CHR 0xB0, CHR 0xA3]),
      ([CHR 0xE2, CHR 0xB1, CHR 0x94], [CHR 0xE2, CHR 0xB0, CHR 0xA4]),
      ([CHR 0xE2, CHR 0xB1, CHR 0x95], [CHR 0xE2, CHR 0xB0, CHR 0xA5]),
      ([CHR 0xE2, CHR 0xB1, CHR 0x96], [CHR 0xE2, CHR 0xB0, CHR 0xA6]),
      ([CHR 0xE2, CHR 0xB1, CHR 0x97], [CHR 0xE2, CHR 0xB0, CHR 0xA7]),
      ([CHR 0xE2, CHR 0xB1, CHR 0x98], [CHR 0xE2, CHR 0xB0, CHR 0xA8]),
      ([CHR 0xE2, CHR 0xB1, CHR 0x99], [CHR 0xE2, CHR 0xB0, CHR 0xA9]),
      ([CHR 0xE2, CHR 0xB1, CHR 0x9A], [CHR 0xE2, CHR 0xB0, CHR 0xAA]),
      ([CHR 0xE2, CHR 0xB1, CHR 0x9B], [CHR 0xE2, CHR 0xB0, CHR 0xAB]),
      ([CHR 0xE2, CHR 0xB1, CHR 0x9C], [CHR 0xE2, CHR 0xB0, CHR 0xAC]),
      ([CHR 0xE2, CHR 0xB1, CHR 0x9D], [CHR 0xE2, CHR 0xB0, CHR 0xAD]),
      ([CHR 0xE2, CHR 0xB1, CHR 0x9E], [CHR 0xE2, CHR 0xB0, CHR 0xAE]),
      ([CHR 0xE2, CHR 0xB1, CHR 0x9F], [CHR 0xE2, CHR 0xB0, CHR 0xAF]),
      ([CHR 0xE2, CHR 0xB1, CHR 0xA1], [CHR 0xE2, CHR 0xB1, CHR 0xA0]),
      ([CHR 0xE2, CHR 0xB1, CHR 0xA5], [CHR 0xC8, CHR 0xBA]),
      ([CHR 0xE2, CHR 0xB1, CHR 0xA6], [CHR 0xC8, CHR 0xBE]),
      ([CHR 0xE2, CHR 0xB1, CHR 0xA8], [CHR 0xE2, CHR 0xB1, CHR 0xA7]),
      ([CHR 0xE2, CHR 0xB1, CHR 0xAA], [CHR 0xE2, CHR 0xB1, CHR 0xA9]),
      ([CHR 0xE2, CHR 0xB1, CHR 0xAC], [CHR 0xE2, CHR 0xB1, CHR 0xAB]),
      ([CHR 0xE2, CHR 0xB1, CHR 0xB3], [CHR 0xE2, CHR 0xB1, CHR 0xB2]),
      ([CHR 0xE2, CHR 0xB1, CHR 0xB6], [CHR 0xE2, CHR 0xB1, CHR 0xB5]),
      ([CHR 0xE2, CHR 0xB2, CHR 0x81], [CHR 0xE2, CHR 0xB2, CHR 0x80]),
      ([CHR 0xE2, CHR 0xB2, CHR 0x83], [CHR 0xE2, CHR 0xB2, CHR 0x82]),
      ([CHR 0xE2, CHR 0xB2, CHR 0x85], [CHR 0xE2, CHR 0xB2, CHR 0x84]),
      ([CHR 0xE2, CHR 0xB2, CHR 0x87], [CHR 0xE2, CHR 0xB2, CHR 0x86]),
      ([CHR 0xE2, CHR 0xB2, CHR 0x89], [CHR 0xE2, CHR 0xB2, CHR 0x88]),
      ([CHR 0xE2, CHR 0xB2, CHR 0x8B], [CHR 0xE2, CHR 0xB2, CHR 0x8A]),
      ([CHR 0xE2, CHR 0xB2, CHR 0x8D], [CHR 0xE2, CHR 0xB2, CHR 0x8C]),
      ([CHR 0xE2, CHR 0xB2, CHR 0x8F], [CHR 0xE2, CHR 0xB2, CHR 0x8E]),
      ([CHR 0xE2, CHR 0xB2, CHR 0x91], [CHR 0xE2, CHR 0xB2, CHR 0x90]),
      ([CHR 0xE2, CHR 0xB2, CHR 0x93], [CHR 0xE2, CHR 0xB2, CHR 0x92]),
      ([CHR 0xE2, CHR 0xB2, CHR 0x95], [CHR 0xE2, CHR 0xB2, CHR 0x94]),
      ([CHR 0xE2, CHR 0xB2, CHR 0x97], [CHR 0xE2, CHR 0xB2, CHR 0x96]),
      ([CHR 0xE2, CHR 0xB2, CHR 0x99], [CHR 0xE2, CHR 0xB2, CHR 0x98]),
      ([CHR 0xE2, CHR 0xB2, CHR 0x9B], [CHR 0xE2, CHR 0xB2, CHR 0x9A]),
      ([CHR 0xE2, CHR 0xB2, CHR 0x9D], [CHR 0xE2, CHR 0xB2, CHR 0x9C]),
      ([CHR 0xE2, CHR 0xB2, CHR 0x9F], [CHR 0xE2, CHR 0xB2, CHR 0x9E]),
      ([CHR 0xE2, CHR 0xB2, CHR 0xA1], [CHR 0xE2, CHR 0xB2, CHR 0xA0]),
      ([CHR 0xE2, CHR 0xB2, CHR 0xA3], [CHR 0xE2, CHR 0xB2, CHR 0xA2]),
      ([CHR 0xE2, CHR 0xB2, CHR 0xA5], [CHR 0xE2, CHR 0xB2, CHR 0xA4]),
      ([CHR 0xE2, CHR 0xB2, CHR 0xA7], [CHR 0xE2, CHR 0xB2, CHR 0xA6]),
      ([CHR 0xE2, CHR 0xB2, CHR 0xA9], [CHR 0xE2, CHR 0xB2, CHR 0xA8]),
      ([CHR 0xE2, CHR 0xB2, CHR 0xAB], [CHR 0xE2, CHR 0xB2, CHR 0xAA]),
      ([CHR 0xE2, CHR 0xB2, CHR 0xAD], [CHR 0xE2, CHR 0xB2, CHR 0xAC]),
      ([CHR 0xE2, CHR 0xB2, CHR 0xAF], [CHR 0xE2, CHR 0xB2, CHR 0xAE]),
      ([CHR 0xE2, CHR 0xB2, CHR 0xB1], [CHR 0xE2, CHR 0xB2, CHR 0xB0]),
      ([CHR 0xE2, CHR 0xB2, CHR 0xB3], [CHR 0xE2, CHR 0xB2, CHR 0xB2]),
      ([CHR 0xE2, CHR 0xB2, CHR 0xB5], [CHR 0xE2, CHR 0xB2, CHR 0xB4]),
      ([CHR 0xE2, CHR 0xB2, CHR 0xB7], [CHR 0xE2, CHR 0xB2, CHR 0xB6]),
      ([CHR 0xE2, CHR 0xB2, CHR 0xB9], [CHR 0xE2, CHR 0xB2, CHR 0xB8]),
      ([CHR 0xE2, CHR 0xB2, CHR 0xBB], [CHR 0xE2, CHR 0xB2, CHR 0xBA]),
      ([CHR 0xE2, CHR 0xB2, CHR 0xBD], [CHR 0xE2, CHR 0xB2, CHR 0xBC]),
      ([CHR 0xE2, CHR 0xB2, CHR 0xBF], [CHR 0xE2, CHR 0xB2, CHR 0xBE]),
      ([CHR 0xE2, CHR 0xB3, CHR 0x81], [CHR 0xE2, CHR 0xB3, CHR 0x80]),
      ([CHR 0xE2, CHR 0xB3, CHR 0x83], [CHR 0xE2, CHR 0xB3, CHR 0x82]),
      ([CHR 0xE2, CHR 0xB3, CHR 0x85], [CHR 0xE2, CHR 0xB3, CHR 0x84]),
      ([CHR 0xE2, CHR 0xB3, CHR 0x87], [CHR 0xE2, CHR 0xB3, CHR 0x86]),
      ([CHR 0xE2, CHR 0xB3, CHR 0x89], [CHR 0xE2, CHR 0xB3, CHR 0x88]),
      ([CHR 0xE2, CHR 0xB3, CHR 0x8B], [CHR 0xE2, CHR 0xB3, CHR 0x8A]),
      ([CHR 0xE2, CHR 0xB3, CHR 0x8D], [CHR 0xE2, CHR 0xB3, CHR 0x8C]),
      ([CHR 0xE2, CHR 0xB3, CHR 0x8F], [CHR 0xE2, CHR 0xB3, CHR 0x8E]),
      ([CHR 0xE2, CHR 0xB3, CHR 0x91], [CHR 0xE2, CHR 0xB3, CHR 0x90]),
      ([CHR 0xE2, CHR 0xB3, CHR 0x93], [CHR 0xE2, CHR 0xB3, CHR 0x92]),
      ([CHR 0xE2, CHR 0xB3, CHR 0x95], [CHR 0xE2, CHR 0xB3, CHR 0x94]),
      ([CHR 0xE2, CHR 0xB3, CHR 0x97], [CHR 0xE2, CHR 0xB3, CHR 0x96]),
      ([CHR 0xE2, CHR 0xB3, CHR 0x99], [CHR 0xE2, CHR 0xB3, CHR 0x98]),
      ([CHR 0xE2, CHR 0xB3, CHR 0x9B], [CHR 0xE2, CHR 0xB3, CHR 0x9A]),
      ([CHR 0xE2, CHR 0xB3, CHR 0x9D], [CHR 0xE2, CHR 0xB3, CHR 0x9C]),
      ([CHR 0xE2, CHR 0xB3, CHR 0x9F], [CHR 0xE2, CHR 0xB3, CHR 0x9E]),
      ([CHR 0xE2, CHR 0xB3, CHR 0xA1], [CHR 0xE2, CHR 0xB3, CHR 0xA0]),
      ([CHR 0xE2, CHR 0xB3, CHR 0xA3], [CHR 0xE2, CHR 0xB3, CHR 0xA2]),
      ([CHR 0xE2, CHR 0xB3, CHR 0xAC], [CHR 0xE2, CHR 0xB3, CHR 0xAB]),
      ([CHR 0xE2, CHR 0xB3, CHR 0xAE], [CHR 0xE2, CHR 0xB3, CHR 0xAD]),
      ([CHR 0xE2, CHR 0xB3, CHR 0xB3], [CHR 0xE2, CHR 0xB3, CHR 0xB2]),
      ([CHR 0xE2, CHR 0xB4, CHR 0x80], [CHR 0xE1, CHR 0x82, CHR 0xA0]),
      ([CHR 0xE2, CHR 0xB4, CHR 0x81], [CHR 0xE1, CHR 0x82, CHR 0xA1]),
      ([CHR 0xE2, CHR 0xB4, CHR 0x82], [CHR 0xE1, CHR 0x82, CHR 0xA2]),
      ([CHR 0xE2, CHR 0xB4, CHR 0x83], [CHR 0xE1, CHR 0x82, CHR 0xA3]),
      ([CHR 0xE2, CHR 0xB4, CHR 0x84], [CHR 0xE1, CHR 0x82, CHR 0xA4]),
      ([CHR 0xE2, CHR 0xB4, CHR 0x85], [CHR 0xE1, CHR 0x82, CHR 0xA5]),
      ([CHR 0xE2, CHR 0xB4, CHR 0x86], [CHR 0xE1, CHR 0x82, CHR 0xA6]),
      ([CHR 0xE2, CHR 0xB4, CHR 0x87], [CHR 0xE1, CHR 0x82, CHR 0xA7]),
      ([CHR 0xE2, CHR 0xB4, CHR 0x88], [CHR 0xE1, CHR 0x82, CHR 0xA8]),
      ([CHR 0xE2, CHR 0xB4, CHR 0x89], [CHR 0xE1, CHR 0x82, CHR 0xA9]),
      ([CHR 0xE2, CHR 0xB4, CHR 0x8A], [CHR 0xE1, CHR 0x82, CHR 0xAA]),
      ([CHR 0xE2, CHR 0xB4, CHR 0x8B], [CHR 0xE1, CHR 0x82, CHR 0xAB]),
      ([CHR 0xE2, CHR 0xB4, CHR 0x8C], [CHR 0xE1, CHR 0x82, CHR 0xAC]),
      ([CHR 0xE2, CHR 0xB4, CHR 0x8D], [CHR 0xE1, CHR 0x82, CHR 0xAD]),
      ([CHR 0xE2, CHR 0xB4, CHR 0x8E], [CHR 0xE1, CHR 0x82, CHR 0xAE]),
      ([CHR 0xE2, CHR 0xB4, CHR 0x8F], [CHR 0xE1, CHR 0x82, CHR 0xAF]),
      ([CHR 0xE2, CHR 0xB4, CHR 0x90], [CHR 0xE1, CHR 0x82, CHR 0xB0]),
      ([CHR 0xE2, CHR 0xB4, CHR 0x91], [CHR 0xE1, CHR 0x82, CHR 0xB1]),
      ([CHR 0xE2, CHR 0xB4, CHR 0x92], [CHR 0xE1, CHR 0x82, CHR 0xB2]),
      ([CHR 0xE2, CHR 0xB4, CHR 0x93], [CHR 0xE1, CHR 0x82, CHR 0xB3]),
      ([CHR 0xE2, CHR 0xB4, CHR 0x94], [CHR 0xE1, CHR 0x82, CHR 0xB4]),
      ([CHR 0xE2, CHR 0xB4, CHR 0x95], [CHR 0xE1, CHR 0x82, CHR 0xB5]),
      ([CHR 0xE2, CHR 0xB4, CHR 0x96], [CHR 0xE1, CHR 0x82, CHR 0xB6]),
      ([CHR 0xE2, CHR 0xB4, CHR 0x97], [CHR 0xE1, CHR 0x82, CHR 0xB7]),
      ([CHR 0xE2, CHR 0xB4, CHR 0x98], [CHR 0xE1, CHR 0x82, CHR 0xB8]),
      ([CHR 0xE2, CHR 0xB4, CHR 0x99], [CHR 0xE1, CHR 0x82, CHR 0xB9]),
      ([CHR 0xE2, CHR 0xB4, CHR 0x9A], [CHR 0xE1, CHR 0x82, CHR 0xBA]),
      ([CHR 0xE2, CHR 0xB4, CHR 0x9B], [CHR 0xE1, CHR 0x82, CHR 0xBB]),
      ([CHR 0xE2, CHR 0xB4, CHR 0x9C], [CHR 0xE1, CHR 0x82, CHR 0xBC]),
      ([CHR 0xE2, CHR 0xB4, CHR 0x9D], [CHR 0xE1, CHR 0x82, CHR 0xBD]),
      ([CHR 0xE2, CHR 0xB4, CHR 0x9E], [CHR 0xE1, CHR 0x82, CHR 0xBE]),
      ([CHR 0xE2, CHR 0xB4, CHR 0x9F], [CHR 0xE1, CHR 0x82, CHR 0xBF]),
      ([CHR 0xE2, CHR 0xB4, CHR 0xA0], [CHR 0xE1, CHR 0x83, CHR 0x80]),
      ([CHR 0xE2, CHR 0xB4, CHR 0xA1], [CHR 0xE1, CHR 0x83, CHR 0x81]),
      ([CHR 0xE2, CHR 0xB4, CHR 0xA2], [CHR 0xE1, CHR 0x83, CHR 0x82]),
      ([CHR 0xE2, CHR 0xB4, CHR 0xA3], [CHR 0xE1, CHR 0x83, CHR 0x83]),
      ([CHR 0xE2, CHR 0xB4, CHR 0xA4], [CHR 0xE1, CHR 0x83, CHR 0x84]),
      ([CHR 0xE2, CHR 0xB4, CHR 0xA5], [CHR 0xE1, CHR 0x83, CHR 0x85]),
      ([CHR 0xE2, CHR 0xB4, CHR 0xA7], [CHR 0xE1, CHR 0x83, CHR 0x87]),
      ([CHR 0xE2, CHR 0xB4, CHR 0xAD], [CHR 0xE1, CHR 0x83, CHR 0x8D])]"

definition upperEA :: "(string \<times> string) list" where
  "upperEA =
     [([CHR 0xEA, CHR 0x99, CHR 0x81], [CHR 0xEA, CHR 0x99, CHR 0x80]),
      ([CHR 0xEA, CHR 0x99, CHR 0x83], [CHR 0xEA, CHR 0x99, CHR 0x82]),
      ([CHR 0xEA, CHR 0x99, CHR 0x85], [CHR 0xEA, CHR 0x99, CHR 0x84]),
      ([CHR 0xEA, CHR 0x99, CHR 0x87], [CHR 0xEA, CHR 0x99, CHR 0x86]),
      ([CHR 0xEA, CHR 0x99, CHR 0x89], [CHR 0xEA, CHR 0x99, CHR 0x88]),
      ([CHR 0xEA, CHR 0x99, CHR 0x8B], [CHR 0xEA, CHR 0x99, CHR 0x8A]),
      ([CHR 0xEA, CHR 0x99, CHR 0x8D], [CHR 0xEA, CHR 0x99, CHR 0x8C]),
      ([CHR 0xEA, CHR 0x99, CHR 0x8F], [CHR 0xEA, CHR 0x99, CHR 0x8E]),
      ([CHR 0xEA, CHR 0x99, CHR 0x91], [CHR 0xEA, CHR 0x99, CHR 0x90]),
      ([CHR 0xEA, CHR 0x99, CHR 0x93], [CHR 0xEA, CHR 0x99, CHR 0x92]),
      ([CHR 0xEA, CHR 0x99, CHR 0x95], [CHR 0xEA, CHR 0x99, CHR 0x94]),
      ([CHR 0xEA, CHR 0x99, CHR 0x97], [CHR 0xEA, CHR 0x99, CHR 0x96]),
      ([CHR 0xEA, CHR 0x99, CHR 0x99], [CHR 0xEA, CHR 0x99, CHR 0x98]),
      ([CHR 0xEA, CHR 0x99, CHR 0x9B], [CHR 0xEA, CHR 0x99, CHR 0x9A]),
      ([CHR 0xEA, CHR 0x99, CHR 0x9D], [CHR 0xEA, CHR 0x99, CHR 0x9C]),
      ([CHR 0xEA, CHR 0x99, CHR 0x9F], [CHR 0xEA, CHR 0x99, CHR 0x9E]),
      ([CHR 0xEA, CHR 0x99, CHR 0xA1], [CHR 0xEA, CHR 0x99, CHR 0xA0]),
      ([CHR 0xEA, CHR 0x99, CHR 0xA3], [CHR 0xEA, CHR 0x99, CHR 0xA2]),
      ([CHR 0xEA, CHR 0x99, CHR 0xA5], [CHR 0xEA, CHR 0x99, CHR 0xA4]),
      ([CHR 0xEA, CHR 0x99, CHR 0xA7], [CHR 0xEA, CHR 0x99, CHR 0xA6]),
      ([CHR 0xEA, CHR 0x99, CHR 0xA9], [CHR 0xEA, CHR 0x99, CHR 0xA8]),
      ([CHR 0xEA, CHR 0x99, CHR 0xAB], [CHR 0xEA, CHR 0x99, CHR 0xAA]),
      ([CHR 0xEA, CHR 0x99, CHR 0xAD], [CHR 0xEA, CHR 0x99, CHR 0xAC]),
      ([CHR 0xEA, CHR 0x9A, CHR 0x81], [CHR 0xEA, CHR 0x9A, CHR 0x80]),
      ([CHR 0xEA, CHR 0x9A, CHR 0x83], [CHR 0xEA, CHR 0x9A, CHR 0x82]),
      ([CHR 0xEA, CHR 0x9A, CHR 0x85], [CHR 0xEA, CHR 0x9A, CHR 0x84]),
      ([CHR 0xEA, CHR 0x9A, CHR 0x87], [CHR 0xEA, CHR 0x9A, CHR 0x86]),
      ([CHR 0xEA, CHR 0x9A, CHR 0x89], [CHR 0xEA, CHR 0x9A, CHR 0x88]),
      ([CHR 0xEA, CHR 0x9A, CHR 0x8B], [CHR 0xEA, CHR 0x9A, CHR 0x8A]),
      ([CHR 0xEA, CHR 0x9A, CHR 0x8D], [CHR 0xEA, CHR 0x9A, CHR 0x8C]),
      ([CHR 0xEA, CHR 0x9A, CHR 0x8F], [CHR 0xEA, CHR 0x9A, CHR 0x8E]),
      ([CHR 0xEA, CHR 0x9A, CHR 0x91], [CHR 0xEA, CHR 0x9A, CHR 0x90]),
      ([CHR 0xEA, CHR 0x9A, CHR 0x93], [CHR 0xEA, CHR 0x9A, CHR 0x92]),
      ([CHR 0xEA, CHR 0x9A, CHR 0x95], [CHR 0xEA, CHR 0x9A, CHR 0x94]),
      ([CHR 0xEA, CHR 0x9A, CHR 0x97], [CHR 0xEA, CHR 0x9A, CHR 0x96]),
      ([CHR 0xEA, CHR 0x9A, CHR 0x99], [CHR 0xEA, CHR 0x9A, CHR 0x98]),
      ([CHR 0xEA, CHR 0x9A, CHR 0x9B], [CHR 0xEA, CHR 0x9A, CHR 0x9A]),
      ([CHR 0xEA, CHR 0x9C, CHR 0xA3], [CHR 0xEA, CHR 0x9C, CHR 0xA2]),
      ([CHR 0xEA, CHR 0x9C, CHR 0xA5], [CHR 0xEA, CHR 0x9C, CHR 0xA4]),
      ([CHR 0xEA, CHR 0x9C, CHR 0xA7], [CHR 0xEA, CHR 0x9C, CHR 0xA6]),
      ([CHR 0xEA, CHR 0x9C, CHR 0xA9], [CHR 0xEA, CHR 0x9C, CHR 0xA8]),
      ([CHR 0xEA, CHR 0x9C, CHR 0xAB], [CHR 0xEA, CHR 0x9C, CHR 0xAA]),
      ([CHR 0xEA, CHR 0x9C, CHR 0xAD], [CHR 0xEA, CHR 0x9C, CHR 0xAC]),
      ([CHR 0xEA, CHR 0x9C, CHR 0xAF], [CHR 0xEA, CHR 0x9C, CHR 0xAE]),
      ([CHR 0xEA, CHR 0x9C, CHR 0xB3], [CHR 0xEA, CHR 0x9C, CHR 0xB2]),
      ([CHR 0xEA, CHR 0x9C, CHR 0xB5], [CHR 0xEA, CHR 0x9C, CHR 0xB4]),
      ([CHR 0xEA, CHR 0x9C, CHR 0xB7], [CHR 0xEA, CHR 0x9C, CHR 0xB6]),
      ([CHR 0xEA, CHR 0x9C, CHR 0xB9], [CHR 0xEA, CHR 0x9C, CHR 0xB8]),
      ([CHR 0xEA, CHR 0x9C, CHR 0xBB], [CHR 0xEA, CHR 0x9C, CHR 0xBA]),
      ([CHR 0xEA, CHR 0x9C, CHR 0xBD], [CHR 0xEA, CHR 0x9C, CHR 0xBC]),
      ([CHR 0xEA, CHR 0x9C, CHR 0xBF], [CHR 0xEA, CHR 0x9C, CHR 0xBE]),
      ([CHR 0xEA, CHR 0x9D, CHR 0x81], [CHR 0xEA, CHR 0x9D, CHR 0x80]),
      ([CHR 0xEA, CHR 0x9D, CHR 0x83], [CHR 0xEA, CHR 0x9D, CHR 0x82]),
      ([CHR 0xEA, CHR 0x9D, CHR 0x85], [CHR 0xEA, CHR 0x9D, CHR 0x84]),
      ([CHR 0xEA, CHR 0x9D, CHR 0x87], [CHR 0xEA, CHR 0x9D, CHR 0x86]),
      ([CHR 0xEA, CHR 0x9D, CHR 0x89], [CHR 0xEA, CHR 0x9D, CHR 0x88]),
      ([CHR 0xEA, CHR 0x9D, CHR 0x8B], [CHR 0xEA, CHR 0x9D, CHR 0x8A]),
      ([CHR 0xEA, CHR 0x9D, CHR 0x8D], [CHR 0xEA, CHR 0x9D, CHR 0x8C]),
      ([CHR 0xEA, CHR 0x9D, CHR 0x8F], [CHR 0xEA, CHR 0x9D, CHR 0x8E]),
      ([CHR 0xEA, CHR 0x9D, CHR 0x91], [CHR 0xEA, CHR 0x9D, CHR 0x90]),
      ([CHR 0xEA, CHR 0x9D, CHR 0x93], [CHR 0xEA, CHR 0x9D, CHR 0x92]),
      ([CHR 0xEA, CHR 0x9D, CHR 0x95], [CHR 0xEA, CHR 0x9D, CHR 0x94]),
      ([CHR 0xEA, CHR 0x9D, CHR 0x97], [CHR 0xEA, CHR 0x9D, CHR 0x96]),
      ([CHR 0xEA, CHR 0x9D, CHR 0x99], [CHR 0xEA, CHR 0x9D, CHR 0x98]),
      ([CHR 0xEA, CHR 0x9D, CHR 0x9B], [CHR 0xEA, CHR 0x9D, CHR 0x9A]),
      ([CHR 0xEA, CHR 0x9D, CHR 0x9D], [CHR 0xEA, CHR 0x9D, CHR 0x9C]),
      ([CHR 0xEA, CHR 0x9D, CHR 0x9F], [CHR 0xEA, CHR 0x9D, CHR 0x9E]),
      ([CHR 0xEA, CHR 0x9D, CHR 0xA1], [CHR 0xEA, CHR 0x9D, CHR 0xA0]),
      ([CHR 0xEA, CHR 0x9D, CHR 0xA3], [CHR 0xEA, CHR 0x9D, CHR 0xA2]),
      ([CHR 0xEA, CHR 0x9D, CHR 0xA5], [CHR 0xEA, CHR 0x9D, CHR 0xA4]),
      ([CHR 0xEA, CHR 0x9D, CHR 0xA7], [CHR 0xEA, CHR 0x9D, CHR 0xA6]),
      ([CHR 0xEA, CHR 0x9D, CHR 0xA9], [CHR 0xEA, CHR 0x9D, CHR 0xA8]),
      ([CHR 0xEA, CHR 0x9D, CHR 0xAB], [CHR 0xEA, CHR 0x9D, CHR 0xAA]),
      ([CHR 0xEA, CHR 0x9D, CHR 0xAD], [CHR 0xEA, CHR 0x9D, CHR 0xAC]),
      ([CHR 0xEA, CHR 0x9D, CHR 0xAF], [CHR 0xEA, CHR 0x9D, CHR 0xAE]),
      ([CHR 0xEA, CHR 0x9D, CHR 0xBA], [CHR 0xEA, CHR 0x9D, CHR 0xB9]),
      ([CHR 0xEA, CHR 0x9D, CHR 0xBC], [CHR 0xEA, CHR 0x9D, CHR 0xBB]),
      ([CHR 0xEA, CHR 0x9D, CHR 0xBF], [CHR 0xEA, CHR 0x9D, CHR 0xBE]),
      ([CHR 0xEA, CHR 0x9E, CHR 0x81], [CHR 0xEA, CHR 0x9E, CHR 0x80]),
      ([CHR 0xEA, CHR 0x9E, CHR 0x83], [CHR 0xEA, CHR 0x9E, CHR 0x82]),
      ([CHR 0xEA, CHR 0x9E, CHR 0x85], [CHR 0xEA, CHR 0x9E, CHR 0x84]),
      ([CHR 0xEA, CHR 0x9E, CHR 0x87], [CHR 0xEA, CHR 0x9E, CHR 0x86]),
      ([CHR 0xEA, CHR 0x9E, CHR 0x8C], [CHR 0xEA, CHR 0x9E, CHR 0x8B]),
      ([CHR 0xEA, CHR 0x9E, CHR 0x91], [CHR 0xEA, CHR 0x9E, CHR 0x90]),
      ([CHR 0xEA, CHR 0x9E, CHR 0x93], [CHR 0xEA, CHR 0x9E, CHR 0x92]),
      ([CHR 0xEA, CHR 0x9E, CHR 0x94], [CHR 0xEA, CHR 0x9F, CHR 0x84]),
      ([CHR 0xEA, CHR 0x9E, CHR 0x97], [CHR 0xEA, CHR 0x9E, CHR 0x96]),
      ([CHR 0xEA, CHR 0x9E, CHR 0x99], [CHR 0xEA, CHR 0x9E, CHR 0x98]),
      ([CHR 0xEA, CHR 0x9E, CHR 0x9B], [CHR 0xEA, CHR 0x9E, CHR 0x9A]),
      ([CHR 0xEA, CHR 0x9E, CHR 0x9D], [CHR 0xEA, CHR 0x9E, CHR 0x9C]),
      ([CHR 0xEA, CHR 0x9E, CHR 0x9F], [CHR 0xEA, CHR 0x9E, CHR 0x9E]),
      ([CHR 0xEA, CHR 0x9E, CHR 0xA1], [CHR 0xEA, CHR 0x9E, CHR 0xA0]),
      ([CHR 0xEA, CHR 0x9E, CHR 0xA3], [CHR 0xEA, CHR 0x9E, CHR 0xA2]),
      ([CHR 0xEA, CHR 0x9E, CHR 0xA5], [CHR 0xEA, CHR 0x9E, CHR 0xA4]),
      ([CHR 0xEA, CHR 0x9E, CHR 0xA7], [CHR 0xEA, CHR 0x9E, CHR 0xA6]),
      ([CHR 0xEA, CHR 0x9E, CHR 0xA9], [CHR 0xEA, CHR 0x9E, CHR 0xA8]),
      ([CHR 0xEA, CHR 0x9E, CHR 0xB5], [CHR 0xEA, CHR 0x9E, CHR 0xB4]),
      ([CHR 0xEA, CHR 0x9E, CHR 0xB7], [CHR 0xEA, CHR 0x9E, CHR 0xB6]),
      ([CHR 0xEA, CHR 0x9E, CHR 0xB9], [CHR 0xEA, CHR 0x9E, CHR 0xB8]),
      ([CHR 0xEA, CHR 0x9E, CHR 0xBB], [CHR 0xEA, CHR 0x9E, CHR 0xBA]),
      ([CHR 0xEA, CHR 0x9E, CHR 0xBD], [CHR 0xEA, CHR 0x9E, CHR 0xBC]),
      ([CHR 0xEA, CHR 0x9E, CHR 0xBF], [CHR 0xEA, CHR 0x9E, CHR 0xBE]),
      ([CHR 0xEA, CHR 0x9F, CHR 0x81], [CHR 0xEA, CHR 0x9F, CHR 0x80]),
      ([CHR 0xEA, CHR 0x9F, CHR 0x83], [CHR 0xEA, CHR 0x9F, CHR 0x82]),
      ([CHR 0xEA, CHR 0x9F, CHR 0x88], [CHR 0xEA, CHR 0x9F, CHR 0x87]),
      ([CHR 0xEA, CHR 0x9F, CHR 0x8A], [CHR 0xEA, CHR 0x9F, CHR 0x89]),
      ([CHR 0xEA, CHR 0x9F, CHR 0x91], [CHR 0xEA, CHR 0x9F, CHR 0x90]),
      ([CHR 0xEA, CHR 0x9F, CHR 0x97], [CHR 0xEA, CHR 0x9F, CHR 0x96]),
      ([CHR 0xEA, CHR 0x9F, CHR 0x99], [CHR 0xEA, CHR 0x9F, CHR 0x98]),
      ([CHR 0xEA, CHR 0x9F, CHR 0xB6], [CHR 0xEA, CHR 0x9F, CHR 0xB5]),
      ([CHR 0xEA, CHR 0xAD, CHR 0x93], [CHR 0xEA, CHR 0x9E, CHR 0xB3]),
      ([CHR 0xEA, CHR 0xAD, CHR 0xB0], [CHR 0xE1, CHR 0x8E, CHR 0xA0]),
      ([CHR 0xEA, CHR 0xAD, CHR 0xB1], [CHR 0xE1, CHR 0x8E, CHR 0xA1]),
      ([CHR 0xEA, CHR 0xAD, CHR 0xB2], [CHR 0xE1, CHR 0x8E, CHR 0xA2]),
      ([CHR 0xEA, CHR 0xAD, CHR 0xB3], [CHR 0xE1, CHR 0x8E, CHR 0xA3]),
      ([CHR 0xEA, CHR 0xAD, CHR 0xB4], [CHR 0xE1, CHR 0x8E, CHR 0xA4]),
      ([CHR 0xEA, CHR 0xAD, CHR 0xB5], [CHR 0xE1, CHR 0x8E, CHR 0xA5]),
      ([CHR 0xEA, CHR 0xAD, CHR 0xB6], [CHR 0xE1, CHR 0x8E, CHR 0xA6]),
      ([CHR 0xEA, CHR 0xAD, CHR 0xB7], [CHR 0xE1, CHR 0x8E, CHR 0xA7]),
      ([CHR 0xEA, CHR 0xAD, CHR 0xB8], [CHR 0xE1, CHR 0x8E, CHR 0xA8]),
      ([CHR 0xEA, CHR 0xAD, CHR 0xB9], [CHR 0xE1, CHR 0x8E, CHR 0xA9]),
      ([CHR 0xEA, CHR 0xAD, CHR 0xBA], [CHR 0xE1, CHR 0x8E, CHR 0xAA]),
      ([CHR 0xEA, CHR 0xAD, CHR 0xBB], [CHR 0xE1, CHR 0x8E, CHR 0xAB]),
      ([CHR 0xEA, CHR 0xAD, CHR 0xBC], [CHR 0xE1, CHR 0x8E, CHR 0xAC]),
      ([CHR 0xEA, CHR 0xAD, CHR 0xBD], [CHR 0xE1, CHR 0x8E, CHR 0xAD]),
      ([CHR 0xEA, CHR 0xAD, CHR 0xBE], [CHR 0xE1, CHR 0x8E, CHR 0xAE]),
      ([CHR 0xEA, CHR 0xAD, CHR 0xBF], [CHR 0xE1, CHR 0x8E, CHR 0xAF]),
      ([CHR 0xEA, CHR 0xAE, CHR 0x80], [CHR 0xE1, CHR 0x8E, CHR 0xB0]),
      ([CHR 0xEA, CHR 0xAE, CHR 0x81], [CHR 0xE1, CHR 0x8E, CHR 0xB1]),
      ([CHR 0xEA, CHR 0xAE, CHR 0x82], [CHR 0xE1, CHR 0x8E, CHR 0xB2]),
      ([CHR 0xEA, CHR 0xAE, CHR 0x83], [CHR 0xE1, CHR 0x8E, CHR 0xB3]),
      ([CHR 0xEA, CHR 0xAE, CHR 0x84], [CHR 0xE1, CHR 0x8E, CHR 0xB4]),
      ([CHR 0xEA, CHR 0xAE, CHR 0x85], [CHR 0xE1, CHR 0x8E, CHR 0xB5]),
      ([CHR 0xEA, CHR 0xAE, CHR 0x86], [CHR 0xE1, CHR 0x8E, CHR 0xB6]),
      ([CHR 0xEA, CHR 0xAE, CHR 0x87], [CHR 0xE1, CHR 0x8E, CHR 0xB7]),
      ([CHR 0xEA, CHR 0xAE, CHR 0x88], [CHR 0xE1, CHR 0x8E, CHR 0xB8]),
      ([CHR 0xEA, CHR 0xAE, CHR 0x89], [CHR 0xE1, CHR 0x8E, CHR 0xB9]),
      ([CHR 0xEA, CHR 0xAE, CHR 0x8A], [CHR 0xE1, CHR 0x8E, CHR 0xBA]),
      ([CHR 0xEA, CHR 0xAE, CHR 0x8B], [CHR 0xE1, CHR 0x8E, CHR 0xBB]),
      ([CHR 0xEA, CHR 0xAE, CHR 0x8C], [CHR 0xE1, CHR 0x8E, CHR 0xBC]),
      ([CHR 0xEA, CHR 0xAE, CHR 0x8D], [CHR 0xE1, CHR 0x8E, CHR 0xBD]),
      ([CHR 0xEA, CHR 0xAE, CHR 0x8E], [CHR 0xE1, CHR 0x8E, CHR 0xBE]),
      ([CHR 0xEA, CHR 0xAE, CHR 0x8F], [CHR 0xE1, CHR 0x8E, CHR 0xBF]),
      ([CHR 0xEA, CHR 0xAE, CHR 0x90], [CHR 0xE1, CHR 0x8F, CHR 0x80]),
      ([CHR 0xEA, CHR 0xAE, CHR 0x91], [CHR 0xE1, CHR 0x8F, CHR 0x81]),
      ([CHR 0xEA, CHR 0xAE, CHR 0x92], [CHR 0xE1, CHR 0x8F, CHR 0x82]),
      ([CHR 0xEA, CHR 0xAE, CHR 0x93], [CHR 0xE1, CHR 0x8F, CHR 0x83]),
      ([CHR 0xEA, CHR 0xAE, CHR 0x94], [CHR 0xE1, CHR 0x8F, CHR 0x84]),
      ([CHR 0xEA, CHR 0xAE, CHR 0x95], [CHR 0xE1, CHR 0x8F, CHR 0x85]),
      ([CHR 0xEA, CHR 0xAE, CHR 0x96], [CHR 0xE1, CHR 0x8F, CHR 0x86]),
      ([CHR 0xEA, CHR 0xAE, CHR 0x97], [CHR 0xE1, CHR 0x8F, CHR 0x87]),
      ([CHR 0xEA, CHR 0xAE, CHR 0x98], [CHR 0xE1, CHR 0x8F, CHR 0x88]),
      ([CHR 0xEA, CHR 0xAE, CHR 0x99], [CHR 0xE1, CHR 0x8F, CHR 0x89]),
      ([CHR 0xEA, CHR 0xAE, CHR 0x9A], [CHR 0xE1, CHR 0x8F, CHR 0x8A]),
      ([CHR 0xEA, CHR 0xAE, CHR 0x9B], [CHR 0xE1, CHR 0x8F, CHR 0x8B]),
      ([CHR 0xEA, CHR 0xAE, CHR 0x9C], [CHR 0xE1, CHR 0x8F, CHR 0x8C]),
      ([CHR 0xEA, CHR 0xAE, CHR 0x9D], [CHR 0xE1, CHR 0x8F, CHR 0x8D]),
      ([CHR 0xEA, CHR 0xAE, CHR 0x9E], [CHR 0xE1, CHR 0x8F, CHR 0x8E]),
      ([CHR 0xEA, CHR 0xAE, CHR 0x9F], [CHR 0xE1, CHR 0x8F, CHR 0x8F]),
      ([CHR 0xEA, CHR 0xAE, CHR 0xA0], [CHR 0xE1, CHR 0x8F, CHR 0x90]),
      ([CHR 0xEA, CHR 0xAE, CHR 0xA1], [CHR 0xE1, CHR 0x8F, CHR 0x91]),
      ([CHR 0xEA, CHR 0xAE, CHR 0xA2], [CHR 0xE1, CHR 0x8F, CHR 0x92]),
      ([CHR 0xEA, CHR 0xAE, CHR 0xA3], [CHR 0xE1, CHR 0x8F, CHR 0x93]),
      ([CHR 0xEA, CHR 0xAE, CHR 0xA4], [CHR 0xE1, CHR 0x8F, CHR 0x94]),
      ([CHR 0xEA, CHR 0xAE, CHR 0xA5], [CHR 0xE1, CHR 0x8F, CHR 0x95]),
      ([CHR 0xEA, CHR 0xAE, CHR 0xA6], [CHR 0xE1, CHR 0x8F, CHR 0x96]),
      ([CHR 0xEA, CHR 0xAE, CHR 0xA7], [CHR 0xE1, CHR 0x8F, CHR 0x97]),
      ([CHR 0xEA, CHR 0xAE, CHR 0xA8], [CHR 0xE1, CHR 0x8F, CHR 0x98]),
      ([CHR 0xEA, CHR 0xAE, CHR 0xA9], [CHR 0xE1, CHR 0x8F, CHR 0x99]),
      ([CHR 0xEA, CHR 0xAE, CHR 0xAA], [CHR 0xE1, CHR 0x8F, CHR 0x9A]),
      ([CHR 0xEA, CHR 0xAE, CHR 0xAB], [CHR 0xE1, CHR 0x8F, CHR 0x9B]),
      ([CHR 0xEA, CHR 0xAE, CHR 0xAC], [CHR 0xE1, CHR 0x8F, CHR 0x9C]),
      ([CHR 0xEA, CHR 0xAE, CHR 0xAD], [CHR 0xE1, CHR 0x8F, CHR 0x9D]),
      ([CHR 0xEA, CHR 0xAE, CHR 0xAE], [CHR 0xE1, CHR 0x8F, CHR 0x9E]),
      ([CHR 0xEA, CHR 0xAE, CHR 0xAF], [CHR 0xE1, CHR 0x8F, CHR 0x9F]),
      ([CHR 0xEA, CHR 0xAE, CHR 0xB0], [CHR 0xE1, CHR 0x8F, CHR 0xA0]),
      ([CHR 0xEA, CHR 0xAE, CHR 0xB1], [CHR 0xE1, CHR 0x8F, CHR 0xA1]),
      ([CHR 0xEA, CHR 0xAE, CHR 0xB2], [CHR 0xE1, CHR 0x8F, CHR 0xA2]),
      ([CHR 0xEA, CHR 0xAE, CHR 0xB3], [CHR 0xE1, CHR 0x8F, CHR 0xA3]),
      ([CHR 0xEA, CHR 0xAE, CHR 0xB4], [CHR 0xE1, CHR 0x8F, CHR 0xA4]),
      ([CHR 0xEA, CHR 0xAE, CHR 0xB5], [CHR 0xE1, CHR 0x8F, CHR 0xA5]),
      ([CHR 0xEA, CHR 0xAE, CHR 0xB6], [CHR 0xE1, CHR 0x8F, CHR 0xA6]),
      ([CHR 0xEA, CHR 0xAE, CHR 0xB7], [CHR 0xE1, CHR 0x8F, CHR 0xA7]),
      ([CHR 0xEA, CHR 0xAE, CHR 0xB8], [CHR 0xE1, CHR 0x8F, CHR 0xA8]),
      ([CHR 0xEA, CHR 0xAE, CHR 0xB9], [CHR 0xE1, CHR 0x8F, CHR 0xA9]),
      ([CHR 0xEA, CHR 0xAE, CHR 0xBA], [CHR 0xE1, CHR 0x8F, CHR 0xAA]),
      ([CHR 0xEA, CHR 0xAE, CHR 0xBB], [CHR 0xE1, CHR 0x8F, CHR 0xAB]),
      ([CHR 0xEA, CHR 0xAE, CHR 0xBC], [CHR 0xE1, CHR 0x8F, CHR 0xAC]),
      ([CHR 0xEA, CHR 0xAE, CHR 0xBD], [CHR 0xE1, CHR 0x8F, CHR 0xAD]),
      ([CHR 0xEA, CHR 0xAE, CHR 0xBE], [CHR 0xE1, CHR 0x8F, CHR 0xAE]),
      ([CHR 0xEA, CHR 0xAE, CHR 0xBF], [CHR 0xE1, CHR 0x8F, CHR 0xAF])]"

definition upperEF :: "(string \<times> string) list" where
  "upperEF =
     [([CHR 0xEF, CHR 0xAC, CHR 0x80], [CHR 0x46, CHR 0x46]),
      ([CHR 0xEF, CHR 0xAC, CHR 0x81], [CHR 0x46, CHR 0x49]),
      ([CHR 0xEF, CHR 0xAC, CHR 0x82], [CHR 0x46, CHR 0x4C]),
      ([CHR 0xEF, CHR 0xAC, CHR 0x83], [CHR 0x46, CHR 0x46, CHR 0x49]),
      ([CHR 0xEF, CHR 0xAC, CHR 0x84], [CHR 0x46, CHR 0x46, CHR 0x4C]),
      ([CHR 0xEF, CHR 0xAC, CHR 0x85], [CHR 0x53, CHR 0x54]),
      ([CHR 0xEF, CHR 0xAC, CHR 0x86], [CHR 0x53, CHR 0x54]),
      ([CHR 0xEF, CHR 0xAC, CHR 0x93], [CHR 0xD5, CHR 0x84, CHR 0xD5, CHR 0x86]),
      ([CHR 0xEF, CHR 0xAC, CHR 0x94], [CHR 0xD5, CHR 0x84, CHR 0xD4, CHR 0xB5]),
      ([CHR 0xEF, CHR 0xAC, CHR 0x95], [CHR 0xD5, CHR 0x84, CHR 0xD4, CHR 0xBB]),
      ([CHR 0xEF, CHR 0xAC, CHR 0x96], [CHR 0xD5, CHR 0x8E, CHR 0xD5, CHR 0x86]),
      ([CHR 0xEF, CHR 0xAC, CHR 0x97], [CHR 0xD5, CHR 0x84, CHR 0xD4, CHR 0xBD]),
      ([CHR 0xEF, CHR 0xBD, CHR 0x81], [CHR 0xEF, CHR 0xBC, CHR 0xA1]),
      ([CHR 0xEF, CHR 0xBD, CHR 0x82], [CHR 0xEF, CHR 0xBC, CHR 0xA2]),
      ([CHR 0xEF, CHR 0xBD, CHR 0x83], [CHR 0xEF, CHR 0xBC, CHR 0xA3]),
      ([CHR 0xEF, CHR 0xBD, CHR 0x84], [CHR 0xEF, CHR 0xBC, CHR 0xA4]),
      ([CHR 0xEF, CHR 0xBD, CHR 0x85], [CHR 0xEF, CHR 0xBC, CHR 0xA5]),
      ([CHR 0xEF, CHR 0xBD, CHR 0x86], [CHR 0xEF, CHR 0xBC, CHR 0xA6]),
      ([CHR 0xEF, CHR 0xBD, CHR 0x87], [CHR 0xEF, CHR 0xBC, CHR 0xA7]),
      ([CHR 0xEF, CHR 0xBD, CHR 0x88], [CHR 0xEF, CHR 0xBC, CHR 0xA8]),
      ([CHR 0xEF, CHR 0xBD, CHR 0x89], [CHR 0xEF, CHR 0xBC, CHR 0xA9]),
      ([CHR 0xEF, CHR 0xBD, CHR 0x8A], [CHR 0xEF, CHR 0xBC, CHR 0xAA]),
      ([CHR 0xEF, CHR 0xBD, CHR 0x8B], [CHR 0xEF, CHR 0xBC, CHR 0xAB]),
      ([CHR 0xEF, CHR 0xBD, CHR 0x8C], [CHR 0xEF, CHR 0xBC, CHR 0xAC]),
      ([CHR 0xEF, CHR 0xBD, CHR 0x8D], [CHR 0xEF, CHR 0xBC, CHR 0xAD]),
      ([CHR 0xEF, CHR 0xBD, CHR 0x8E], [CHR 0xEF, CHR 0xBC, CHR 0xAE]),
      ([CHR 0xEF, CHR 0xBD, CHR 0x8F], [CHR 0xEF, CHR 0xBC, CHR 0xAF]),
      ([CHR 0xEF, CHR 0xBD, CHR 0x90], [CHR 0xEF, CHR 0xBC, CHR 0xB0]),
      ([CHR 0xEF, CHR 0xBD, CHR 0x91], [CHR 0xEF, CHR 0xBC, CHR 0xB1]),
      ([CHR 0xEF, CHR 0xBD, CHR 0x92], [CHR 0xEF, CHR 0xBC, CHR 0xB2]),
      ([CHR 0xEF, CHR 0xBD, CHR 0x93], [CHR 0xEF, CHR 0xBC, CHR 0xB3]),
      ([CHR 0xEF, CHR 0xBD, CHR 0x94], [CHR 0xEF, CHR 0xBC, CHR 0xB4]),
      ([CHR 0xEF, CHR 0xBD, CHR 0x95], [CHR 0xEF, CHR 0xBC, CHR 0xB5]),
      ([CHR 0xEF, CHR 0xBD, CHR 0x96], [CHR 0xEF, CHR 0xBC, CHR 0xB6]),
      ([CHR 0xEF, CHR 0xBD, CHR 0x97], [CHR 0xEF, CHR 0xBC, CHR 0xB7]),
      ([CHR 0xEF, CHR 0xBD, CHR 0x98], [CHR 0xEF, CHR 0xBC, CHR 0xB8]),
      ([CHR 0xEF, CHR 0xBD, CHR 0x99], [CHR 0xEF, CHR 0xBC, CHR 0xB9]),
      ([CHR 0xEF, CHR 0xBD, CHR 0x9A], [CHR 0xEF, CHR 0xBC, CHR 0xBA])]"

definition upperF0 :: "(string \<times> string) list" where
  "upperF0 =
     [([CHR 0xF0, CHR 0x90, CHR 0x90, CHR 0xA8], [CHR 0xF0, CHR 0x90, CHR 0x90, CHR 0x80]),
      ([CHR 0xF0, CHR 0x90, CHR 0x90, CHR 0xA9], [CHR 0xF0, CHR 0x90, CHR 0x90, CHR 0x81]),
      ([CHR 0xF0, CHR 0x90, CHR 0x90, CHR 0xAA], [CHR 0xF0, CHR 0x90, CHR 0x90, CHR 0x82]),
      ([CHR 0xF0, CHR 0x90, CHR 0x90, CHR 0xAB], [CHR 0xF0, CHR 0x90, CHR 0x90, CHR 0x83]),
      ([CHR 0xF0, CHR 0x90, CHR 0x90, CHR 0xAC], [CHR 0xF0, CHR 0x90, CHR 0x90, CHR 0x84]),
      ([CHR 0xF0, CHR 0x90, CHR 0x90, CHR 0xAD], [CHR 0xF0, CHR 0x90, CHR 0x90, CHR 0x85]),
      ([CHR 0xF0, CHR 0x90, CHR 0x90, CHR 0xAE], [CHR 0xF0, CHR 0x90, CHR 0x90, CHR 0x86]),
      ([CHR 0xF0, CHR 0x90, CHR 0x90, CHR 0xAF], [CHR 0xF0, CHR 0x90, CHR 0x90, CHR 0x87]),
      ([CHR 0xF0, CHR 0x90, CHR 0x90, CHR 0xB0], [CHR 0xF0, CHR 0x90, CHR 0x90, CHR 0x88]),
      ([CHR 0xF0, CHR 0x90, CHR 0x90, CHR 0xB1], [CHR 0xF0, CHR 0x90, CHR 0x90, CHR 0x89]),
      ([CHR 0xF0, CHR 0x90, CHR 0x90, CHR 0xB2], [CHR 0xF0, CHR 0x90, CHR 0x90, CHR 0x8A]),
      ([CHR 0xF0, CHR 0x90, CHR 0x90, CHR 0xB3], [CHR 0xF0, CHR 0x90, CHR 0x90, CHR 0x8B]),
      ([CHR 0xF0, CHR 0x90, CHR 0x90, CHR 0xB4], [CHR 0xF0, CHR 0x90, CHR 0x90, CHR 0x8C]),
      ([CHR 0xF0, CHR 0x90, CHR 0x90, CHR 0xB5], [CHR 0xF0, CHR 0x90, CHR 0x90, CHR 0x8D]),
      ([CHR 0xF0, CHR 0x90, CHR 0x90, CHR 0xB6], [CHR 0xF0, CHR 0x90, CHR 0x90, CHR 0x8E]),
      ([CHR 0xF0, CHR 0x90, CHR 0x90, CHR 0xB7], [CHR 0xF0, CHR 0x90, CHR 0x90, CHR 0x8F]),
      ([CHR 0xF0, CHR 0x90, CHR 0x90, CHR 0xB8], [CHR 0xF0, CHR 0x90, CHR 0x90, CHR 0x90]),
      ([CHR 0xF0, CHR 0x90, CHR 0x90, CHR 0xB9], [CHR 0xF0, CHR 0x90, CHR 0x90, CHR 0x91]),
      ([CHR 0xF0, CHR 0x90, CHR 0x90, CHR 0xBA], [CHR 0xF0, CHR 0x90, CHR 0x90, CHR 0x92]),
      ([CHR 0xF0, CHR 0x90, CHR 0x90, CHR 0xBB], [CHR 0xF0, CHR 0x90, CHR 0x90, CHR 0x93]),
      ([CHR 0xF0, CHR 0x90, CHR 0x90, CHR 0xBC], [CHR 0xF0, CHR 0x90, CHR 0x90, CHR 0x94]),
      ([CHR 0xF0, CHR 0x90, CHR 0x90, CHR 0xBD], [CHR 0xF0, CHR 0x90, CHR 0x90, CHR 0x95]),
      ([CHR 0xF0, CHR 0x90, CHR 0x90, CHR 0xBE], [CHR 0xF0, CHR 0x90, CHR 0x90, CHR 0x96]),
      ([CHR 0xF0, CHR 0x90, CHR 0x90, CHR 0xBF], [CHR 0xF0, CHR 0x90, CHR 0x90, CHR 0x97]),
      ([CHR 0xF0, CHR 0x90, CHR 0x91, CHR 0x80], [CHR 0xF0, CHR 0x90, CHR 0x90, CHR 0x98]),
      ([CHR 0xF0, CHR 0x90, CHR 0x91, CHR 0x81], [CHR 0xF0, CHR 0x90, CHR 0x90, CHR 0x99]),
      ([CHR 0xF0, CHR 0x90, CHR 0x91, CHR 0x82], [CHR 0xF0, CHR 0x90, CHR 0x90, CHR 0x9A]),
      ([CHR 0xF0, CHR 0x90, CHR 0x91, CHR 0x83], [CHR 0xF0, CHR 0x90, CHR 0x90, CHR 0x9B]),
      ([CHR 0xF0, CHR 0x90, CHR 0x91, CHR 0x84], [CHR 0xF0, CHR 0x90, CHR 0x90, CHR 0x9C]),
      ([CHR 0xF0, CHR 0x90, CHR 0x91, CHR 0x85], [CHR 0xF0, CHR 0x90, CHR 0x90, CHR 0x9D]),
      ([CHR 0xF0, CHR 0x90, CHR 0x91, CHR 0x86], [CHR 0xF0, CHR 0x90, CHR 0x90, CHR 0x9E]),
      ([CHR 0xF0, CHR 0x90, CHR 0x91, CHR 0x87], [CHR 0xF0, CHR 0x90, CHR 0x90, CHR 0x9F]),
      ([CHR 0xF0, CHR 0x90, CHR 0x91, CHR 0x88], [CHR 0xF0, CHR 0x90, CHR 0x90, CHR 0xA0]),
      ([CHR 0xF0, CHR 0x90, CHR 0x91, CHR 0x89], [CHR 0xF0, CHR 0x90, CHR 0x90, CHR 0xA1]),
      ([CHR 0xF0, CHR 0x90, CHR 0x91, CHR 0x8A], [CHR 0xF0, CHR 0x90, CHR 0x90, CHR 0xA2]),
      ([CHR 0xF0, CHR 0x90, CHR 0x91, CHR 0x8B], [CHR 0xF0, CHR 0x90, CHR 0x90, CHR 0xA3]),
      ([CHR 0xF0, CHR 0x90, CHR 0x91, CHR 0x8C], [CHR 0xF0, CHR 0x90, CHR 0x90, CHR 0xA4]),
      ([CHR 0xF0, CHR 0x90, CHR 0x91, CHR 0x8D], [CHR 0xF0, CHR 0x90, CHR 0x90, CHR 0xA5]),
      ([CHR 0xF0, CHR 0x90, CHR 0x91, CHR 0x8E], [CHR 0xF0, CHR 0x90, CHR 0x90, CHR 0xA6]),
      ([CHR 0xF0, CHR 0x90, CHR 0x91, CHR 0x8F], [CHR 0xF0, CHR 0x90, CHR 0x90, CHR 0xA7]),
      ([CHR 0xF0, CHR 0x90, CHR 0x93, CHR 0x98], [CHR 0xF0, CHR 0x90, CHR 0x92, CHR 0xB0]),
      ([CHR 0xF0, CHR 0x90, CHR 0x93, CHR 0x99], [CHR 0xF0, CHR 0x90, CHR 0x92, CHR 0xB1]),
      ([CHR 0xF0, CHR 0x90, CHR 0x93, CHR 0x9A], [CHR 0xF0, CHR 0x90, CHR 0x92, CHR 0xB2]),
      ([CHR 0xF0, CHR 0x90, CHR 0x93, CHR 0x9B], [CHR 0xF0, CHR 0x90, CHR 0x92, CHR 0xB3]),
      ([CHR 0xF0, CHR 0x90, CHR 0x93, CHR 0x9C], [CHR 0xF0, CHR 0x90, CHR 0x92, CHR 0xB4]),
      ([CHR 0xF0, CHR 0x90, CHR 0x93, CHR 0x9D], [CHR 0xF0, CHR 0x90, CHR 0x92, CHR 0xB5]),
      ([CHR 0xF0, CHR 0x90, CHR 0x93, CHR 0x9E], [CHR 0xF0, CHR 0x90, CHR 0x92, CHR 0xB6]),
      ([CHR 0xF0, CHR 0x90, CHR 0x93, CHR 0x9F], [CHR 0xF0, CHR 0x90, CHR 0x92, CHR 0xB7]),
      ([CHR 0xF0, CHR 0x90, CHR 0x93, CHR 0xA0], [CHR 0xF0, CHR 0x90, CHR 0x92, CHR 0xB8]),
      ([CHR 0xF0, CHR 0x90, CHR 0x93, CHR 0xA1], [CHR 0xF0, CHR 0x90, CHR 0x92, CHR 0xB9]),
      ([CHR 0xF0, CHR 0x90, CHR 0x93, CHR 0xA2], [CHR 0xF0, CHR 0x90, CHR 0x92, CHR 0xBA]),
      ([CHR 0xF0, CHR 0x90, CHR 0x93, CHR 0xA3], [CHR 0xF0, CHR 0x90, CHR 0x92, CHR 0xBB]),
      ([CHR 0xF0, CHR 0x90, CHR 0x93, CHR 0xA4], [CHR 0xF0, CHR 0x90, CHR 0x92, CHR 0xBC]),
      ([CHR 0xF0, CHR 0x90, CHR 0x93, CHR 0xA5], [CHR 0xF0, CHR 0x90, CHR 0x92, CHR 0xBD]),
      ([CHR 0xF0, CHR 0x90, CHR 0x93, CHR 0xA6], [CHR 0xF0, CHR 0x90, CHR 0x92, CHR 0xBE]),
      ([CHR 0xF0, CHR 0x90, CHR 0x93, CHR 0xA7], [CHR 0xF0, CHR 0x90, CHR 0x92, CHR 0xBF]),
      ([CHR 0xF0, CHR 0x90, CHR 0x93, CHR 0xA8], [CHR 0xF0, CHR 0x90, CHR 0x93, CHR 0x80]),
      ([CHR 0xF0, CHR 0x90, CHR 0x93, CHR 0xA9], [CHR 0xF0, CHR 0x90, CHR 0x93, CHR 0x81]),
      ([CHR 0xF0, CHR 0x90, CHR 0x93, CHR 0xAA], [CHR 0xF0, CHR 0x90, CHR 0x93, CHR 0x82]),
      ([CHR 0xF0, CHR 0x90, CHR 0x93, CHR 0xAB], [CHR 0xF0, CHR 0x90, CHR 0x93, CHR 0x83]),
      ([CHR 0xF0, CHR 0x90, CHR 0x93, CHR 0xAC], [CHR 0xF0, CHR 0x90, CHR 0x93, CHR 0x84]),
      ([CHR 0xF0, CHR 0x90, CHR 0x93, CHR 0xAD], [CHR 0xF0, CHR 0x90, CHR 0x93, CHR 0x85]),
      ([CHR 0xF0, CHR 0x90, CHR 0x93, CHR 0xAE], [CHR 0xF0, CHR 0x90, CHR 0x93, CHR 0x86]),
      ([CHR 0xF0, CHR 0x90, CHR 0x93, CHR 0xAF], [CHR 0xF0, CHR 0x90, CHR 0x93, CHR 0x87]),
      ([CHR 0xF0, CHR 0x90, CHR 0x93, CHR 0xB0], [CHR 0xF0, CHR 0x90, CHR 0x93, CHR 0x88]),
      ([CHR 0xF0, CHR 0x90, CHR 0x93, CHR 0xB1], [CHR 0xF0, CHR 0x90, CHR 0x93, CHR 0x89]),
      ([CHR 0xF0, CHR 0x90, CHR 0x93, CHR 0xB2], [CHR 0xF0, CHR 0x90, CHR 0x93, CHR 0x8A]),
      ([CHR 0xF0, CHR 0x90, CHR 0x93, CHR 0xB3], [CHR 0xF0, CHR 0x90, CHR 0x93, CHR 0x8B]),
      ([CHR 0xF0, CHR 0x90, CHR 0x93, CHR 0xB4], [CHR 0xF0, CHR 0x90, CHR 0x93, CHR 0x8C]),
      ([CHR 0xF0, CHR 0x90, CHR 0x93, CHR 0xB5], [CHR 0xF0, CHR 0x90, CHR 0x93, CHR 0x8D]),
      ([CHR 0xF0, CHR 0x90, CHR 0x93, CHR 0xB6], [CHR 0xF0, CHR 0x90, CHR 0x93, CHR 0x8E]),
      ([CHR 0xF0, CHR 0x90, CHR 0x93, CHR 0xB7], [CHR 0xF0, CHR 0x90, CHR 0x93, CHR 0x8F]),
      ([CHR 0xF0, CHR 0x90, CHR 0x93, CHR 0xB8], [CHR 0xF0, CHR 0x90, CHR 0x93, CHR 0x90]),
      ([CHR 0xF0, CHR 0x90, CHR 0x93, CHR 0xB9], [CHR 0xF0, CHR 0x90, CHR 0x93, CHR 0x91]),
      ([CHR 0xF0, CHR 0x90, CHR 0x93, CHR 0xBA], [CHR 0xF0, CHR 0x90, CHR 0x93, CHR 0x92]),
      ([CHR 0xF0, CHR 0x90, CHR 0x93, CHR 0xBB], [CHR 0xF0, CHR 0x90, CHR 0x93, CHR 0x93]),
      ([CHR 0xF0, CHR 0x90, CHR 0x96, CHR 0x97], [CHR 0xF0, CHR 0x90, CHR 0x95, CHR 0xB0]),
      ([CHR 0xF0, CHR 0x90, CHR 0x96, CHR 0x98], [CHR 0xF0, CHR 0x90, CHR 0x95, CHR 0xB1]),
      ([CHR 0xF0, CHR 0x90, CHR 0x96, CHR 0x99], [CHR 0xF0, CHR 0x90, CHR 0x95, CHR 0xB2]),
      ([CHR 0xF0, CHR 0x90, CHR 0x96, CHR 0x9A], [CHR 0xF0, CHR 0x90, CHR 0x95, CHR 0xB3]),
      ([CHR 0xF0, CHR 0x90, CHR 0x96, CHR 0x9B], [CHR 0xF0, CHR 0x90, CHR 0x95, CHR 0xB4]),
      ([CHR 0xF0, CHR 0x90, CHR 0x96, CHR 0x9C], [CHR 0xF0, CHR 0x90, CHR 0x95, CHR 0xB5]),
      ([CHR 0xF0, CHR 0x90, CHR 0x96, CHR 0x9D], [CHR 0xF0, CHR 0x90, CHR 0x95, CHR 0xB6]),
      ([CHR 0xF0, CHR 0x90, CHR 0x96, CHR 0x9E], [CHR 0xF0, CHR 0x90, CHR 0x95, CHR 0xB7]),
      ([CHR 0xF0, CHR 0x90, CHR 0x96, CHR 0x9F], [CHR 0xF0, CHR 0x90, CHR 0x95, CHR 0xB8]),
      ([CHR 0xF0, CHR 0x90, CHR 0x96, CHR 0xA0], [CHR 0xF0, CHR 0x90, CHR 0x95, CHR 0xB9]),
      ([CHR 0xF0, CHR 0x90, CHR 0x96, CHR 0xA1], [CHR 0xF0, CHR 0x90, CHR 0x95, CHR 0xBA]),
      ([CHR 0xF0, CHR 0x90, CHR 0x96, CHR 0xA3], [CHR 0xF0, CHR 0x90, CHR 0x95, CHR 0xBC]),
      ([CHR 0xF0, CHR 0x90, CHR 0x96, CHR 0xA4], [CHR 0xF0, CHR 0x90, CHR 0x95, CHR 0xBD]),
      ([CHR 0xF0, CHR 0x90, CHR 0x96, CHR 0xA5], [CHR 0xF0, CHR 0x90, CHR 0x95, CHR 0xBE]),
      ([CHR 0xF0, CHR 0x90, CHR 0x96, CHR 0xA6], [CHR 0xF0, CHR 0x90, CHR 0x95, CHR 0xBF]),
      ([CHR 0xF0, CHR 0x90, CHR 0x96, CHR 0xA7], [CHR 0xF0, CHR 0x90, CHR 0x96, CHR 0x80]),
      ([CHR 0xF0, CHR 0x90, CHR 0x96, CHR 0xA8], [CHR 0xF0, CHR 0x90, CHR 0x96, CHR 0x81]),
      ([CHR 0xF0, CHR 0x90, CHR 0x96, CHR 0xA9], [CHR 0xF0, CHR 0x90, CHR 0x96, CHR 0x82]),
      ([CHR 0xF0, CHR 0x90, CHR 0x96, CHR 0xAA], [CHR 0xF0, CHR 0x90, CHR 0x96, CHR 0x83]),
      ([CHR 0xF0, CHR 0x90, CHR 0x96, CHR 0xAB], [CHR 0xF0, CHR 0x90, CHR 0x96, CHR 0x84]),
      ([CHR 0xF0, CHR 0x90, CHR 0x96, CHR 0xAC], [CHR 0xF0, CHR 0x90, CHR 0x96, CHR 0x85]),
      ([CHR 0xF0, CHR 0x90, CHR 0x96, CHR 0xAD], [CHR 0xF0, CHR 0x90, CHR 0x96, CHR 0x86]),
      ([CHR 0xF0, CHR 0x90, CHR 0x96, CHR 0xAE], [CHR 0xF0, CHR 0x90, CHR 0x96, CHR 0x87]),
      ([CHR 0xF0, CHR 0x90, CHR 0x96, CHR 0xAF], [CHR 0xF0, CHR 0x90, CHR 0x96, CHR 0x88]),
      ([CHR 0xF0, CHR 0x90, CHR 0x96, CHR 0xB0], [CHR 0xF0, CHR 0x90, CHR 0x96, CHR 0x89]),
      ([CHR 0xF0, CHR 0x90, CHR 0x96, CHR 0xB1], [CHR 0xF0, CHR 0x90, CHR 0x96, CHR 0x8A]),
      ([CHR 0xF0, CHR 0x90, CHR 0x96, CHR 0xB3], [CHR 0xF0, CHR 0x90, CHR 0x96, CHR 0x8C]),
      ([CHR 0xF0, CHR 0x90, CHR 0x96, CHR 0xB4], [CHR 0xF0, CHR 0x90, CHR 0x96, CHR 0x8D]),
      ([CHR 0xF0, CHR 0x90, CHR 0x96, CHR 0xB5], [CHR 0xF0, CHR 0x90, CHR 0x96, CHR 0x8E]),
      ([CHR 0xF0, CHR 0x90, CHR 0x96, CHR 0xB6], [CHR 0xF0, CHR 0x90, CHR 0x96, CHR 0x8F]),
      ([CHR 0xF0, CHR 0x90, CHR 0x96, CHR 0xB7], [CHR 0xF0, CHR 0x90, CHR 0x96, CHR 0x90]),
      ([CHR 0xF0, CHR 0x90, CHR 0x96, CHR 0xB8], [CHR 0xF0, CHR 0x90, CHR 0x96, CHR 0x91]),
      ([CHR 0xF0, CHR 0x90, CHR 0x96, CHR 0xB9], [CHR 0xF0, CHR 0x90, CHR 0x96, CHR 0x92]),
      ([CHR 0xF0, CHR 0x90, CHR 0x96, CHR 0xBB], [CHR 0xF0, CHR 0x90, CHR 0x96, CHR 0x94]),
      ([CHR 0xF0, CHR 0x90, CHR 0x96, CHR 0xBC], [CHR 0xF0, CHR 0x90, CHR 0x96, CHR 0x95]),
      ([CHR 0xF0, CHR 0x90, CHR 0xB3, CHR 0x80], [CHR 0xF0, CHR 0x90, CHR 0xB2, CHR 0x80]),
      ([CHR 0xF0, CHR 0x90, CHR 0xB3, CHR 0x81], [CHR 0xF0, CHR 0x90, CHR 0xB2, CHR 0x81]),
      ([CHR 0xF0, CHR 0x90, CHR 0xB3, CHR 0x82], [CHR 0xF0, CHR 0x90, CHR 0xB2, CHR 0x82]),
      ([CHR 0xF0, CHR 0x90, CHR 0xB3, CHR 0x83], [CHR 0xF0, CHR 0x90, CHR 0xB2, CHR 0x83]),
      ([CHR 0xF0, CHR 0x90, CHR 0xB3, CHR 0x84], [CHR 0xF0, CHR 0x90, CHR 0xB2, CHR 0x84]),
      ([CHR 0xF0, CHR 0x90, CHR 0xB3, CHR 0x85], [CHR 0xF0, CHR 0x90, CHR 0xB2, CHR 0x85]),
      ([CHR 0xF0, CHR 0x90, CHR 0xB3, CHR 0x86], [CHR 0xF0, CHR 0x90, CHR 0xB2, CHR 0x86]),
      ([CHR 0xF0, CHR 0x90, CHR 0xB3, CHR 0x87], [CHR 0xF0, CHR 0x90, CHR 0xB2, CHR 0x87]),
      ([CHR 0xF0, CHR 0x90, CHR 0xB3, CHR 0x88], [CHR 0xF0, CHR 0x90, CHR 0xB2, CHR 0x88]),
      ([CHR 0xF0, CHR 0x90, CHR 0xB3, CHR 0x89], [CHR 0xF0, CHR 0x90, CHR 0xB2, CHR 0x89]),
      ([CHR 0xF0, CHR 0x90, CHR 0xB3, CHR 0x8A], [CHR 0xF0, CHR 0x90, CHR 0xB2, CHR 0x8A]),
      ([CHR 0xF0, CHR 0x90, CHR 0xB3, CHR 0x8B], [CHR 0xF0, CHR 0x90, CHR 0xB2, CHR 0x8B]),
      ([CHR 0xF0, CHR 0x90, CHR 0xB3, CHR 0x8C], [CHR 0xF0, CHR 0x90, CHR 0xB2, CHR 0x8C]),
      ([CHR 0xF0, CHR 0x90, CHR 0xB3, CHR 0x8D], [CHR 0xF0, CHR 0x90, CHR 0xB2, CHR 0x8D]),
      ([CHR 0xF0, CHR 0x90, CHR 0xB3, CHR 0x8E], [CHR 0xF0, CHR 0x90, CHR 0xB2, CHR 0x8E]),
      ([CHR 0xF0, CHR 0x90, CHR 0xB3, CHR 0x8F], [CHR 0xF0, CHR 0x90, CHR 0xB2, CHR 0x8F]),
      ([CHR 0xF0, CHR 0x90, CHR 0xB3, CHR 0x90], [CHR 0xF0, CHR 0x90, CHR 0xB2, CHR 0x90]),
      ([CHR 0xF0, CHR 0x90, CHR 0xB3, CHR 0x91], [CHR 0xF0, CHR 0x90, CHR 0xB2, CHR 0x91]),
      ([CHR 0xF0, CHR 0x90, CHR 0xB3, CHR 0x92], [CHR 0xF0, CHR 0x90, CHR 0xB2, CHR 0x92]),
      ([CHR 0xF0, CHR 0x90, CHR 0xB3, CHR 0x93], [CHR 0xF0, CHR 0x90, CHR 0xB2, CHR 0x93]),
      ([CHR 0xF0, CHR 0x90, CHR 0xB3, CHR 0x94], [CHR 0xF0, CHR 0x90, CHR 0xB2, CHR 0x94]),
      ([CHR 0xF0, CHR 0x90, CHR 0xB3, CHR 0x95], [CHR 0xF0, CHR 0x90, CHR 0xB2, CHR 0x95]),
      ([CHR 0xF0, CHR 0x90, CHR 0xB3, CHR 0x96], [CHR 0xF0, CHR 0x90, CHR 0xB2, CHR 0x96]),
      ([CHR 0xF0, CHR 0x90, CHR 0xB3, CHR 0x97], [CHR 0xF0, CHR 0x90, CHR 0xB2, CHR 0x97]),
      ([CHR 0xF0, CHR 0x90, CHR 0xB3, CHR 0x98], [CHR 0xF0, CHR 0x90, CHR 0xB2, CHR 0x98]),
      ([CHR 0xF0, CHR 0x90, CHR 0xB3, CHR 0x99], [CHR 0xF0, CHR 0x90, CHR 0xB2, CHR 0x99]),
      ([CHR 0xF0, CHR 0x90, CHR 0xB3, CHR 0x9A], [CHR 0xF0, CHR 0x90, CHR 0xB2, CHR 0x9A]),
      ([CHR 0xF0, CHR 0x90, CHR 0xB3, CHR 0x9B], [CHR 0xF0, CHR 0x90, CHR 0xB2, CHR 0x9B]),
      ([CHR 0xF0, CHR 0x90, CHR 0xB3, CHR 0x9C], [CHR 0xF0, CHR 0x90, CHR 0xB2, CHR 0x9C]),
      ([CHR 0xF0, CHR 0x90, CHR 0xB3, CHR 0x9D], [CHR 0xF0, CHR 0x90, CHR 0xB2, CHR 0x9D]),
      ([CHR 0xF0, CHR 0x90, CHR 0xB3, CHR 0x9E], [CHR 0xF0, CHR 0x90, CHR 0xB2, CHR 0x9E]),
      ([CHR 0xF0, CHR 0x90, CHR 0xB3, CHR 0x9F], [CHR 0xF0, CHR 0x90, CHR 0xB2, CHR 0x9F]),
      ([CHR 0xF0, CHR 0x90, CHR 0xB3, CHR 0xA0], [CHR 0xF0, CHR 0x90, CHR 0xB2, CHR 0xA0]),
      ([CHR 0xF0, CHR 0x90, CHR 0xB3, CHR 0xA1], [CHR 0xF0, CHR 0x90, CHR 0xB2, CHR 0xA1]),
      ([CHR 0xF0, CHR 0x90, CHR 0xB3, CHR 0xA2], [CHR 0xF0, CHR 0x90, CHR 0xB2, CHR 0xA2]),
      ([CHR 0xF0, CHR 0x90, CHR 0xB3, CHR 0xA3], [CHR 0xF0, CHR 0x90, CHR 0xB2, CHR 0xA3]),
      ([CHR 0xF0, CHR 0x90, CHR 0xB3, CHR 0xA4], [CHR 0xF0, CHR 0x90, CHR 0xB2, CHR 0xA4]),
      ([CHR 0xF0, CHR 0x90, CHR 0xB3, CHR 0xA5], [CHR 0xF0, CHR 0x90, CHR 0xB2, CHR 0xA5]),
      ([CHR 0xF0, CHR 0x90, CHR 0xB3, CHR 0xA6], [CHR 0xF0, CHR 0x90, CHR 0xB2, CHR 0xA6]),
      ([CHR 0xF0, CHR 0x90, CHR 0xB3, CHR 0xA7], [CHR 0xF0, CHR 0x90, CHR 0xB2, CHR 0xA7]),
      ([CHR 0xF0, CHR 0x90, CHR 0xB3, CHR 0xA8], [CHR 0xF0, CHR 0x90, CHR 0xB2, CHR 0xA8]),
      ([CHR 0xF0, CHR 0x90, CHR 0xB3, CHR 0xA9], [CHR 0xF0, CHR 0x90, CHR 0xB2, CHR 0xA9]),
      ([CHR 0xF0, CHR 0x90, CHR 0xB3, CHR 0xAA], [CHR 0xF0, CHR 0x90, CHR 0xB2, CHR 0xAA]),
      ([CHR 0xF0, CHR 0x90, CHR 0xB3, CHR 0xAB], [CHR 0xF0, CHR 0x90, CHR 0xB2, CHR 0xAB]),
      ([CHR 0xF0, CHR 0x90, CHR 0xB3, CHR 0xAC], [CHR 0xF0, CHR 0x90, CHR 0xB2, CHR 0xAC]),
      ([CHR 0xF0, CHR 0x90, CHR 0xB3, CHR 0xAD], [CHR 0xF0, CHR 0x90, CHR 0xB2, CHR 0xAD]),
      ([CHR 0xF0, CHR 0x90, CHR 0xB3, CHR 0xAE], [CHR 0xF0, CHR 0x90, CHR 0xB2, CHR 0xAE]),
      ([CHR 0xF0, CHR 0x90, CHR 0xB3, CHR 0xAF], [CHR 0xF0, CHR 0x90, CHR 0xB2, CHR 0xAF]),
      ([CHR 0xF0, CHR 0x90, CHR 0xB3, CHR 0xB0], [CHR 0xF0, CHR 0x90, CHR 0xB2, CHR 0xB0]),
      ([CHR 0xF0, CHR 0x90, CHR 0xB3, CHR 0xB1], [CHR 0xF0, CHR 0x90, CHR 0xB2, CHR 0xB1]),
      ([CHR 0xF0, CHR 0x90, CHR 0xB3, CHR 0xB2], [CHR 0xF0, CHR 0x90, CHR 0xB2, CHR 0xB2]),
      ([CHR 0xF0, CHR 0x91, CHR 0xA3, CHR 0x80], [CHR 0xF0, CHR 0x91, CHR 0xA2, CHR 0xA0]),
      ([CHR 0xF0, CHR 0x91, CHR 0xA3, CHR 0x81], [CHR 0xF0, CHR 0x91, CHR 0xA2, CHR 0xA1]),
      ([CHR 0xF0, CHR 0x91, CHR 0xA3, CHR 0x82], [CHR 0xF0, CHR 0x91, CHR 0xA2, CHR 0xA2]),
      ([CHR 0xF0, CHR 0x91, CHR 0xA3, CHR 0x83], [CHR 0xF0, CHR 0x91, CHR 0xA2, CHR 0xA3]),
      ([CHR 0xF0, CHR 0x91, CHR 0xA3, CHR 0x84], [CHR 0xF0, CHR 0x91, CHR 0xA2, CHR 0xA4]),
      ([CHR 0xF0, CHR 0x91, CHR 0xA3, CHR 0x85], [CHR 0xF0, CHR 0x91, CHR 0xA2, CHR 0xA5]),
      ([CHR 0xF0, CHR 0x91, CHR 0xA3, CHR 0x86], [CHR 0xF0, CHR 0x91, CHR 0xA2, CHR 0xA6]),
      ([CHR 0xF0, CHR 0x91, CHR 0xA3, CHR 0x87], [CHR 0xF0, CHR 0x91, CHR 0xA2, CHR 0xA7]),
      ([CHR 0xF0, CHR 0x91, CHR 0xA3, CHR 0x88], [CHR 0xF0, CHR 0x91, CHR 0xA2, CHR 0xA8]),
      ([CHR 0xF0, CHR 0x91, CHR 0xA3, CHR 0x89], [CHR 0xF0, CHR 0x91, CHR 0xA2, CHR 0xA9]),
      ([CHR 0xF0, CHR 0x91, CHR 0xA3, CHR 0x8A], [CHR 0xF0, CHR 0x91, CHR 0xA2, CHR 0xAA]),
      ([CHR 0xF0, CHR 0x91, CHR 0xA3, CHR 0x8B], [CHR 0xF0, CHR 0x91, CHR 0xA2, CHR 0xAB]),
      ([CHR 0xF0, CHR 0x91, CHR 0xA3, CHR 0x8C], [CHR 0xF0, CHR 0x91, CHR 0xA2, CHR 0xAC]),
      ([CHR 0xF0, CHR 0x91, CHR 0xA3, CHR 0x8D], [CHR 0xF0, CHR 0x91, CHR 0xA2, CHR 0xAD]),
      ([CHR 0xF0, CHR 0x91, CHR 0xA3, CHR 0x8E], [CHR 0xF0, CHR 0x91, CHR 0xA2, CHR 0xAE]),
      ([CHR 0xF0, CHR 0x91, CHR 0xA3, CHR 0x8F], [CHR 0xF0, CHR 0x91, CHR 0xA2, CHR 0xAF]),
      ([CHR 0xF0, CHR 0x91, CHR 0xA3, CHR 0x90], [CHR 0xF0, CHR 0x91, CHR 0xA2, CHR 0xB0]),
      ([CHR 0xF0, CHR 0x91, CHR 0xA3, CHR 0x91], [CHR 0xF0, CHR 0x91, CHR 0xA2, CHR 0xB1]),
      ([CHR 0xF0, CHR 0x91, CHR 0xA3, CHR 0x92], [CHR 0xF0, CHR 0x91, CHR 0xA2, CHR 0xB2]),
      ([CHR 0xF0, CHR 0x91, CHR 0xA3, CHR 0x93], [CHR 0xF0, CHR 0x91, CHR 0xA2, CHR 0xB3]),
      ([CHR 0xF0, CHR 0x91, CHR 0xA3, CHR 0x94], [CHR 0xF0, CHR 0x91, CHR 0xA2, CHR 0xB4]),
      ([CHR 0xF0, CHR 0x91, CHR 0xA3, CHR 0x95], [CHR 0xF0, CHR 0x91, CHR 0xA2, CHR 0xB5]),
      ([CHR 0xF0, CHR 0x91, CHR 0xA3, CHR 0x96], [CHR 0xF0, CHR 0x91, CHR 0xA2, CHR 0xB6]),
      ([CHR 0xF0, CHR 0x91, CHR 0xA3, CHR 0x97], [CHR 0xF0, CHR 0x91, CHR 0xA2, CHR 0xB7]),
      ([CHR 0xF0, CHR 0x91, CHR 0xA3, CHR 0x98], [CHR 0xF0, CHR 0x91, CHR 0xA2, CHR 0xB8]),
      ([CHR 0xF0, CHR 0x91, CHR 0xA3, CHR 0x99], [CHR 0xF0, CHR 0x91, CHR 0xA2, CHR 0xB9]),
      ([CHR 0xF0, CHR 0x91, CHR 0xA3, CHR 0x9A], [CHR 0xF0, CHR 0x91, CHR 0xA2, CHR 0xBA]),
      ([CHR 0xF0, CHR 0x91, CHR 0xA3, CHR 0x9B], [CHR 0xF0, CHR 0x91, CHR 0xA2, CHR 0xBB]),
      ([CHR 0xF0, CHR 0x91, CHR 0xA3, CHR 0x9C], [CHR 0xF0, CHR 0x91, CHR 0xA2, CHR 0xBC]),
      ([CHR 0xF0, CHR 0x91, CHR 0xA3, CHR 0x9D], [CHR 0xF0, CHR 0x91, CHR 0xA2, CHR 0xBD]),
      ([CHR 0xF0, CHR 0x91, CHR 0xA3, CHR 0x9E], [CHR 0xF0, CHR 0x91, CHR 0xA2, CHR 0xBE]),
      ([CHR 0xF0, CHR 0x91, CHR 0xA3, CHR 0x9F], [CHR 0xF0, CHR 0x91, CHR 0xA2, CHR 0xBF]),
      ([CHR 0xF0, CHR 0x96, CHR 0xB9, CHR 0xA0], [CHR 0xF0, CHR 0x96, CHR 0xB9, CHR 0x80]),
      ([CHR 0xF0, CHR 0x96, CHR 0xB9, CHR 0xA1], [CHR 0xF0, CHR 0x96, CHR 0xB9, CHR 0x81]),
      ([CHR 0xF0, CHR 0x96, CHR 0xB9, CHR 0xA2], [CHR 0xF0, CHR 0x96, CHR 0xB9, CHR 0x82]),
      ([CHR 0xF0, CHR 0x96, CHR 0xB9, CHR 0xA3], [CHR 0xF0, CHR 0x96, CHR 0xB9, CHR 0x83]),
      ([CHR 0xF0, CHR 0x96, CHR 0xB9, CHR 0xA4], [CHR 0xF0, CHR 0x96, CHR 0xB9, CHR 0x84]),
      ([CHR 0xF0, CHR 0x96, CHR 0xB9, CHR 0xA5], [CHR 0xF0, CHR 0x96, CHR 0xB9, CHR 0x85]),
      ([CHR 0xF0, CHR 0x96, CHR 0xB9, CHR 0xA6], [CHR 0xF0, CHR 0x96, CHR 0xB9, CHR 0x86]),
      ([CHR 0xF0, CHR 0x96, CHR 0xB9, CHR 0xA7], [CHR 0xF0, CHR 0x96, CHR 0xB9, CHR 0x87]),
      ([CHR 0xF0, CHR 0x96, CHR 0xB9, CHR 0xA8], [CHR 0xF0, CHR 0x96, CHR 0xB9, CHR 0x88]),
      ([CHR 0xF0, CHR 0x96, CHR 0xB9, CHR 0xA9], [CHR 0xF0, CHR 0x96, CHR 0xB9, CHR 0x89]),
      ([CHR 0xF0, CHR 0x96, CHR 0xB9, CHR 0xAA], [CHR 0xF0, CHR 0x96, CHR 0xB9, CHR 0x8A]),
      ([CHR 0xF0, CHR 0x96, CHR 0xB9, CHR 0xAB], [CHR 0xF0, CHR 0x96, CHR 0xB9, CHR 0x8B]),
      ([CHR 0xF0, CHR 0x96, CHR 0xB9, CHR 0xAC], [CHR 0xF0, CHR 0x96, CHR 0xB9, CHR 0x8C]),
      ([CHR 0xF0, CHR 0x96, CHR 0xB9, CHR 0xAD], [CHR 0xF0, CHR 0x96, CHR 0xB9, CHR 0x8D]),
      ([CHR 0xF0, CHR 0x96, CHR 0xB9, CHR 0xAE], [CHR 0xF0, CHR 0x96, CHR 0xB9, CHR 0x8E]),
      ([CHR 0xF0, CHR 0x96, CHR 0xB9, CHR 0xAF], [CHR 0xF0, CHR 0x96, CHR 0xB9, CHR 0x8F]),
      ([CHR 0xF0, CHR 0x96, CHR 0xB9, CHR 0xB0], [CHR 0xF0, CHR 0x96, CHR 0xB9, CHR 0x90]),
      ([CHR 0xF0, CHR 0x96, CHR 0xB9, CHR 0xB1], [CHR 0xF0, CHR 0x96, CHR 0xB9, CHR 0x91]),
      ([CHR 0xF0, CHR 0x96, CHR 0xB9, CHR 0xB2], [CHR 0xF0, CHR 0x96, CHR 0xB9, CHR 0x92]),
      ([CHR 0xF0, CHR 0x96, CHR 0xB9, CHR 0xB3], [CHR 0xF0, CHR 0x96, CHR 0xB9, CHR 0x93]),
      ([CHR 0xF0, CHR 0x96, CHR 0xB9, CHR 0xB4], [CHR 0xF0, CHR 0x96, CHR 0xB9, CHR 0x94]),
      ([CHR 0xF0, CHR 0x96, CHR 0xB9, CHR 0xB5], [CHR 0xF0, CHR 0x96, CHR 0xB9, CHR 0x95]),
      ([CHR 0xF0, CHR 0x96, CHR 0xB9, CHR 0xB6], [CHR 0xF0, CHR 0x96, CHR 0xB9, CHR 0x96]),
      ([CHR 0xF0, CHR 0x96, CHR 0xB9, CHR 0xB7], [CHR 0xF0, CHR 0x96, CHR 0xB9, CHR 0x97]),
      ([CHR 0xF0, CHR 0x96, CHR 0xB9, CHR 0xB8], [CHR 0xF0, CHR 0x96, CHR 0xB9, CHR 0x98]),
      ([CHR 0xF0, CHR 0x96, CHR 0xB9, CHR 0xB9], [CHR 0xF0, CHR 0x96, CHR 0xB9, CHR 0x99]),
      ([CHR 0xF0, CHR 0x96, CHR 0xB9, CHR 0xBA], [CHR 0xF0, CHR 0x96, CHR 0xB9, CHR 0x9A]),
      ([CHR 0xF0, CHR 0x96, CHR 0xB9, CHR 0xBB], [CHR 0xF0, CHR 0x96, CHR 0xB9, CHR 0x9B]),
      ([CHR 0xF0, CHR 0x96, CHR 0xB9, CHR 0xBC], [CHR 0xF0, CHR 0x96, CHR 0xB9, CHR 0x9C]),
      ([CHR 0xF0, CHR 0x96, CHR 0xB9, CHR 0xBD], [CHR 0xF0, CHR 0x96, CHR 0xB9, CHR 0x9D]),
      ([CHR 0xF0, CHR 0x96, CHR 0xB9, CHR 0xBE], [CHR 0xF0, CHR 0x96, CHR 0xB9, CHR 0x9E]),
      ([CHR 0xF0, CHR 0x96, CHR 0xB9, CHR 0xBF], [CHR 0xF0, CHR 0x96, CHR 0xB9, CHR 0x9F]),
      ([CHR 0xF0, CHR 0x9E, CHR 0xA4, CHR 0xA2], [CHR 0xF0, CHR 0x9E, CHR 0xA4, CHR 0x80]),
      ([CHR 0xF0, CHR 0x9E, CHR 0xA4, CHR 0xA3], [CHR 0xF0, CHR 0x9E, CHR 0xA4, CHR 0x81]),
      ([CHR 0xF0, CHR 0x9E, CHR 0xA4, CHR 0xA4], [CHR 0xF0, CHR 0x9E, CHR 0xA4, CHR 0x82]),
      ([CHR 0xF0, CHR 0x9E, CHR 0xA4, CHR 0xA5], [CHR 0xF0, CHR 0x9E, CHR 0xA4, CHR 0x83]),
      ([CHR 0xF0, CHR 0x9E, CHR 0xA4, CHR 0xA6], [CHR 0xF0, CHR 0x9E, CHR 0xA4, CHR 0x84]),
      ([CHR 0xF0, CHR 0x9E, CHR 0xA4, CHR 0xA7], [CHR 0xF0, CHR 0x9E, CHR 0xA4, CHR 0x85]),
      ([CHR 0xF0, CHR 0x9E, CHR 0xA4, CHR 0xA8], [CHR 0xF0, CHR 0x9E, CHR 0xA4, CHR 0x86]),
      ([CHR 0xF0, CHR 0x9E, CHR 0xA4, CHR 0xA9], [CHR 0xF0, CHR 0x9E, CHR 0xA4, CHR 0x87]),
      ([CHR 0xF0, CHR 0x9E, CHR 0xA4, CHR 0xAA], [CHR 0xF0, CHR 0x9E, CHR 0xA4, CHR 0x88]),
      ([CHR 0xF0, CHR 0x9E, CHR 0xA4, CHR 0xAB], [CHR 0xF0, CHR 0x9E, CHR 0xA4, CHR 0x89]),
      ([CHR 0xF0, CHR 0x9E, CHR 0xA4, CHR 0xAC], [CHR 0xF0, CHR 0x9E, CHR 0xA4, CHR 0x8A]),
      ([CHR 0xF0, CHR 0x9E, CHR 0xA4, CHR 0xAD], [CHR 0xF0, CHR 0x9E, CHR 0xA4, CHR 0x8B]),
      ([CHR 0xF0, CHR 0x9E, CHR 0xA4, CHR 0xAE], [CHR 0xF0, CHR 0x9E, CHR 0xA4, CHR 0x8C]),
      ([CHR 0xF0, CHR 0x9E, CHR 0xA4, CHR 0xAF], [CHR 0xF0, CHR 0x9E, CHR 0xA4, CHR 0x8D]),
      ([CHR 0xF0, CHR 0x9E, CHR 0xA4, CHR 0xB0], [CHR 0xF0, CHR 0x9E, CHR 0xA4, CHR 0x8E]),
      ([CHR 0xF0, CHR 0x9E, CHR 0xA4, CHR 0xB1], [CHR 0xF0, CHR 0x9E, CHR 0xA4, CHR 0x8F]),
      ([CHR 0xF0, CHR 0x9E, CHR 0xA4, CHR 0xB2], [CHR 0xF0, CHR 0x9E, CHR 0xA4, CHR 0x90]),
      ([CHR 0xF0, CHR 0x9E, CHR 0xA4, CHR 0xB3], [CHR 0xF0, CHR 0x9E, CHR 0xA4, CHR 0x91]),
      ([CHR 0xF0, CHR 0x9E, CHR 0xA4, CHR 0xB4], [CHR 0xF0, CHR 0x9E, CHR 0xA4, CHR 0x92]),
      ([CHR 0xF0, CHR 0x9E, CHR 0xA4, CHR 0xB5], [CHR 0xF0, CHR 0x9E, CHR 0xA4, CHR 0x93]),
      ([CHR 0xF0, CHR 0x9E, CHR 0xA4, CHR 0xB6], [CHR 0xF0, CHR 0x9E, CHR 0xA4, CHR 0x94]),
      ([CHR 0xF0, CHR 0x9E, CHR 0xA4, CHR 0xB7], [CHR 0xF0, CHR 0x9E, CHR 0xA4, CHR 0x95]),
      ([CHR 0xF0, CHR 0x9E, CHR 0xA4, CHR 0xB8], [CHR 0xF0, CHR 0x9E, CHR 0xA4, CHR 0x96]),
      ([CHR 0xF0, CHR 0x9E, CHR 0xA4, CHR 0xB9], [CHR 0xF0, CHR 0x9E, CHR 0xA4, CHR 0x97]),
      ([CHR 0xF0, CHR 0x9E, CHR 0xA4, CHR 0xBA], [CHR 0xF0, CHR 0x9E, CHR 0xA4, CHR 0x98]),
      ([CHR 0xF0, CHR 0x9E, CHR 0xA4, CHR 0xBB], [CHR 0xF0, CHR 0x9E, CHR 0xA4, CHR 0x99]),
      ([CHR 0xF0, CHR 0x9E, CHR 0xA4, CHR 0xBC], [CHR 0xF0, CHR 0x9E, CHR 0xA4, CHR 0x9A]),
      ([CHR 0xF0, CHR 0x9E, CHR 0xA4, CHR 0xBD], [CHR 0xF0, CHR 0x9E, CHR 0xA4, CHR 0x9B]),
      ([CHR 0xF0, CHR 0x9E, CHR 0xA4, CHR 0xBE], [CHR 0xF0, CHR 0x9E, CHR 0xA4, CHR 0x9C]),
      ([CHR 0xF0, CHR 0x9E, CHR 0xA4, CHR 0xBF], [CHR 0xF0, CHR 0x9E, CHR 0xA4, CHR 0x9D]),
      ([CHR 0xF0, CHR 0x9E, CHR 0xA5, CHR 0x80], [CHR 0xF0, CHR 0x9E, CHR 0xA4, CHR 0x9E]),
      ([CHR 0xF0, CHR 0x9E, CHR 0xA5, CHR 0x81], [CHR 0xF0, CHR 0x9E, CHR 0xA4, CHR 0x9F]),
      ([CHR 0xF0, CHR 0x9E, CHR 0xA5, CHR 0x82], [CHR 0xF0, CHR 0x9E, CHR 0xA4, CHR 0xA0]),
      ([CHR 0xF0, CHR 0x9E, CHR 0xA5, CHR 0x83], [CHR 0xF0, CHR 0x9E, CHR 0xA4, CHR 0xA1])]"

definition upperTable :: "char \<Rightarrow> (string \<times> string) list" where
  "upperTable c =
     (if c = CHR 0xC2 then upperC2
      else if c = CHR 0xC3 then upperC3
      else if c = CHR 0xC4 then upperC4
      else if c = CHR 0xC5 then upperC5
      else if c = CHR 0xC6 then upperC6
      else if c = CHR 0xC7 then upperC7
      else if c = CHR 0xC8 then upperC8
      else if c = CHR 0xC9 then upperC9
      else if c = CHR 0xCA then upperCA
      else if c = CHR 0xCD then upperCD
      else if c = CHR 0xCE then upperCE
      else if c = CHR 0xCF then upperCF
      else if c = CHR 0xD0 then upperD0
      else if c = CHR 0xD1 then upperD1
      else if c = CHR 0xD2 then upperD2
      else if c = CHR 0xD3 then upperD3
      else if c = CHR 0xD4 then upperD4
      else if c = CHR 0xD5 then upperD5
      else if c = CHR 0xD6 then upperD6
      else if c = CHR 0xE1 then upperE1
      else if c = CHR 0xE2 then upperE2
      else if c = CHR 0xEA then upperEA
      else if c = CHR 0xEF then upperEF
      else if c = CHR 0xF0 then upperF0
      else [])"

fun toUpperCase :: "string \<Rightarrow> string" where
  "toUpperCase [] = []"
| "toUpperCase (c # s) =
     (if isAscii c then toUpperChar c # toUpperCase s
      else
        (case find (\<lambda>kv. startsWith (c # s) (fst kv)) (upperTable c) of
           Some kv \<Rightarrow> snd kv @ toUpperCase (drop (length (fst kv) - 1) s)
         | None \<Rightarrow> c # toUpperCase s))"

text \<open>JavaScript truthiness of a possibly undefined string: defined and not empty.\<close>

fun truthy :: "string option \<Rightarrow> bool" where
  "truthy None = False"
| "truthy (Some v) = (v \<noteq> [])"

text \<open>\<^verbatim>\<open>x || undefined\<close> on a possibly undefined string.\<close>

definition orUndefined :: "string option \<Rightarrow> string option" where
  "orUndefined x = (if truthy x then x else None)"

text \<open>\<^verbatim>\<open>x || d\<close> with a string default.\<close>

definition orDefault :: "string option \<Rightarrow> string \<Rightarrow> string" where
  "orDefault x d = (case x of Some v \<Rightarrow> if v = [] then d else v | None \<Rightarrow> d)"


section \<open>Field resolution: \<^verbatim>\<open>getValue\<close> of \<^verbatim>\<open>uploadStudentsCSV\<close>\<close>

text \<open>
  A parsed row is the object that the CSV parser emits: its normalised header names
  with their cells, listed in the order of \<^verbatim>\<open>Object.keys(row)\<close>. \<^verbatim>\<open>row[key]\<close> is
  \<^term>\<open>map_of row key\<close>.
\<close>

type_synonym row = "(string \<times> string) list"

text \<open>
  The inner loop of \<^verbatim>\<open>getValue\<close>: the first row key that contains the wanted key or
  is contained in it gives the (trimmed) result.
\<close>

fun partialMatch :: "row \<Rightarrow> string \<Rightarrow> string option" where
  "partialMatch [] key = None"
| "partialMatch ((rowKey, v) # rest) key =
     (if str_includes rowKey key \<or> str_includes key rowKey then Some (trim v)
      else partialMatch rest key)"

text \<open>The outer loop over \<^verbatim>\<open>possibleKeys\<close>; \<^verbatim>\<open>undefined\<close> is \<^term>\<open>None\<close>.\<close>

fun getValue :: "row \<Rightarrow> string list \<Rightarrow> string option" where
  "getValue row [] = None"
| "getValue row (key # possibleKeys) =
     (case map_of row key of
        Some v \<Rightarrow> Some (trim v)
      | None \<Rightarrow>
          (case partialMatch row key of
             Some v \<Rightarrow> Some v
           | None \<Rightarrow> getValue row possibleKeys))"

text \<open>The nine resolutions at the head of the loop body, with their alias lists.\<close>

definition prnOf :: "row \<Rightarrow> string option" where
  "prnOf row = map_option toUpperCase (getValue row [''prn number'', ''prn'', ''prnnumber''])"

definition nameOf :: "row \<Rightarrow> string option" where
  "nameOf row = getValue row [''student name'', ''name'', ''studentname'']"

definition academicYearOf :: "row \<Rightarrow> string option" where
  "academicYearOf row = getValue row [''academic year'', ''academicyear'']"

definition semesterOf :: "row \<Rightarrow> string option" where
  "semesterOf row = getValue row [''semester'']"

definition yearOf :: "row \<Rightarrow> string option" where
  "yearOf row = getValue row [''year'']"

definition divisionOf :: "row \<Rightarrow> string option" where
  "divisionOf row = getValue row [''division'']"

definition rollNoOf :: "row \<Rightarrow> string option" where
  "rollNoOf row = getValue row [''roll no'', ''rollno'', ''roll'']"

definition phoneOf :: "row \<Rightarrow> string option" where
  "phoneOf row = getValue row [''mobile number'', ''mobile'', ''phone'']"

definition emailOf :: "row \<Rightarrow> string option" where
  "emailOf row = getValue row [''email id'', ''email'', ''emailid'']"


section \<open>The roster: students and their ledgers\<close>

text \<open>
  A date is a UTC instant, kept as its calendar fields and the milliseconds since
  midnight, so that \<^verbatim>\<open>$month\<close>, \<^verbatim>\<open>toISOString\<close> and the comparison of two
  instants can be read off.
\<close>

record timestamp =
  utcYear :: int
  utcMonth :: nat
  utcDay :: nat
  utcMillis :: nat

text \<open>An entry of \<^verbatim>\<open>student.fines\<close>, as \<^verbatim>\<open>addFineToStudent\<close> builds it.\<close>

record fine =
  amount :: real
  reason :: string
  type :: string
  category :: string
  receiptNumber :: string
  date :: timestamp
  isPaid :: bool
  paidDate :: timestamp

text \<open>The object \<^verbatim>\<open>studentData\<close>, and the stored document: the same fields and the ledger.\<close>

record studentData =
  prn :: string
  name :: string
  academicYear :: "string option"
  semester :: "string option"
  year :: "string option"
  division :: "string option"
  rollNo :: "string option"
  department :: "string option"
  email :: "string option"
  phone :: "string option"

record student = studentData +
  fines :: "fine list"

text \<open>
  Modelled from the spec: the \<^verbatim>\<open>Student\<close> model (\<^verbatim>\<open>models/Student.js\<close>) and the store
  behind it are not among the sources. The roster is the list of the stored documents
  in creation order; \<^verbatim>\<open>Student.findOne({ prn })\<close> is the first document with that
  identifier, \<^verbatim>\<open>doc.save()\<close> writes a found document back in its place, and
  \<^verbatim>\<open>Student.create\<close> appends a document with the resolved fields and an empty ledger.
\<close>

definition findOne :: "student list \<Rightarrow> string \<Rightarrow> student option" where
  "findOne roster p = find (\<lambda>s. prn s = p) roster"

fun save :: "student list \<Rightarrow> student \<Rightarrow> student list" where
  "save [] doc = []"
| "save (s # roster) doc = (if prn s = prn doc then doc # roster else s # save roster doc)"

definition newStudent :: "studentData \<Rightarrow> student" where
  "newStudent d =
     \<lparr>prn = prn d, name = name d, academicYear = academicYear d, semester = semester d,
      year = year d, division = division d, rollNo = rollNo d, department = department d,
      email = email d, phone = phone d, fines = []\<rparr>"

text \<open>
  Modelled from the spec: what makes \<^verbatim>\<open>save\<close> or \<^verbatim>\<open>create\<close> throw (schema validation,
  the store) is not among the sources either. It is a parameter: for the roster and the
  document about to be written, the message of the exception, or \<^term>\<open>None\<close> when the
  write goes through.
\<close>

type_synonym persistence = "student list \<Rightarrow> student \<Rightarrow> string option"


section \<open>\<^verbatim>\<open>uploadStudentsCSV\<close>: the loop over the parsed rows\<close>

text \<open>
  The check \<^verbatim>\<open>if (!prn || !name)\<close> and the object \<^verbatim>\<open>studentData\<close>: \<^term>\<open>None\<close> for a row
  that is skipped.
\<close>

definition studentDataOf :: "row \<Rightarrow> studentData option" where
  "studentDataOf row =
     (case (prnOf row, nameOf row) of
        (Some p, Some n) \<Rightarrow>
          if p = [] \<or> n = [] then None
          else Some \<lparr>prn = p, name = n,
                 academicYear = orUndefined (academicYearOf row),
                 semester = orUndefined (semesterOf row),
                 year = orUndefined (yearOf row),
                 division = orUndefined (divisionOf row),
                 rollNo = orUndefined (rollNoOf row),
                 department = orUndefined (divisionOf row),
                 email = orUndefined (emailOf row),
                 phone = orUndefined (phoneOf row)\<rparr>
      | _ \<Rightarrow> None)"

text \<open>The update branch: the assignments to \<^verbatim>\<open>existingStudent\<close>, in the source's order.\<close>

definition updateExisting :: "student \<Rightarrow> studentData \<Rightarrow> student" where
  "updateExisting existingStudent d =
     (let s0 = existingStudent\<lparr>name := name d\<rparr>;
          s1 = (if truthy (academicYear d) then s0\<lparr>academicYear := academicYear d\<rparr> else s0);
          s2 = (if truthy (semester d) then s1\<lparr>semester := semester d\<rparr> else s1);
          s3 = (if truthy (year d) then s2\<lparr>year := year d\<rparr> else s2);
          s4 = (if truthy (division d) then s3\<lparr>division := division d\<rparr> else s3);
          s5 = (if truthy (rollNo d) then s4\<lparr>rollNo := rollNo d\<rparr> else s4);
          s6 = (if truthy (department d) then s5\<lparr>department := department d\<rparr> else s5);
          s7 = (if truthy (email d) then s6\<lparr>email := email d\<rparr> else s6)
      in (if truthy (phone d) then s7\<lparr>phone := phone d\<rparr> else s7))"

text \<open>The local variables of the handler that the loop changes, and the roster.\<close>

record uploadState =
  roster :: "student list"
  successCount :: nat
  updateCount :: nat
  errorCount :: nat
  errorLog :: "(string \<times> string) list"

text \<open>\<^verbatim>\<open>prn || 'N/A'\<close> of the skipped row and \<^verbatim>\<open>row.prn || 'Unknown'\<close> of the catch block.\<close>

definition prnOrNA :: "row \<Rightarrow> string" where
  "prnOrNA row = orDefault (prnOf row) ''N/A''"

definition rowPrnOrUnknown :: "row \<Rightarrow> string" where
  "rowPrnOrUnknown row = orDefault (map_of row ''prn'') ''Unknown''"

definition recordError :: "uploadState \<Rightarrow> string \<Rightarrow> string \<Rightarrow> uploadState" where
  "recordError st p msg = st\<lparr>errorLog := errorLog st @ [(p, msg)], errorCount := errorCount st + 1\<rparr>"

text \<open>The body of the \<^verbatim>\<open>try\<close> for a row that is not skipped, with its \<^verbatim>\<open>catch\<close>.\<close>

definition persistRow :: "persistence \<Rightarrow> uploadState \<Rightarrow> row \<Rightarrow> studentData \<Rightarrow> uploadState" where
  "persistRow persistError st row d =
     (case findOne (roster st) (prn d) of
        Some existingStudent \<Rightarrow>
          (case persistError (roster st) (updateExisting existingStudent d) of
             None \<Rightarrow> st\<lparr>roster := save (roster st) (updateExisting existingStudent d),
                        updateCount := updateCount st + 1\<rparr>
           | Some msg \<Rightarrow> recordError st (rowPrnOrUnknown row) msg)
      | None \<Rightarrow>
          (case persistError (roster st) (newStudent d) of
             None \<Rightarrow> st\<lparr>roster := roster st @ [newStudent d],
                        successCount := successCount st + 1\<rparr>
           | Some msg \<Rightarrow> recordError st (rowPrnOrUnknown row) msg))"

definition processRow :: "persistence \<Rightarrow> uploadState \<Rightarrow> row \<Rightarrow> uploadState" where
  "processRow persistError st row =
     (case studentDataOf row of
        None \<Rightarrow>
          recordError st (prnOrNA row) ''Missing required fields (PRN Number or Student Name)''
      | Some d \<Rightarrow> persistRow persistError st row d)"

fun processRows :: "persistence \<Rightarrow> uploadState \<Rightarrow> row list \<Rightarrow> uploadState" where
  "processRows persistError st [] = st"
| "processRows persistError st (row # results) =
     processRows persistError (processRow persistError st row) results"

text \<open>The \<^verbatim>\<open>data\<close> object of the response.\<close>

record batchResult =
  totalRecords :: nat
  newStudents :: nat
  updatedStudents :: nat
  errors :: nat
  errorDetails :: "(string \<times> string) list option"

text \<open>
  The handler from the parsed rows on: the roster it leaves and the response. Reading
  the file, finding the header line and the CSV parser come before and are not modelled.
\<close>

definition uploadStudentsCSV :: "persistence \<Rightarrow> student list \<Rightarrow> row list \<Rightarrow> student list \<times> batchResult" where
  "uploadStudentsCSV persistError students results =
     (let st = processRows persistError
                 \<lparr>roster = students, successCount = 0, updateCount = 0, errorCount = 0,
                  errorLog = []\<rparr> results
      in (roster st,
          \<lparr>totalRecords = length results,
           newStudents = successCount st,
           updatedStudents = updateCount st,
           errors = errorCount st,
           errorDetails = (if length (errorLog st) > 0 then Some (errorLog st) else None)\<rparr>))"


section \<open>\<^verbatim>\<open>addFineToStudent\<close>\<close>

text \<open>
  The \<^verbatim>\<open>amount\<close> of the request body is any JSON value, or missing. \<^term>\<open>JObj\<close> is an
  array or an object, with the string that \<^verbatim>\<open>ToPrimitive\<close> gives it. The conversion of
  a string to a number belongs to the language; it is the parameter \<open>strToNumber\<close>,
  \<^term>\<open>None\<close> standing for \<^verbatim>\<open>NaN\<close>. A number is a double, kept as the real number it is
  (see the section on numbers below).
\<close>

datatype jsval = JUndefined | JNull | JBool bool | JNum real | JStr string | JObj string

fun toBoolean :: "jsval \<Rightarrow> bool" where
  "toBoolean JUndefined = False"
| "toBoolean JNull = False"
| "toBoolean (JBool b) = b"
| "toBoolean (JNum r) = (r \<noteq> 0)"
| "toBoolean (JStr s) = (s \<noteq> [])"
| "toBoolean (JObj s) = True"

fun toNumber :: "(string \<Rightarrow> real option) \<Rightarrow> jsval \<Rightarrow> real option" where
  "toNumber strToNumber JUndefined = None"
| "toNumber strToNumber JNull = Some 0"
| "toNumber strToNumber (JBool b) = Some (if b then 1 else 0)"
| "toNumber strToNumber (JNum r) = Some r"
| "toNumber strToNumber (JStr s) = strToNumber s"
| "toNumber strToNumber (JObj s) = strToNumber s"

text \<open>The errors that the handler throws, by the status it sets first (400, 404, 500).\<close>

datatype httpError = BadRequest string | NotFound string | ServerError string

text \<open>Decimal digits of a number, and \<^verbatim>\<open>toISOString\<close> of an instant.\<close>

definition digitChar :: "nat \<Rightarrow> char" where
  "digitChar d = ''0123456789'' ! d"

fun decimal :: "nat \<Rightarrow> string" where
  "decimal n = (if n < 10 then [digitChar n] else decimal (n div 10) @ [digitChar (n mod 10)])"

declare decimal.simps [simp del]

definition padStart :: "nat \<Rightarrow> string \<Rightarrow> string" where
  "padStart w s = replicate (w - length s) CHR ''0'' @ s"

definition toISOString :: "timestamp \<Rightarrow> string" where
  "toISOString t =
     (if 0 \<le> utcYear t \<and> utcYear t \<le> 9999 then padStart 4 (decimal (nat (utcYear t)))
      else (if utcYear t < 0 then ''-'' else ''+'') @ padStart 6 (decimal (nat \<bar>utcYear t\<bar>)))
     @ ''-'' @ padStart 2 (decimal (utcMonth t))
     @ ''-'' @ padStart 2 (decimal (utcDay t))
     @ ''T'' @ padStart 2 (decimal (utcMillis t div 3600000))
     @ '':'' @ padStart 2 (decimal (utcMillis t div 60000 mod 60))
     @ '':'' @ padStart 2 (decimal (utcMillis t div 1000 mod 60))
     @ ''.'' @ padStart 3 (decimal (utcMillis t mod 1000)) @ ''Z''"

text \<open>
  The receipt number. \<open>now\<close> is \<^verbatim>\<open>new Date()\<close> and \<open>random\<close> the value of
  \<^verbatim>\<open>Math.random()\<close>, both taken when the handler runs.
\<close>

definition generateReceiptNumber :: "timestamp \<Rightarrow> real \<Rightarrow> string" where
  "generateReceiptNumber now random =
     (let dateStr = filter (\<lambda>c. c \<noteq> CHR ''-'') (take 10 (toISOString now));
          randomNum = nat \<lfloor>10000 + random * 90000\<rfloor>
      in ''RCP-'' @ dateStr @ ''-'' @ decimal randomNum)"

text \<open>The \<^verbatim>\<open>data\<close> of the response: the saved entry, the ledger's length, \<^verbatim>\<open>!!student.email\<close>.\<close>

record fineResponse =
  payment :: fine
  paymentCount :: nat
  emailSent :: bool

text \<open>
  The handler: the roster it leaves, and the error thrown or the response. The body's
  \<^verbatim>\<open>date\<close> is taken as the instant \<^verbatim>\<open>new Date(date)\<close> gives. The handler reads the clock
  three times (for the receipt number, for the default date of the entry and for
  \<^verbatim>\<open>paidDate\<close>); the three readings are the one instant \<open>now\<close>. A failing \<^verbatim>\<open>save\<close> is
  rethrown by the error middleware with status 500.
\<close>

definition addFineToStudent ::
  "(string \<Rightarrow> real option) \<Rightarrow> persistence \<Rightarrow> timestamp \<Rightarrow> real \<Rightarrow> student list \<Rightarrow>
   string \<Rightarrow> jsval \<Rightarrow> string option \<Rightarrow> string option \<Rightarrow> string option \<Rightarrow> timestamp option \<Rightarrow>
   student list \<times> (httpError + fineResponse)" where
  "addFineToStudent strToNumber persistError now random students prnParam
       amountIn reasonIn typeIn categoryIn dateIn =
     (if \<not> toBoolean amountIn then
        (students, Inl (BadRequest ''Please provide payment amount''))
      else
        (case toNumber strToNumber amountIn of
           None \<Rightarrow> (students, Inl (BadRequest ''Payment amount must be a positive number''))
         | Some a \<Rightarrow>
             if a \<le> 0 then
               (students, Inl (BadRequest ''Payment amount must be a positive number''))
             else
               (case findOne students (toUpperCase prnParam) of
                  None \<Rightarrow>
                    (students,
                     Inl (NotFound (''Student with PRN '' @ toUpperCase prnParam @ '' not found'')))
                | Some found \<Rightarrow>
                    (let newPayment =
                           \<lparr>amount = a,
                            reason = (case reasonIn of Some r \<Rightarrow> trim r | None \<Rightarrow> []),
                            type = orDefault typeIn ''fine'',
                            category = orDefault categoryIn ''Others'',
                            receiptNumber = generateReceiptNumber now random,
                            date = (case dateIn of Some d \<Rightarrow> d | None \<Rightarrow> now),
                            isPaid = True,
                            paidDate = now\<rparr>;
                         updated = found\<lparr>fines := fines found @ [newPayment]\<rparr>
                     in (case persistError students updated of
                           Some msg \<Rightarrow> (students, Inl (ServerError msg))
                         | None \<Rightarrow>
                             (save students updated,
                              Inr \<lparr>payment = newPayment,
                                   paymentCount = length (fines updated),
                                   emailSent = truthy (email found)\<rparr>))))))"


section \<open>The expenditure controller: summary and monthly report\<close>

text \<open>
  An expenditure document, with the fields that the two reports read (\<^verbatim>\<open>amount\<close>,
  \<^verbatim>\<open>category\<close>, \<^verbatim>\<open>date\<close>; the prefix keeps them apart from the ledger entry's).
\<close>

record expenditureDoc =
  expAmount :: real
  expCategory :: string
  expDate :: timestamp

text \<open>
  Numbers. A JavaScript number is a double; an amount is kept as the real number that
  the double is (the handlers let no \<^verbatim>\<open>NaN\<close> into an amount). The operators \<^verbatim>\<open>+\<close> and
  \<^verbatim>\<open>-\<close> give the exact result rounded to the nearest double, ties to the even
  significand (53 bits, exponents from -1022; a result too large for a double is
  outside the model). The comparison \<^verbatim>\<open>>=\<close> is exact.
\<close>

definition roundHalfEven :: "real \<Rightarrow> int" where
  "roundHalfEven q =
     (let f = \<lfloor>q\<rfloor> in
      if q - of_int f < 1 / 2 then f
      else if 1 / 2 < q - of_int f then f + 1
      else if even f then f else f + 1)"

definition ulpOf :: "real \<Rightarrow> real" where
  "ulpOf x = 2 powr (of_int (max \<lfloor>log 2 \<bar>x\<bar>\<rfloor> (- 1022)) - 52)"

definition roundDouble :: "real \<Rightarrow> real" where
  "roundDouble x =
     (if x = 0 then 0
      else sgn x * of_int (roundHalfEven (\<bar>x\<bar> / ulpOf x)) * ulpOf x)"

definition dadd :: "real \<Rightarrow> real \<Rightarrow> real" where
  "dadd a b = roundDouble (a + b)"

definition dsub :: "real \<Rightarrow> real \<Rightarrow> real" where
  "dsub a b = roundDouble (a - b)"

text \<open>
  The accumulator \<^verbatim>\<open>$sum\<close> belongs to the database, which chooses how it adds; it is
  the parameter \<open>dbSum\<close>: the number it returns for the numbers of a group, given in
  the order of the pipeline.
\<close>

type_synonym accumulator = "real list \<Rightarrow> real"

text \<open>
  The aggregation stages. \<^verbatim>\<open>$unwind\<close> of \<^verbatim>\<open>fines\<close> gives one document for each ledger
  entry and none for a student without entries; \<^verbatim>\<open>$group\<close> with \<^verbatim>\<open>_id: null\<close> and
  \<^verbatim>\<open>$sum\<close> gives one document with the sum, and no document when nothing comes in.
\<close>

definition unwindFines :: "student list \<Rightarrow> fine list" where
  "unwindFines students = concat (map fines students)"

definition groupSum :: "accumulator \<Rightarrow> real list \<Rightarrow> real list" where
  "groupSum dbSum xs = (if xs = [] then [] else [dbSum xs])"

record financial =
  totalIncome :: real
  totalExpenditure :: real
  balance :: real
  status :: string

record statistics =
  totalStudents :: nat
  studentsWithFines :: nat
  totalFines :: nat
  totalExpenditures :: nat

text \<open>
  \<^verbatim>\<open>getFinancialSummary\<close>: the \<^verbatim>\<open>financial\<close> and \<^verbatim>\<open>statistics\<close> objects of the response
  (\<^verbatim>\<open>expenditureByCategory\<close> comes from a static of the expenditure model).
\<close>

definition getFinancialSummary ::
  "accumulator \<Rightarrow> student list \<Rightarrow> expenditureDoc list \<Rightarrow> financial \<times> statistics" where
  "getFinancialSummary dbSum students expenditures =
     (let incomeResult = groupSum dbSum (map amount (unwindFines students));
          totalIncome = (case incomeResult of [] \<Rightarrow> 0 | x # _ \<Rightarrow> x);
          expenditureResult = groupSum dbSum (map expAmount expenditures);
          totalExpenditure = (case expenditureResult of [] \<Rightarrow> 0 | x # _ \<Rightarrow> x);
          balance = dsub totalIncome totalExpenditure
      in (\<lparr>totalIncome = totalIncome,
           totalExpenditure = totalExpenditure,
           balance = balance,
           status = (if balance \<ge> 0 then ''surplus'' else ''deficit'')\<rparr>,
          \<lparr>totalStudents = length students,
           studentsWithFines = length (filter (\<lambda>s. fines s \<noteq> []) students),
           totalFines = sum_list (map (\<lambda>s. length (fines s)) students),
           totalExpenditures = length expenditures\<rparr>))"

text \<open>
  \<^verbatim>\<open>new Date(`${year}-MM-DD`)\<close> is midnight UTC of that day (for a year of four digits),
  and \<^verbatim>\<open>$gte\<close>, \<^verbatim>\<open>$lte\<close> compare instants.
\<close>

definition newDate :: "int \<Rightarrow> nat \<Rightarrow> nat \<Rightarrow> timestamp" where
  "newDate y m d = \<lparr>utcYear = y, utcMonth = m, utcDay = d, utcMillis = 0\<rparr>"

definition tsLe :: "timestamp \<Rightarrow> timestamp \<Rightarrow> bool" where
  "tsLe a b =
     (utcYear a < utcYear b \<or>
      (utcYear a = utcYear b \<and>
       (utcMonth a < utcMonth b \<or>
        (utcMonth a = utcMonth b \<and>
         (utcDay a < utcDay b \<or> (utcDay a = utcDay b \<and> utcMillis a \<le> utcMillis b))))))"

definition matchYear :: "int \<Rightarrow> timestamp \<Rightarrow> bool" where
  "matchYear y d = (tsLe (newDate y 1 1) d \<and> tsLe d (newDate y 12 31))"

text \<open>
  \<^verbatim>\<open>$group\<close> by \<^verbatim>\<open>$month\<close> with a sum and a count, then \<^verbatim>\<open>$sort\<close> by month: one triple
  for each month that occurs.
\<close>

definition groupByMonth :: "accumulator \<Rightarrow> (nat \<times> real) list \<Rightarrow> (nat \<times> real \<times> nat) list" where
  "groupByMonth dbSum xs =
     map (\<lambda>m. (m, dbSum (map snd (filter (\<lambda>x. fst x = m) xs)),
                length (filter (\<lambda>x. fst x = m) xs)))
         (sort (remdups (map fst xs)))"

definition monthlyIncomeOf ::
  "accumulator \<Rightarrow> int \<Rightarrow> student list \<Rightarrow> (nat \<times> real \<times> nat) list" where
  "monthlyIncomeOf dbSum y students =
     groupByMonth dbSum (map (\<lambda>f. (utcMonth (date f), amount f))
                       (filter (\<lambda>f. matchYear y (date f)) (unwindFines students)))"

definition monthlyExpenditureOf ::
  "accumulator \<Rightarrow> int \<Rightarrow> expenditureDoc list \<Rightarrow> (nat \<times> real \<times> nat) list" where
  "monthlyExpenditureOf dbSum y expenditures =
     groupByMonth dbSum (map (\<lambda>e. (utcMonth (expDate e), expAmount e))
                       (filter (\<lambda>e. matchYear y (expDate e)) expenditures))"

definition months :: "string list" where
  "months = [''Jan'', ''Feb'', ''Mar'', ''Apr'', ''May'', ''Jun'',
             ''Jul'', ''Aug'', ''Sep'', ''Oct'', ''Nov'', ''Dec'']"

text \<open>An element of \<^verbatim>\<open>report\<close> (\<^verbatim>\<open>month\<close>, \<^verbatim>\<open>monthNumber\<close>, \<^verbatim>\<open>income\<close>, \<^verbatim>\<open>expenditure\<close>,
  \<^verbatim>\<open>balance\<close> and the two counts) and \<^verbatim>\<open>yearlyTotals\<close>.\<close>

record monthEntry =
  monthName :: string
  monthNumber :: nat
  income :: real
  expenditure :: real
  monthBalance :: real
  fineCount :: nat
  expenditureCount :: nat

record yearlyTotals =
  yearIncome :: real
  yearExpenditure :: real
  yearBalance :: real

text \<open>The callback of \<^verbatim>\<open>months.map\<close>.\<close>

definition reportEntry ::
  "(nat \<times> real \<times> nat) list \<Rightarrow> (nat \<times> real \<times> nat) list \<Rightarrow> string \<Rightarrow> nat \<Rightarrow> monthEntry" where
  "reportEntry monthlyIncome monthlyExpenditure month index =
     (let incomeData = find (\<lambda>item. fst item = index + 1) monthlyIncome;
          expData = find (\<lambda>item. fst item = index + 1) monthlyExpenditure;
          inc = (case incomeData of Some item \<Rightarrow> fst (snd item) | None \<Rightarrow> 0);
          ex = (case expData of Some item \<Rightarrow> fst (snd item) | None \<Rightarrow> 0)
      in \<lparr>monthName = month,
          monthNumber = index + 1,
          income = inc,
          expenditure = ex,
          monthBalance = dsub inc ex,
          fineCount = (case incomeData of Some item \<Rightarrow> snd (snd item) | None \<Rightarrow> 0),
          expenditureCount = (case expData of Some item \<Rightarrow> snd (snd item) | None \<Rightarrow> 0)\<rparr>)"

text \<open>\<^verbatim>\<open>getMonthlyReport\<close> for a given year: \<^verbatim>\<open>monthlyReport\<close> and \<^verbatim>\<open>yearlyTotals\<close>.\<close>

definition getMonthlyReport ::
  "accumulator \<Rightarrow> int \<Rightarrow> student list \<Rightarrow> expenditureDoc list \<Rightarrow> monthEntry list \<times> yearlyTotals" where
  "getMonthlyReport dbSum y students expenditures =
     (let monthlyIncome = monthlyIncomeOf dbSum y students;
          monthlyExpenditure = monthlyExpenditureOf dbSum y expenditures;
          report = map (\<lambda>(month, index). reportEntry monthlyIncome monthlyExpenditure month index)
                       (zip months [0..<length months])
      in (report,
          \<lparr>yearIncome = foldl (\<lambda>sum m. dadd sum (income m)) 0 report,
           yearExpenditure = foldl (\<lambda>sum m. dadd sum (expenditure m)) 0 report,
           yearBalance = foldl (\<lambda>sum m. dadd sum (monthBalance m)) 0 report\<rparr>))"


section \<open>Operations in the words of the specification\<close>

text \<open>
  Field resolution as the specification words it: an alias selects the cell under the
  key equal to it, otherwise the cell of the first row key, in the row's key order,
  that contains the alias or is contained in it; the field is the trimmed cell of the
  first alias, in declared order, that selects one, and absent when none does.
\<close>

definition aliasHit :: "row \<Rightarrow> string \<Rightarrow> string option" where
  "aliasHit row a =
     (case map_of row a of
        Some v \<Rightarrow> Some v
      | None \<Rightarrow> map_option snd (find (\<lambda>kv. str_includes (fst kv) a \<or> str_includes a (fst kv)) row))"

definition resolveField :: "row \<Rightarrow> string list \<Rightarrow> string option" where
  "resolveField row aliases =
     (case List.map_filter (aliasHit row) aliases of [] \<Rightarrow> None | v # _ \<Rightarrow> Some (trim v))"

text \<open>
  Upper case as the specification words it, for the characters of ASCII: a lower-case
  letter, of code 97 (\<open>a\<close>) to 122 (\<open>z\<close>), becomes the character 32 codes below, and any
  other character stays.
\<close>

definition capital :: "char \<Rightarrow> char" where
  "capital c =
     (if 97 \<le> (of_char c :: nat) \<and> (of_char c :: nat) \<le> 122
      then char_of (of_char c - 32 :: nat) else c)"

text \<open>
  Reconciliation of one resolved row as the specification words it: look the student up
  by identifier, merge into the record found, create a record when none is found.
\<close>

definition applyData :: "student list \<Rightarrow> studentData \<Rightarrow> student list" where
  "applyData students d =
     (case findOne students (prn d) of
        Some existingStudent \<Rightarrow> save students (updateExisting existingStudent d)
      | None \<Rightarrow> students @ [newStudent d])"


text \<open>
  The pattern of a receipt number, in the specification's words, is read with these:
  a decimal digit, and the number that a string of digits denotes.
\<close>

definition isDigit :: "char \<Rightarrow> bool" where
  "isDigit c = (c \<in> set ''0123456789'')"

definition digitValue :: "char \<Rightarrow> nat" where
  "digitValue c = of_char c - 48"

definition readDecimal :: "string \<Rightarrow> nat" where
  "readDecimal s = foldl (\<lambda>n c. 10 * n + digitValue c) 0 s"


text \<open>
  The income of a calendar month in the specification's reading of the monthly report:
  the entries whose own date lies in that month of that year, the last day included.
\<close>

definition incomeOfMonth :: "int \<Rightarrow> nat \<Rightarrow> student list \<Rightarrow> real" where
  "incomeOfMonth y m students =
     (\<Sum>f\<leftarrow>filter (\<lambda>f. utcYear (date f) = y \<and> utcMonth (date f) = m) (unwindFines students).
        amount f)"


section \<open>Auxiliary notions of the proofs\<close>

text \<open>The value a field has after an update with \<open>new\<close> over \<open>old\<close>.\<close>

definition pick :: "string option \<Rightarrow> string option \<Rightarrow> string option" where
  "pick new old = (if truthy new then new else old)"

text \<open>The one update that does what an update with \<open>d\<close>, then one with \<open>e\<close>, does.\<close>

definition combine :: "studentData \<Rightarrow> studentData \<Rightarrow> studentData" where
  "combine e d =
     \<lparr>prn = prn d, name = name e,
      academicYear = pick (academicYear e) (academicYear d),
      semester = pick (semester e) (semester d),
      year = pick (year e) (year d),
      division = pick (division e) (division d),
      rollNo = pick (rollNo e) (rollNo d),
      department = pick (department e) (department d),
      email = pick (email e) (email d),
      phone = pick (phone e) (phone d)\<rparr>"

text \<open>A row key and a wanted key that \<^verbatim>\<open>getValue\<close> would match.\<close>

definition keyTouches :: "string \<Rightarrow> string \<Rightarrow> bool" where
  "keyTouches rowKey key = (rowKey = key \<or> str_includes rowKey key \<or> str_includes key rowKey)"


section \<open>Example data\<close>

text \<open>
  A persistence that never throws, two ledger entries, a student who owns them, and a
  batch of three rows: a new student, an update of the division of the existing one
  (with an empty e-mail cell), and a row whose name is blank.
\<close>

definition alwaysPersists :: persistence where
  "alwaysPersists students doc = None"

definition exFine1 :: fine where
  "exFine1 =
     \<lparr>amount = 50, reason = ''Late submission'', type = ''fine'', category = ''Others'',
      receiptNumber = ''RCP-20240105-12345'',
      date = \<lparr>utcYear = 2024, utcMonth = 1, utcDay = 5, utcMillis = 36000000\<rparr>,
      isPaid = True,
      paidDate = \<lparr>utcYear = 2024, utcMonth = 1, utcDay = 5, utcMillis = 36000000\<rparr>\<rparr>"

definition exFine2 :: fine where
  "exFine2 =
     \<lparr>amount = 30, reason = ''Committee'', type = ''fee'', category = ''ITSA Committee Fees'',
      receiptNumber = ''RCP-20240212-54321'',
      date = \<lparr>utcYear = 2024, utcMonth = 2, utcDay = 12, utcMillis = 0\<rparr>,
      isPaid = True,
      paidDate = \<lparr>utcYear = 2024, utcMonth = 2, utcDay = 12, utcMillis = 41000000\<rparr>\<rparr>"

definition exStudent :: student where
  "exStudent =
     \<lparr>prn = ''P2'', name = ''Ravi'', academicYear = Some ''2023-24'', semester = None,
      year = None, division = Some ''A'', rollNo = None, department = Some ''A'',
      email = Some ''ravi@example.com'', phone = None, fines = [exFine1, exFine2]\<rparr>"

definition exUpdateRow :: row where
  "exUpdateRow =
     [(''prn number'', '' p2''), (''student name'', ''Ravi K''), (''division'', ''B''),
      (''email id'', [])]"

definition exRows :: "row list" where
  "exRows =
     [[(''prn number'', ''p1''), (''student name'', ''Asha'')],
      exUpdateRow,
      [(''prn number'', ''p3''), (''student name'', '' '')]]"


text \<open>
  A call of \<^verbatim>\<open>addFineToStudent\<close>: the instant of the call, the date given for the
  entry, and a conversion of strings to numbers that knows two strings. A ledger entry
  dated at noon of the last day of 2024.
\<close>

definition exNow :: timestamp where
  "exNow = \<lparr>utcYear = 2024, utcMonth = 3, utcDay = 9, utcMillis = 3600000\<rparr>"

definition exEntryDate :: timestamp where
  "exEntryDate = \<lparr>utcYear = 2023, utcMonth = 11, utcDay = 2, utcMillis = 0\<rparr>"

definition exStrToNumber :: "string \<Rightarrow> real option" where
  "exStrToNumber s = (if s = ''25'' then Some 25 else if s = ''-5'' then Some (-5) else None)"

definition exYearEndFine :: fine where
  "exYearEndFine =
     \<lparr>amount = 100, reason = ''Library'', type = ''fine'', category = ''Others'',
      receiptNumber = ''RCP-20241231-10001'',
      date = \<lparr>utcYear = 2024, utcMonth = 12, utcDay = 31, utcMillis = 43200000\<rparr>,
      isPaid = True,
      paidDate = \<lparr>utcYear = 2024, utcMonth = 12, utcDay = 31, utcMillis = 43200000\<rparr>\<rparr>"


text \<open>
  An accumulator that adds the numbers one by one in double arithmetic. The doubles
  that the literals \<open>0.1\<close>, \<open>0.2\<close> and \<open>0.30000000000000004\<close> denote, a student with
  entries of the first two amounts and an expenditure of the third.
\<close>

definition ieeeSum :: accumulator where
  "ieeeSum xs = foldl dadd 0 xs"

definition exTenth :: real where
  "exTenth = 3602879701896397 / 36028797018963968"

definition exFifth :: real where
  "exFifth = 3602879701896397 / 18014398509481984"

definition exThreeTenthsUp :: real where
  "exThreeTenthsUp = 5404319552844596 / 18014398509481984"




text \<open>
  A cell with white space around it that is not all ASCII (a no-break space U+00A0, a
  space, then \<open>ab12\<close> and the letter U+00E9, then a tabulator), and a row that holds it
  under a key that only the second alias of the identifier matches.
\<close>

definition exCell :: string where
  "exCell = [CHR 0xC2, CHR 0xA0, CHR '' '', CHR ''a'', CHR ''b'', CHR ''1'', CHR ''2'',
             CHR 0xC3, CHR 0xA9, CHR 0x09]"

definition exAliasRow :: row where
  "exAliasRow = [(''student name'', ''Asha Rao''), (''my prn'', exCell), (''prnnumber'', ''cd34 '')]"

text \<open>
  A persistence that requires a department, as the schema of the README does
  (\<^verbatim>\<open>department: String (required)\<close>), and a batch of two rows for one identifier: the
  first has an e-mail address and no division, the second a division.
\<close>

definition requiresDepartment :: persistence where
  "requiresDepartment students doc =
     (if department doc = None then Some ''Student validation failed: department is required''
      else None)"

definition exRetryRows :: "row list" where
  "exRetryRows =
     [[(''prn'', ''p5''), (''name'', ''Kiran''), (''email'', ''a@x.org'')],
      [(''prn'', ''p5''), (''name'', ''Kiran''), (''division'', ''A'')]]"

text \<open>A row with a department column and a division column.\<close>

definition exDivisionRow :: row where
  "exDivisionRow =
     [(''prn'', ''p6''), (''name'', ''Leela''), (''department'', ''Computer''), (''division'', '' B '')]"


section \<open>Field resolution: lemmas\<close>

lemma partialMatch_find:
  "partialMatch row key =
     map_option (\<lambda>kv. trim (snd kv)) (find (\<lambda>kv. str_includes (fst kv) key \<or> str_includes key (fst kv)) row)"
  by (induction row) auto

lemma getValue_resolveField: "getValue row aliases = resolveField row aliases"
proof (induction aliases)
  case Nil
  show ?case by (simp add: resolveField_def)
next
  case (Cons a as)
  show ?case
  proof (cases "map_of row a")
    case (Some v)
    then show ?thesis by (simp add: resolveField_def aliasHit_def)
  next
    case None
    show ?thesis
    proof (cases "find (\<lambda>kv. str_includes (fst kv) a \<or> str_includes a (fst kv)) row")
      case fNone: None
      with None Cons show ?thesis
        by (simp add: resolveField_def aliasHit_def partialMatch_find)
    next
      case (Some kv)
      with None show ?thesis
        by (simp add: resolveField_def aliasHit_def partialMatch_find)
    qed
  qed
qed

lemma map_of_filter_key:
  "k \<noteq> c \<Longrightarrow> map_of (filter (\<lambda>kv. fst kv \<noteq> c) row) k = map_of row k"
  by (induction row) auto

lemma partialMatch_filter_key:
  "\<not> str_includes c k \<Longrightarrow> \<not> str_includes k c \<Longrightarrow>
   partialMatch (filter (\<lambda>kv. fst kv \<noteq> c) row) k = partialMatch row k"
  by (induction row) auto

lemma getValue_filter_key:
  "list_all (\<lambda>k. \<not> keyTouches c k) ks \<Longrightarrow>
   getValue (filter (\<lambda>kv. fst kv \<noteq> c) row) ks = getValue row ks"
proof (induction ks)
  case Nil
  show ?case by simp
next
  case (Cons k ks)
  then have "k \<noteq> c" "\<not> str_includes c k" "\<not> str_includes k c"
    by (auto simp: keyTouches_def)
  with Cons show ?case
    by (simp add: map_of_filter_key partialMatch_filter_key cong: option.case_cong)
qed


lemma resolutions_drop_department:
  "prnOf (filter (\<lambda>kv. fst kv \<noteq> ''department'') row) = prnOf row"
  "nameOf (filter (\<lambda>kv. fst kv \<noteq> ''department'') row) = nameOf row"
  "academicYearOf (filter (\<lambda>kv. fst kv \<noteq> ''department'') row) = academicYearOf row"
  "semesterOf (filter (\<lambda>kv. fst kv \<noteq> ''department'') row) = semesterOf row"
  "yearOf (filter (\<lambda>kv. fst kv \<noteq> ''department'') row) = yearOf row"
  "divisionOf (filter (\<lambda>kv. fst kv \<noteq> ''department'') row) = divisionOf row"
  "rollNoOf (filter (\<lambda>kv. fst kv \<noteq> ''department'') row) = rollNoOf row"
  "phoneOf (filter (\<lambda>kv. fst kv \<noteq> ''department'') row) = phoneOf row"
  "emailOf (filter (\<lambda>kv. fst kv \<noteq> ''department'') row) = emailOf row"
  unfolding prnOf_def nameOf_def academicYearOf_def semesterOf_def yearOf_def
      divisionOf_def rollNoOf_def phoneOf_def emailOf_def
  by (subst getValue_filter_key; simp add: keyTouches_def)+

lemma studentDataOf_drop_department:
  "studentDataOf (filter (\<lambda>kv. fst kv \<noteq> ''department'') row) = studentDataOf row"
  by (simp only: studentDataOf_def resolutions_drop_department)

lemma lowercase_char:
  assumes "97 \<le> (of_char c :: nat)" "(of_char c :: nat) \<le> 122"
  shows "c \<in> set ''abcdefghijklmnopqrstuvwxyz''"
proof -
  have "(of_char c :: nat) \<in> set [97 ..< 123]"
    using assms by (auto simp del: upt_rec_numeral)
  then have "char_of (of_char c :: nat) \<in> char_of ` set [97 ..< (123::nat)]" by (rule imageI)
  then have "c \<in> char_of ` set [97 ..< (123::nat)]" by simp
  also have "char_of ` set [97 ..< (123::nat)] = set ''abcdefghijklmnopqrstuvwxyz''"
    by (simp add: char_of_def bit_iff_odd)
  finally show ?thesis .
qed

lemma toUpperChar_capital: "toUpperChar c = capital c"
proof (cases "c \<in> set ''abcdefghijklmnopqrstuvwxyz''")
  case True
  then show ?thesis
    by (auto simp add: toUpperChar_def capital_def char_of_def bit_iff_odd)
next
  case False
  then have "\<not> (97 \<le> (of_char c :: nat) \<and> (of_char c :: nat) \<le> 122)"
    using lowercase_char by blast
  moreover from False have "toUpperChar c = c"
    by (simp add: toUpperChar_def)
  ultimately show ?thesis by (auto simp: capital_def)
qed

lemma toUpperCase_ascii: "list_all isAscii s \<Longrightarrow> toUpperCase s = map capital s"
  by (induction s) (simp_all add: toUpperChar_capital)

lemma startsWith_Nil: "startsWith [] w = (w = [])"
  by (cases w) simp_all

lemma startsWith_append: "startsWith s w \<Longrightarrow> s = w @ drop (length w) s"
  by (induction s w rule: startsWith.induct) auto

lemma startsWith_prefix: "startsWith t w \<Longrightarrow> startsWith (t @ p) w"
  by (induction t w rule: startsWith.induct) auto

lemma dropLeading_split: "\<exists>pre. s = concat pre @ dropLeading ws s \<and> set pre \<subseteq> set ws"
proof (induction ws s rule: dropLeading.induct)
  case (1 ws)
  have "[] = concat [] @ dropLeading ws [] \<and> set [] \<subseteq> set ws" by simp
  then show ?case by (rule exI)
next
  case (2 ws c s)
  show ?case
  proof (cases "find (\<lambda>w. w \<noteq> [] \<and> startsWith (c # s) w) ws")
    case None
    then have "c # s = concat [] @ dropLeading ws (c # s) \<and> set [] \<subseteq> set ws" by simp
    then show ?thesis by (rule exI)
  next
    case (Some w)
    then have w: "w \<in> set ws" "w \<noteq> []" "startsWith (c # s) w"
      by (auto simp: find_Some_iff)
    from w(2) have d: "drop (length w) (c # s) = drop (length w - 1) s"
      by (cases w) simp_all
    from 2 [OF Some] obtain pre where
      pre: "drop (length w - 1) s = concat pre @ dropLeading ws (drop (length w - 1) s)"
        "set pre \<subseteq> set ws"
      by blast
    have cs: "c # s = w @ drop (length w - 1) s"
      using startsWith_append [OF w(3)] d by simp
    have dl: "dropLeading ws (c # s) = dropLeading ws (drop (length w - 1) s)"
      using Some by simp
    have "w @ concat pre @ dropLeading ws (drop (length w - 1) s) = w @ drop (length w - 1) s"
      by (simp only: pre(1) [symmetric])
    then have "c # s = concat (w # pre) @ dropLeading ws (c # s)"
      by (metis cs dl append_assoc concat.simps(2))
    moreover have "set (w # pre) \<subseteq> set ws"
      using w(1) pre(2) by simp
    ultimately show ?thesis by blast
  qed
qed

lemma dropLeading_clean:
  "w \<in> set ws \<Longrightarrow> w \<noteq> [] \<Longrightarrow> \<not> startsWith (dropLeading ws s) w"
proof (induction ws s rule: dropLeading.induct)
  case (1 ws)
  then show ?case by (simp add: startsWith_Nil)
next
  case (2 ws c s)
  show ?case
  proof (cases "find (\<lambda>w. w \<noteq> [] \<and> startsWith (c # s) w) ws")
    case None
    then have "dropLeading ws (c # s) = c # s" by simp
    moreover from None 2(2,3) have "\<not> startsWith (c # s) w"
      by (auto simp: find_None_iff)
    ultimately show ?thesis by simp
  next
    case (Some w')
    with 2 show ?thesis by simp
  qed
qed

lemma whiteSpace_nonempty: "w \<in> set whiteSpace \<Longrightarrow> w \<noteq> []"
  by (auto simp: whiteSpace_def)

lemma trim_split:
  "\<exists>pre post. s = concat pre @ trim s @ concat post
     \<and> set pre \<subseteq> set whiteSpace \<and> set post \<subseteq> set whiteSpace"
proof -
  obtain pre where pre: "s = concat pre @ dropLeading whiteSpace s" "set pre \<subseteq> set whiteSpace"
    using dropLeading_split by blast
  obtain q where q: "rev (dropLeading whiteSpace s)
      = concat q @ dropLeading (map rev whiteSpace) (rev (dropLeading whiteSpace s))"
      "set q \<subseteq> set (map rev whiteSpace)"
    using dropLeading_split by blast
  from q(1) have "dropLeading whiteSpace s = trim s @ rev (concat q)"
    unfolding trim_def by (metis rev_append rev_rev_ident)
  then have "dropLeading whiteSpace s = trim s @ concat (map rev (rev q))"
    by (simp only: rev_concat)
  with pre(1) have "s = concat pre @ trim s @ concat (map rev (rev q))" by simp
  moreover from q(2) have "set (map rev (rev q)) \<subseteq> set whiteSpace" by auto
  ultimately show ?thesis using pre(2) by blast
qed

lemma trim_clean:
  "w \<in> set whiteSpace \<Longrightarrow> \<not> startsWith (trim s) w \<and> \<not> startsWith (rev (trim s)) (rev w)"
proof -
  assume w: "w \<in> set whiteSpace"
  obtain q where q: "rev (dropLeading whiteSpace s)
      = concat q @ dropLeading (map rev whiteSpace) (rev (dropLeading whiteSpace s))"
    using dropLeading_split by blast
  then have m: "dropLeading whiteSpace s = trim s @ rev (concat q)"
    unfolding trim_def by (metis rev_append rev_rev_ident)
  have "\<not> startsWith (trim s) w"
  proof
    assume "startsWith (trim s) w"
    then have "startsWith (dropLeading whiteSpace s) w"
      using startsWith_prefix m by metis
    with dropLeading_clean [OF w whiteSpace_nonempty [OF w]] show False by blast
  qed
  moreover have "\<not> startsWith (rev (trim s)) (rev w)"
  proof -
    have "rev w \<in> set (map rev whiteSpace)" using w by simp
    moreover have "rev w \<noteq> []" using whiteSpace_nonempty [OF w] by simp
    ultimately show ?thesis
      unfolding trim_def rev_rev_ident by (rule dropLeading_clean)
  qed
  ultimately show ?thesis by blast
qed

lemma partialMatch_cell:
  "partialMatch row key = Some v \<Longrightarrow> \<exists>k cell. (k, cell) \<in> set row \<and> v = trim cell"
proof (induction row)
  case Nil
  then show ?case by simp
next
  case (Cons kv row)
  obtain k c where kv: "kv = (k, c)" by (cases kv)
  show ?case
  proof (cases "str_includes k key \<or> str_includes key k")
    case True
    with Cons.prems kv have "v = trim c" by auto
    with kv show ?thesis by auto
  next
    case False
    with Cons.prems kv have "partialMatch row key = Some v" by simp
    from Cons.IH [OF this] show ?thesis by auto
  qed
qed

lemma getValue_cell:
  "getValue row aliases = Some v \<Longrightarrow> \<exists>k cell. (k, cell) \<in> set row \<and> v = trim cell"
proof (induction aliases)
  case Nil
  then show ?case by simp
next
  case (Cons a as)
  show ?case
  proof (cases "map_of row a")
    case (Some c)
    with Cons.prems have "v = trim c" by simp
    with map_of_SomeD [OF Some] show ?thesis by blast
  next
    case None
    show ?thesis
    proof (cases "partialMatch row a")
      case pNone: None
      with None Cons show ?thesis by simp
    next
      case (Some c)
      with None Cons.prems have "partialMatch row a = Some v" by simp
      then show ?thesis by (rule partialMatch_cell)
    qed
  qed
qed


section \<open>Updates of one student: lemmas\<close>

lemma updateExisting_fields:
  "updateExisting s d =
     s\<lparr>name := name d,
       academicYear := pick (academicYear d) (academicYear s),
       semester := pick (semester d) (semester s),
       year := pick (year d) (year s),
       division := pick (division d) (division s),
       rollNo := pick (rollNo d) (rollNo s),
       department := pick (department d) (department s),
       email := pick (email d) (email s),
       phone := pick (phone d) (phone s)\<rparr>"
  by (rule student.equality; simp add: updateExisting_def Let_def pick_def)

lemma updateExisting_sel [simp]:
  "prn (updateExisting s d) = prn s"
  "name (updateExisting s d) = name d"
  "academicYear (updateExisting s d) = pick (academicYear d) (academicYear s)"
  "semester (updateExisting s d) = pick (semester d) (semester s)"
  "year (updateExisting s d) = pick (year d) (year s)"
  "division (updateExisting s d) = pick (division d) (division s)"
  "rollNo (updateExisting s d) = pick (rollNo d) (rollNo s)"
  "department (updateExisting s d) = pick (department d) (department s)"
  "email (updateExisting s d) = pick (email d) (email s)"
  "phone (updateExisting s d) = pick (phone d) (phone s)"
  "fines (updateExisting s d) = fines s"
  "student.more (updateExisting s d) = student.more s"
  by (simp_all add: updateExisting_fields)

lemma pick_simps [simp]:
  "pick a (pick a b) = pick a b"
  "pick a (pick b (pick a c)) = pick a (pick b c)"
  "pick a a = a"
  by (auto simp: pick_def)

lemma updateExisting_twice:
  "updateExisting (updateExisting s d) e = updateExisting s (combine e d)"
  by (rule student.equality; simp add: combine_def; simp add: pick_def)

lemma updateExisting_new:
  "updateExisting (newStudent d) e = newStudent (combine e d)"
  by (rule student.equality; simp add: combine_def newStudent_def)

lemma updateExisting_idem:
  "updateExisting (updateExisting s c) c = updateExisting s c"
  by (rule student.equality; simp)


lemma foldl_updateExisting_combined:
  "es \<noteq> [] \<Longrightarrow> \<exists>c. \<forall>s. foldl updateExisting s es = updateExisting s c"
proof (induction es)
  case Nil
  then show ?case by simp
next
  case (Cons e es)
  show ?case
  proof (cases "es = []")
    case True
    then show ?thesis by auto
  next
    case False
    with Cons.IH obtain c where c: "\<And>s. foldl updateExisting s es = updateExisting s c"
      by blast
    have "\<And>s. foldl updateExisting s (e # es) = updateExisting s (combine c e)"
      by (simp add: c updateExisting_twice)
    then show ?thesis by blast
  qed
qed

lemma foldl_updateExisting_idem:
  "foldl updateExisting (foldl updateExisting s es) es = foldl updateExisting s es"
proof (cases "es = []")
  case True
  then show ?thesis by simp
next
  case False
  then obtain c where "\<And>s. foldl updateExisting s es = updateExisting s c"
    using foldl_updateExisting_combined by blast
  then show ?thesis by (simp add: updateExisting_idem)
qed

lemma combine_absorb: "combine c (combine d (combine c d)) = combine c d"
  by (simp add: combine_def)

lemma combine_self: "combine d d = d"
  by (simp add: combine_def)

lemma foldl_updateExisting_new_idem:
  "foldl updateExisting (foldl updateExisting (newStudent d) es) (d # es) =
   foldl updateExisting (newStudent d) es"
proof (cases "es = []")
  case True
  then show ?thesis by (simp add: updateExisting_new combine_self)
next
  case False
  then obtain c where c: "\<And>s. foldl updateExisting s es = updateExisting s c"
    using foldl_updateExisting_combined by blast
  show ?thesis
    by (simp add: c updateExisting_new combine_absorb)
qed

lemma prn_foldl_updateExisting [simp]: "prn (foldl updateExisting s es) = prn s"
  by (induction es arbitrary: s) simp_all

lemma prn_newStudent [simp]: "prn (newStudent d) = prn d"
  by (simp add: newStudent_def)

lemma findOne_Some_prn: "findOne students p = Some s \<Longrightarrow> prn s = p"
  by (induction students) (auto simp: findOne_def split: if_splits)

lemma applyData_Cons:
  "applyData (s # students) d =
     (if prn s = prn d then updateExisting s d # students else s # applyData students d)"
proof (cases "prn s = prn d")
  case True
  then show ?thesis by (simp add: applyData_def findOne_def)
next
  case False
  have same: "findOne (s # students) (prn d) = findOne students (prn d)"
    using False by (simp add: findOne_def)
  show ?thesis
  proof (cases "findOne students (prn d)")
    case None
    with False same show ?thesis by (simp add: applyData_def)
  next
    case (Some x)
    then have "prn x = prn d" by (rule findOne_Some_prn)
    with False Some same show ?thesis by (simp add: applyData_def)
  qed
qed

lemma foldl_applyData_Cons:
  "foldl applyData (s # students) ds =
     foldl updateExisting s (filter (\<lambda>d. prn d = prn s) ds)
       # foldl applyData students (filter (\<lambda>d. prn d \<noteq> prn s) ds)"
proof (induction ds arbitrary: s students)
  case Nil
  show ?case by simp
next
  case (Cons d ds)
  show ?case
  proof (cases "prn s = prn d")
    case True
    then show ?thesis
      using Cons.IH [of "updateExisting s d" students] by (simp add: applyData_Cons)
  next
    case False
    then have "prn d \<noteq> prn s" by simp
    with False show ?thesis
      using Cons.IH [of s "applyData students d"] by (simp add: applyData_Cons)
  qed
qed

lemma foldl_applyData_Nil_idem:
  "foldl applyData (foldl applyData [] ds) ds = foldl applyData [] ds"
proof (induction ds rule: length_induct)
  case (1 ds)
  show ?case
  proof (cases ds)
    case Nil
    then show ?thesis by simp
  next
    case (Cons d ds')
    let ?same = "filter (\<lambda>e. prn e = prn d) ds'"
    let ?rest = "filter (\<lambda>e. prn e \<noteq> prn d) ds'"
    have first: "foldl applyData [] ds =
        foldl updateExisting (newStudent d) ?same # foldl applyData [] ?rest"
      using foldl_applyData_Cons [of "newStudent d" "[]" ds']
      by (simp add: Cons applyData_def findOne_def)
    have "length ?rest < length ds"
      by (simp add: Cons le_imp_less_Suc)
    with 1 have rest: "foldl applyData (foldl applyData [] ?rest) ?rest = foldl applyData [] ?rest"
      by blast
    show ?thesis
      unfolding first
      apply (subst foldl_applyData_Cons)
      apply (simp add: Cons rest del: foldl_Cons)
      using foldl_updateExisting_new_idem [of d ?same] by simp
  qed
qed

lemma foldl_applyData_idem:
  "foldl applyData (foldl applyData students ds) ds = foldl applyData students ds"
proof (induction students arbitrary: ds)
  case Nil
  show ?case by (rule foldl_applyData_Nil_idem)
next
  case (Cons s students)
  let ?same = "filter (\<lambda>d. prn d = prn s) ds"
  let ?rest = "filter (\<lambda>d. prn d \<noteq> prn s) ds"
  have once: "foldl applyData (s # students) ds =
      foldl updateExisting s ?same # foldl applyData students ?rest"
    by (rule foldl_applyData_Cons)
  have "foldl applyData (foldl updateExisting s ?same # foldl applyData students ?rest) ds =
      foldl updateExisting (foldl updateExisting s ?same) ?same
        # foldl applyData (foldl applyData students ?rest) ?rest"
    using foldl_applyData_Cons [of "foldl updateExisting s ?same" "foldl applyData students ?rest" ds]
    by simp
  also have "\<dots> = foldl updateExisting s ?same # foldl applyData students ?rest"
    by (simp only: foldl_updateExisting_idem Cons.IH)
  finally show ?case
    by (simp only: once)
qed


section \<open>The loop over the rows: lemmas\<close>

lemma findOne_None_iff: "findOne students p = None \<longleftrightarrow> p \<notin> prn ` set students"
  by (induction students) (auto simp: findOne_def)

lemma findOne_save:
  "findOne students (prn doc) = Some s \<Longrightarrow> findOne (save students doc) (prn doc) = Some doc"
  by (induction students) (auto simp: findOne_def split: if_splits)

lemma prn_set_save: "prn ` set (save students doc) = prn ` set students"
  by (induction students) auto

lemma prn_set_applyData: "prn ` set (applyData students d) = insert (prn d) (prn ` set students)"
proof (cases "findOne students (prn d)")
  case None
  then show ?thesis by (simp add: applyData_def)
next
  case (Some s)
  then have "prn d \<in> prn ` set students"
    using findOne_None_iff [of students "prn d"] by simp
  with Some show ?thesis
    by (auto simp: applyData_def prn_set_save)
qed

lemma truthy_orUndefined [simp]: "truthy (orUndefined x) = truthy x"
  by (simp add: orUndefined_def)

lemma pick_orUndefined [simp]: "pick (orUndefined x) y = (if truthy x then x else y)"
  by (simp add: pick_def orUndefined_def)

lemma studentDataOf_None_iff:
  "studentDataOf row = None \<longleftrightarrow> \<not> (truthy (prnOf row) \<and> truthy (nameOf row))"
  by (cases "prnOf row"; cases "nameOf row"; simp add: studentDataOf_def)

lemma studentDataOf_Some_fields:
  assumes "studentDataOf row = Some d"
  shows "prnOf row = Some (prn d)" "nameOf row = Some (name d)"
    "academicYear d = orUndefined (academicYearOf row)"
    "semester d = orUndefined (semesterOf row)"
    "year d = orUndefined (yearOf row)"
    "division d = orUndefined (divisionOf row)"
    "rollNo d = orUndefined (rollNoOf row)"
    "department d = orUndefined (divisionOf row)"
    "email d = orUndefined (emailOf row)"
    "phone d = orUndefined (phoneOf row)"
  using assms
  by (cases "prnOf row"; cases "nameOf row"; auto simp: studentDataOf_def split: if_splits)+

lemma processRow_noFailure:
  assumes "\<forall>students doc. persistError students doc = None"
  shows "processRow persistError st row =
     (case studentDataOf row of
        None \<Rightarrow> recordError st (prnOrNA row) ''Missing required fields (PRN Number or Student Name)''
      | Some d \<Rightarrow>
          (case findOne (roster st) (prn d) of
             Some existingStudent \<Rightarrow>
               st\<lparr>roster := applyData (roster st) d, updateCount := updateCount st + 1\<rparr>
           | None \<Rightarrow>
               st\<lparr>roster := applyData (roster st) d, successCount := successCount st + 1\<rparr>))"
  using assms
  by (simp add: processRow_def persistRow_def applyData_def split: option.splits)

lemma processRows_roster:
  assumes "\<forall>students doc. persistError students doc = None"
  shows "roster (processRows persistError st results) =
     foldl applyData (roster st) (List.map_filter studentDataOf results)"
proof (induction results arbitrary: st)
  case Nil
  show ?case by (simp add: map_filter_simps)
next
  case (Cons row results)
  show ?case
    by (simp add: Cons processRow_noFailure [OF assms] recordError_def map_filter_simps
        split: option.splits)
qed

lemma processRows_errorCount:
  assumes "\<forall>students doc. persistError students doc = None"
  shows "errorCount (processRows persistError st results) =
     errorCount st + length (filter (\<lambda>row. studentDataOf row = None) results)"
proof (induction results arbitrary: st)
  case Nil
  show ?case by simp
next
  case (Cons row results)
  show ?case
    by (simp add: Cons processRow_noFailure [OF assms] recordError_def split: option.splits)
qed

lemma processRows_errorLog:
  assumes "\<forall>students doc. persistError students doc = None"
  shows "length (errorLog (processRows persistError st results)) =
     length (errorLog st) + length (filter (\<lambda>row. studentDataOf row = None) results)"
proof (induction results arbitrary: st)
  case Nil
  show ?case by simp
next
  case (Cons row results)
  show ?case
    by (simp add: Cons processRow_noFailure [OF assms] recordError_def split: option.splits)
qed

lemma processRows_persisted:
  assumes "\<forall>students doc. persistError students doc = None"
  shows "successCount (processRows persistError st results)
         + updateCount (processRows persistError st results) =
     successCount st + updateCount st
       + length (filter (\<lambda>row. studentDataOf row \<noteq> None) results)"
proof (induction results arbitrary: st)
  case Nil
  show ?case by simp
next
  case (Cons row results)
  show ?case
    by (simp add: Cons processRow_noFailure [OF assms] recordError_def split: option.splits)
qed

lemma processRows_known:
  assumes "\<forall>students doc. persistError students doc = None"
    and "prn ` set (List.map_filter studentDataOf results) \<subseteq> prn ` set (roster st)"
  shows "successCount (processRows persistError st results) = successCount st"
  using assms(2)
proof (induction results arbitrary: st)
  case Nil
  show ?case by simp
next
  case (Cons row results)
  show ?case
  proof (cases "studentDataOf row")
    case None
    with Cons.prems have "prn ` set (List.map_filter studentDataOf results) \<subseteq> prn ` set (roster st)"
      by (simp add: map_filter_simps)
    then show ?thesis
      using Cons.IH [of "recordError st (prnOrNA row) ''Missing required fields (PRN Number or Student Name)''"]
      by (simp add: None processRow_noFailure [OF assms(1)] recordError_def)
  next
    case (Some d)
    with Cons.prems have d: "prn d \<in> prn ` set (roster st)"
      and rest: "prn ` set (List.map_filter studentDataOf results) \<subseteq> prn ` set (roster st)"
      by (simp_all add: map_filter_simps)
    from d obtain e where e: "findOne (roster st) (prn d) = Some e"
      using findOne_None_iff [of "roster st" "prn d"] by (cases "findOne (roster st) (prn d)") auto
    have "prn ` set (List.map_filter studentDataOf results)
        \<subseteq> prn ` set (applyData (roster st) d)"
      using rest by (auto simp: prn_set_applyData)
    then show ?thesis
      using Cons.IH [of "st\<lparr>roster := applyData (roster st) d, updateCount := updateCount st + 1\<rparr>"]
      by (simp add: Some e processRow_noFailure [OF assms(1)])
  qed
qed

lemma prn_set_foldl_applyData:
  "prn ` set (foldl applyData students ds) = prn ` set students \<union> prn ` set ds"
  by (induction ds arbitrary: students) (auto simp: prn_set_applyData)


section \<open>Decimal digits and the receipt number: lemmas\<close>

lemma digit_cases: "d < 10 \<Longrightarrow> d \<in> {0, 1, 2, 3, 4, 5, 6, 7, 8, 9::nat}"
  by auto

lemma digitChar_isDigit: "d < 10 \<Longrightarrow> isDigit (digitChar d)"
  using digit_cases [of d] by (auto simp: isDigit_def digitChar_def)

lemma digitValue_digitChar: "d < 10 \<Longrightarrow> digitValue (digitChar d) = d"
  using digit_cases [of d] by (auto simp: digitValue_def digitChar_def)

lemma digitChar_not_dash: "d < 10 \<Longrightarrow> digitChar d \<noteq> CHR ''-''"
  using digit_cases [of d] by (auto simp: digitChar_def)

lemma decimal_digits: "list_all isDigit (decimal n)"
proof (induction n rule: decimal.induct)
  case (1 n)
  show ?case
  proof (cases "n < 10")
    case True
    then show ?thesis by (subst decimal.simps) (simp add: digitChar_isDigit)
  next
    case False
    with 1 show ?thesis by (subst decimal.simps) (simp add: digitChar_isDigit)
  qed
qed

lemma readDecimal_snoc: "readDecimal (s @ [c]) = 10 * readDecimal s + digitValue c"
  by (simp add: readDecimal_def)

lemma readDecimal_decimal: "readDecimal (decimal n) = n"
proof (induction n rule: decimal.induct)
  case (1 n)
  show ?case
  proof (cases "n < 10")
    case True
    then show ?thesis
      by (subst decimal.simps) (simp add: readDecimal_def digitValue_digitChar)
  next
    case False
    with 1 have "readDecimal (decimal (n div 10)) = n div 10" by simp
    with False show ?thesis
      by (subst decimal.simps) (simp add: readDecimal_snoc digitValue_digitChar)
  qed
qed

lemma length_decimal_le: "0 < k \<Longrightarrow> n < 10 ^ k \<Longrightarrow> length (decimal n) \<le> k"
proof (induction n arbitrary: k rule: decimal.induct)
  case (1 n)
  show ?case
  proof (cases "n < 10")
    case True
    with 1(2) show ?thesis by (subst decimal.simps) simp
  next
    case False
    with 1(3) have "1 < k" by (cases "k = 1") (use 1(2) in auto)
    then obtain j where k: "k = Suc j" and j: "0 < j" by (cases k) auto
    from 1(3) k have "n div 10 < 10 ^ j" by (simp add: less_mult_imp_div_less mult.commute)
    with 1(1) [OF False j] have "length (decimal (n div 10)) \<le> j" by simp
    with False k show ?thesis by (subst decimal.simps) simp
  qed
qed

lemma length_decimal_ge: "10 ^ k \<le> n \<Longrightarrow> k < length (decimal n)"
proof (induction n arbitrary: k rule: decimal.induct)
  case (1 n)
  show ?case
  proof (cases "n < 10")
    case True
    have "k = 0"
    proof (cases k)
      case 0
      then show ?thesis .
    next
      case (Suc j)
      have "(1::nat) \<le> 10 ^ j" by simp
      then have "(10::nat) \<le> 10 ^ k" by (simp add: Suc)
      with 1(2) True show ?thesis by simp
    qed
    with True show ?thesis by (subst decimal.simps) simp
  next
    case False
    show ?thesis
    proof (cases k)
      case 0
      with False show ?thesis by (subst decimal.simps) simp
    next
      case (Suc j)
      with 1(2) have "10 ^ j \<le> n div 10" by (simp add: less_eq_div_iff_mult_less_eq mult.commute)
      with 1(1) [OF False] have "j < length (decimal (n div 10))" by simp
      with False Suc show ?thesis by (subst decimal.simps) simp
    qed
  qed
qed

lemma length_padStart: "length s \<le> w \<Longrightarrow> length (padStart w s) = w"
  by (simp add: padStart_def)

lemma readDecimal_zeros: "readDecimal (replicate k CHR ''0'' @ s) = readDecimal s"
proof -
  have "foldl (\<lambda>n c. 10 * n + digitValue c) 0 (replicate k CHR ''0'') = 0"
    by (induction k) (simp_all add: digitValue_def)
  then show ?thesis by (simp add: readDecimal_def)
qed

lemma readDecimal_padStart: "readDecimal (padStart w (decimal n)) = n"
  by (simp add: padStart_def readDecimal_zeros readDecimal_decimal)

lemma padStart_digits: "list_all isDigit (padStart w (decimal n))"
proof -
  have "list_all isDigit (replicate k CHR ''0'')" for k
    by (induction k) (simp_all add: isDigit_def)
  then show ?thesis by (simp add: padStart_def decimal_digits)
qed

lemma digits_no_dash: "list_all isDigit s \<Longrightarrow> filter (\<lambda>c. c \<noteq> CHR ''-'') s = s"
  by (induction s) (auto simp: isDigit_def)

lemma padStart_no_dash:
  "filter (\<lambda>c. c \<noteq> CHR ''-'') (padStart w (decimal n)) = padStart w (decimal n)"
  by (rule digits_no_dash [OF padStart_digits])

lemma randomNum_range:
  assumes "0 \<le> (random::real)" "random < 1"
  shows "10 ^ 4 \<le> nat \<lfloor>10000 + random * 90000\<rfloor>" "nat \<lfloor>10000 + random * 90000\<rfloor> < 10 ^ 5"
proof -
  have "(10000::int) \<le> \<lfloor>10000 + random * 90000\<rfloor>"
    using assms by linarith
  then have "(10000::nat) \<le> nat \<lfloor>10000 + random * 90000\<rfloor>" by linarith
  then show "10 ^ 4 \<le> nat \<lfloor>10000 + random * 90000\<rfloor>" by simp
  have "\<lfloor>10000 + random * 90000\<rfloor> < (100000::int)"
    using assms by linarith
  then have "nat \<lfloor>10000 + random * 90000\<rfloor> < (100000::nat)" by linarith
  then show "nat \<lfloor>10000 + random * 90000\<rfloor> < 10 ^ 5" by simp
qed

lemma length_randomNum:
  assumes "0 \<le> (random::real)" "random < 1"
  shows "length (decimal (nat \<lfloor>10000 + random * 90000\<rfloor>)) = 5"
  using length_decimal_le [OF _ randomNum_range(2) [OF assms]]
    length_decimal_ge [OF randomNum_range(1) [OF assms]] by simp

lemma take10_toISOString:
  assumes "0 \<le> utcYear now" "utcYear now \<le> 9999" "utcMonth now \<le> 99" "utcDay now \<le> 99"
  shows "take 10 (toISOString now) =
     padStart 4 (decimal (nat (utcYear now))) @ ''-'' @ padStart 2 (decimal (utcMonth now))
       @ ''-'' @ padStart 2 (decimal (utcDay now))"
proof -
  have "nat (utcYear now) < 10 ^ 4" using assms by simp
  then have y: "length (padStart 4 (decimal (nat (utcYear now)))) = 4"
    by (intro length_padStart length_decimal_le) simp_all
  have "utcMonth now < 10 ^ 2" using assms by simp
  then have m: "length (padStart 2 (decimal (utcMonth now))) = 2"
    by (intro length_padStart length_decimal_le) simp_all
  have "utcDay now < 10 ^ 2" using assms by simp
  then have d: "length (padStart 2 (decimal (utcDay now))) = 2"
    by (intro length_padStart length_decimal_le) simp_all
  show ?thesis
    using assms(1,2) by (simp add: toISOString_def y m d)
qed

lemma generateReceiptNumber_format:
  assumes "0 \<le> random" "random < 1"
    and "0 \<le> utcYear now" "utcYear now \<le> 9999" "utcMonth now \<le> 12" "utcDay now \<le> 31"
  shows "\<exists>y m d r. generateReceiptNumber now random = ''RCP-'' @ y @ m @ d @ ''-'' @ r
     \<and> length y = 4 \<and> length m = 2 \<and> length d = 2 \<and> length r = 5
     \<and> list_all isDigit (y @ m @ d @ r)
     \<and> int (readDecimal y) = utcYear now
     \<and> readDecimal m = utcMonth now
     \<and> readDecimal d = utcDay now"
proof -
  let ?y = "padStart 4 (decimal (nat (utcYear now)))"
  let ?m = "padStart 2 (decimal (utcMonth now))"
  let ?d = "padStart 2 (decimal (utcDay now))"
  let ?r = "decimal (nat \<lfloor>10000 + random * 90000\<rfloor>)"
  have t: "take 10 (toISOString now) = ?y @ ''-'' @ ?m @ ''-'' @ ?d"
    using assms by (intro take10_toISOString) simp_all
  have f: "filter (\<lambda>c. c \<noteq> CHR ''-'') (?y @ ''-'' @ ?m @ ''-'' @ ?d) = ?y @ ?m @ ?d"
    by (simp add: padStart_no_dash)
  have g: "generateReceiptNumber now random = ''RCP-'' @ ?y @ ?m @ ?d @ ''-'' @ ?r"
    by (simp add: generateReceiptNumber_def Let_def t padStart_no_dash)
  have "nat (utcYear now) < 10 ^ 4" using assms by simp
  then have y: "length ?y = 4"
    by (intro length_padStart length_decimal_le) simp_all
  have "utcMonth now < 10 ^ 2" using assms by simp
  then have m: "length ?m = 2"
    by (intro length_padStart length_decimal_le) simp_all
  have "utcDay now < 10 ^ 2" using assms by simp
  then have d: "length ?d = 2"
    by (intro length_padStart length_decimal_le) simp_all
  have r: "length ?r = 5"
    using assms by (intro length_randomNum)
  have digits: "list_all isDigit (?y @ ?m @ ?d @ ?r)"
    by (simp add: padStart_digits decimal_digits)
  have vals: "int (readDecimal ?y) = utcYear now" "readDecimal ?m = utcMonth now"
    "readDecimal ?d = utcDay now"
    using assms by (simp_all add: readDecimal_padStart)
  from g y m d r digits vals show ?thesis by blast
qed


section \<open>Double arithmetic: lemmas\<close>

lemma two_powr_neg: "(2::real) powr (- real m) = 1 / 2 ^ m"
  by (simp add: powr_minus powr_realpow inverse_eq_divide)

lemma ulpOf_ge1:
  assumes "2 ^ k \<le> \<bar>x\<bar>" "\<bar>x\<bar> < 2 ^ Suc k"
  shows "ulpOf x = 2 powr (real k - 52)"
proof -
  have pos: "0 < \<bar>x\<bar>" using assms(1) by (smt (verit) zero_less_power)
  have "\<lfloor>log 2 \<bar>x\<bar>\<rfloor> = int k"
    using assms pos by (simp add: floor_log_eq_powr_iff powr_realpow powr_add)
  then show ?thesis by (simp add: ulpOf_def)
qed

lemma ulpOf_lt1:
  assumes "1 / 2 ^ Suc k \<le> \<bar>x\<bar>" "\<bar>x\<bar> < 1 / 2 ^ k" "k < 1022"
  shows "ulpOf x = 1 / 2 ^ (k + 53)"
proof -
  have pos: "0 < \<bar>x\<bar>" using assms(1) by (smt (verit) divide_pos_pos zero_less_power)
  have lo: "2 powr (real_of_int (- int (Suc k))) \<le> \<bar>x\<bar>"
    using assms(1) two_powr_neg [of "Suc k"] by simp
  have "real_of_int (- int (Suc k)) + 1 = - real k" by simp
  then have hi: "\<bar>x\<bar> < 2 powr (real_of_int (- int (Suc k)) + 1)"
    using assms(2) two_powr_neg [of k] by simp
  have "\<lfloor>log 2 \<bar>x\<bar>\<rfloor> = - int (Suc k)"
    using pos lo hi by (subst floor_log_eq_powr_iff) simp_all
  moreover have "real_of_int (max (- int (Suc k)) (- 1022)) - 52 = - real (k + 53)"
    using assms(3) by (simp add: max_def)
  ultimately have "ulpOf x = 2 powr (- real (k + 53))"
    by (simp only: ulpOf_def)
  then show ?thesis by (simp only: two_powr_neg)
qed

lemma roundDouble_large:
  assumes "2 ^ k \<le> x" "x < 2 ^ Suc k" "k \<le> 52"
  shows "roundDouble x = of_int (roundHalfEven (x * 2 ^ (52 - k))) / 2 ^ (52 - k)"
proof -
  have pos: "0 < x" using assms(1) by (smt (verit) zero_less_power)
  then have "ulpOf x = 2 powr (real k - 52)"
    using assms by (intro ulpOf_ge1) simp_all
  also have "real k - 52 = - real (52 - k)" using assms(3) by simp
  finally have u: "ulpOf x = 1 / 2 ^ (52 - k)" by (simp only: two_powr_neg)
  show ?thesis using pos by (simp add: roundDouble_def u)
qed

lemma roundDouble_small:
  assumes "1 / 2 ^ Suc k \<le> x" "x < 1 / 2 ^ k" "k < 1022"
  shows "roundDouble x = of_int (roundHalfEven (x * 2 ^ (k + 53))) / 2 ^ (k + 53)"
proof -
  have pos: "0 < x" using assms(1) by (smt (verit) divide_pos_pos zero_less_power)
  then have u: "ulpOf x = 1 / 2 ^ (k + 53)"
    using assms by (intro ulpOf_lt1) simp_all
  show ?thesis using pos by (simp add: roundDouble_def u)
qed

lemma roundDouble_0 [simp]: "roundDouble 0 = 0"
  by (simp add: roundDouble_def)

lemma dadd_0_0 [simp]: "dadd 0 0 = 0"
  by (simp add: dadd_def)

lemma roundDouble_30: "roundDouble 30 = 30"
  by (subst roundDouble_large [where k = 4]) (simp_all add: roundHalfEven_def)

lemma roundDouble_50: "roundDouble 50 = 50"
  by (subst roundDouble_large [where k = 5]) (simp_all add: roundHalfEven_def)

lemma roundDouble_80: "roundDouble 80 = 80"
  by (subst roundDouble_large [where k = 6]) (simp_all add: roundHalfEven_def)

lemma roundDouble_100: "roundDouble 100 = 100"
  by (subst roundDouble_large [where k = 6]) (simp_all add: roundHalfEven_def)

lemmas roundDouble_examples = roundDouble_30 roundDouble_50 roundDouble_80 roundDouble_100

lemma roundDouble_tenth: "roundDouble exTenth = exTenth"
  unfolding exTenth_def
  by (subst roundDouble_small [where k = 3]) (simp_all add: roundHalfEven_def)

lemma roundDouble_tenth_fifth: "roundDouble (exTenth + exFifth) = exThreeTenthsUp"
  unfolding exTenth_def exFifth_def exThreeTenthsUp_def
  by (subst roundDouble_small [where k = 1]) (simp_all add: roundHalfEven_def)

lemma roundDouble_threeTenthsUp: "roundDouble exThreeTenthsUp = exThreeTenthsUp"
  unfolding exThreeTenthsUp_def
  by (subst roundDouble_small [where k = 1]) (simp_all add: roundHalfEven_def)

lemmas roundDouble_tenths = roundDouble_tenth roundDouble_tenth_fifth roundDouble_threeTenthsUp

lemma ieeeSum_examples:
  "ieeeSum [100] = 100" "ieeeSum [50, 30] = 80"
  "ieeeSum [exTenth, exFifth] = exThreeTenthsUp" "ieeeSum [exThreeTenthsUp] = exThreeTenthsUp"
  by (simp_all add: ieeeSum_def dadd_def roundDouble_examples roundDouble_tenths)


section \<open>Evaluation of the examples\<close>

lemmas eval_defs =
  uploadStudentsCSV_def processRow_def persistRow_def studentDataOf_def
  prnOf_def nameOf_def academicYearOf_def semesterOf_def yearOf_def
  divisionOf_def rollNoOf_def phoneOf_def emailOf_def trim_def whiteSpace_def
  toUpperChar_def orUndefined_def orDefault_def findOne_def updateExisting_def
  newStudent_def recordError_def prnOrNA_def rowPrnOrUnknown_def Let_def

lemma alwaysPersists_never: "\<forall>students doc. alwaysPersists students doc = None"
  by (simp add: alwaysPersists_def)

lemma exRows_invalid:
  "length (filter (\<lambda>row. \<not> (truthy (prnOf row) \<and> truthy (nameOf row))) exRows) = 1"
  by (simp add: exRows_def exUpdateRow_def eval_defs)

lemma exRows_valid:
  "length (filter (\<lambda>row. truthy (prnOf row) \<and> truthy (nameOf row)) exRows) = 2"
  by (simp add: exRows_def exUpdateRow_def eval_defs)

lemma exRows_reconciled:
  "foldl applyData [exStudent] (List.map_filter studentDataOf exRows) =
     [exStudent\<lparr>name := ''Ravi K'', division := Some ''B'', department := Some ''B''\<rparr>,
      \<lparr>prn = ''P1'', name = ''Asha'', academicYear = None, semester = None, year = None,
       division = None, rollNo = None, department = None, email = None, phone = None,
       fines = []\<rparr>]"
  by (simp add: exRows_def exUpdateRow_def exStudent_def applyData_def eval_defs)

lemma exRow2_data:
  "studentDataOf exUpdateRow =
     Some \<lparr>prn = ''P2'', name = ''Ravi K'', academicYear = None, semester = None, year = None,
       division = Some ''B'', rollNo = None, department = Some ''B'', email = None,
       phone = None\<rparr>"
  by (simp add: exRows_def exUpdateRow_def eval_defs)

lemma ex_dept_row:
  "studentDataOf [(''prn'', ''p1''), (''name'', ''Asha''), (''department'', ''Computer'')]
   = Some \<lparr>prn = ''P1'', name = ''Asha'', academicYear = None, semester = None, year = None,
       division = None, rollNo = None, department = None, email = None, phone = None\<rparr>"
  by (simp add: studentDataOf_def prnOf_def nameOf_def academicYearOf_def semesterOf_def yearOf_def
      divisionOf_def rollNoOf_def phoneOf_def emailOf_def trim_def whiteSpace_def
      toUpperChar_def orUndefined_def)


lemma exRetry_first:
  "uploadStudentsCSV requiresDepartment [] exRetryRows =
     ([\<lparr>prn = ''P5'', name = ''Kiran'', academicYear = None, semester = None, year = None,
        division = Some ''A'', rollNo = None, department = Some ''A'', email = None,
        phone = None, fines = []\<rparr>],
      \<lparr>totalRecords = 2, newStudents = 1, updatedStudents = 0, errors = 1,
       errorDetails = Some [(''p5'', ''Student validation failed: department is required'')]\<rparr>)"
  by (simp add: exRetryRows_def requiresDepartment_def eval_defs)

lemma exRetry_second:
  "uploadStudentsCSV requiresDepartment
     [\<lparr>prn = ''P5'', name = ''Kiran'', academicYear = None, semester = None, year = None,
        division = Some ''A'', rollNo = None, department = Some ''A'', email = None,
        phone = None, fines = []\<rparr>] exRetryRows =
     ([\<lparr>prn = ''P5'', name = ''Kiran'', academicYear = None, semester = None, year = None,
        division = Some ''A'', rollNo = None, department = Some ''A'', email = Some ''a@x.org'',
        phone = None, fines = []\<rparr>],
      \<lparr>totalRecords = 2, newStudents = 0, updatedStudents = 2, errors = 0,
       errorDetails = None\<rparr>)"
  by (simp add: exRetryRows_def requiresDepartment_def eval_defs)

lemma exDivisionRow_data:
  "studentDataOf exDivisionRow
   = Some \<lparr>prn = ''P6'', name = ''Leela'', academicYear = None, semester = None, year = None,
       division = Some ''B'', rollNo = None, department = Some ''B'', email = None, phone = None\<rparr>"
  "divisionOf exDivisionRow = Some ''B''"
  by (simp_all add: exDivisionRow_def eval_defs)


section \<open>Updating an existing student (C1)\<close>

lemma findOne_save_found:
  "findOne students p = Some s \<Longrightarrow> prn doc = p \<Longrightarrow> findOne (save students doc) p = Some doc"
  using findOne_save [of students doc s] by simp

lemma length_save: "length (save students doc) = length students"
  by (induction students) simp_all

text \<open>
  C1. When a row with a valid identifier and name meets a student already in the roster
  and the write goes through, the student found under that identifier afterwards has
  the row's name; each optional field (academic year, semester, year, division, roll
  number, department, e-mail, phone) has the row's resolved value when that value is
  present and not empty, and keeps its old value otherwise (the department takes the
  resolved division); the identifier and the ledger are unchanged, entry for entry. No
  document is added and the update count grows by one.
\<close>

theorem update_keeps_ledger:
  assumes "studentDataOf row = Some d"
    and "findOne (roster st) (prn d) = Some s"
    and "persistError (roster st) (updateExisting s d) = None"
  shows "\<exists>s'. findOne (roster (processRow persistError st row)) (prn d) = Some s'
     \<and> prn s' = prn s
     \<and> nameOf row = Some (name s')
     \<and> academicYear s' =
         (if truthy (academicYearOf row) then academicYearOf row else academicYear s)
     \<and> semester s' = (if truthy (semesterOf row) then semesterOf row else semester s)
     \<and> year s' = (if truthy (yearOf row) then yearOf row else year s)
     \<and> division s' = (if truthy (divisionOf row) then divisionOf row else division s)
     \<and> rollNo s' = (if truthy (rollNoOf row) then rollNoOf row else rollNo s)
     \<and> department s' = (if truthy (divisionOf row) then divisionOf row else department s)
     \<and> email s' = (if truthy (emailOf row) then emailOf row else email s)
     \<and> phone s' = (if truthy (phoneOf row) then phoneOf row else phone s)
     \<and> fines s' = fines s
     \<and> length (roster (processRow persistError st row)) = length (roster st)
     \<and> updateCount (processRow persistError st row) = updateCount st + 1"
proof -
  let ?s' = "updateExisting s d"
  have step: "processRow persistError st row =
      st\<lparr>roster := save (roster st) ?s', updateCount := updateCount st + 1\<rparr>"
    using assms by (simp add: processRow_def persistRow_def)
  have found: "findOne (save (roster st) ?s') (prn d) = Some ?s'"
    using assms(2) findOne_Some_prn [OF assms(2)] by (intro findOne_save_found) simp_all
  have len: "length (save (roster st) ?s') = length (roster st)"
    by (rule length_save)
  note f = studentDataOf_Some_fields [OF assms(1)]
  have "findOne (roster (processRow persistError st row)) (prn d) = Some ?s'
     \<and> prn ?s' = prn s
     \<and> nameOf row = Some (name ?s')
     \<and> academicYear ?s' =
         (if truthy (academicYearOf row) then academicYearOf row else academicYear s)
     \<and> semester ?s' = (if truthy (semesterOf row) then semesterOf row else semester s)
     \<and> year ?s' = (if truthy (yearOf row) then yearOf row else year s)
     \<and> division ?s' = (if truthy (divisionOf row) then divisionOf row else division s)
     \<and> rollNo ?s' = (if truthy (rollNoOf row) then rollNoOf row else rollNo s)
     \<and> department ?s' = (if truthy (divisionOf row) then divisionOf row else department s)
     \<and> email ?s' = (if truthy (emailOf row) then emailOf row else email s)
     \<and> phone ?s' = (if truthy (phoneOf row) then phoneOf row else phone s)
     \<and> fines ?s' = fines s
     \<and> length (roster (processRow persistError st row)) = length (roster st)
     \<and> updateCount (processRow persistError st row) = updateCount st + 1"
    by (simp add: step found len f)
  then show ?thesis by blast
qed

text \<open>
  An instance: the second example row renames the example student and moves him to
  division B; its e-mail cell is empty and it has no academic year, so both old values
  stay, and the two ledger entries stay.
\<close>

theorem update_keeps_ledger_witness:
  "\<exists>s'. findOne (roster (processRow alwaysPersists
            \<lparr>roster = [exStudent], successCount = 0, updateCount = 0, errorCount = 0,
             errorLog = []\<rparr> exUpdateRow)) ''P2'' = Some s'
     \<and> name s' = ''Ravi K''
     \<and> academicYear s' = Some ''2023-24''
     \<and> division s' = Some ''B''
     \<and> department s' = Some ''B''
     \<and> email s' = Some ''ravi@example.com''
     \<and> fines s' = [exFine1, exFine2]"
proof -
  let ?d = "\<lparr>prn = ''P2'', name = ''Ravi K'', academicYear = None, semester = None, year = None,
       division = Some ''B'', rollNo = None, department = Some ''B'', email = None,
       phone = None\<rparr>"
  let ?st = "\<lparr>roster = [exStudent], successCount = 0, updateCount = 0, errorCount = 0,
             errorLog = []\<rparr>"
  have h2: "findOne (roster ?st) (prn ?d) = Some exStudent"
    by (simp add: findOne_def exStudent_def)
  have h3: "alwaysPersists (roster ?st) (updateExisting exStudent ?d) = None"
    by (simp add: alwaysPersists_def)
  have vals: "academicYearOf exUpdateRow = None" "divisionOf exUpdateRow = Some ''B''"
    "emailOf exUpdateRow = Some []" "nameOf exUpdateRow = Some ''Ravi K''"
    by (simp_all add: exUpdateRow_def eval_defs)
  from update_keeps_ledger [where persistError = alwaysPersists and st = ?st and s = exStudent,
      OF exRow2_data h2 h3]
  obtain s' where "findOne (roster (processRow alwaysPersists ?st exUpdateRow)) ''P2'' = Some s'"
    and "nameOf exUpdateRow = Some (name s')"
    and "academicYear s' = (if truthy (academicYearOf exUpdateRow) then academicYearOf exUpdateRow else academicYear exStudent)"
    and "division s' = (if truthy (divisionOf exUpdateRow) then divisionOf exUpdateRow else division exStudent)"
    and "department s' = (if truthy (divisionOf exUpdateRow) then divisionOf exUpdateRow else department exStudent)"
    and "email s' = (if truthy (emailOf exUpdateRow) then emailOf exUpdateRow else email exStudent)"
    and "fines s' = fines exStudent"
    by auto
  then have "findOne (roster (processRow alwaysPersists ?st exUpdateRow)) ''P2'' = Some s'
     \<and> name s' = ''Ravi K''
     \<and> academicYear s' = Some ''2023-24''
     \<and> division s' = Some ''B''
     \<and> department s' = Some ''B''
     \<and> email s' = Some ''ravi@example.com''
     \<and> fines s' = [exFine1, exFine2]"
    by (simp add: vals exStudent_def)
  then show ?thesis by blast
qed


section \<open>The financial summary (C2)\<close>









section \<open>The monthly report (C3)\<close>

text \<open>
  What the report does: twelve entries numbered 1 to 12, yearly totals that add up the
  monthly values in double arithmetic, and for each month what the accumulator gives
  for the entries that pass the \<^verbatim>\<open>$match\<close> and fall in that month, 0 when there is
  none. The \<^verbatim>\<open>$match\<close> keeps the instants from the first midnight of the year to the
  midnight that begins 31 December.
\<close>

lemma find_groupByMonth:
  "find (\<lambda>item. fst item = k) (groupByMonth dbSum xs) =
     (if k \<in> fst ` set xs
      then Some (k, dbSum (map snd (filter (\<lambda>x. fst x = k) xs)),
                 length (filter (\<lambda>x. fst x = k) xs))
      else None)"
proof -
  have key: "find (\<lambda>item. fst item = k) (map (\<lambda>m. (m, g m)) ms) =
      (if k \<in> set ms then Some (k, g k) else None)" for g :: "nat \<Rightarrow> real \<times> nat" and ms
    by (induction ms) auto
  show ?thesis
    unfolding groupByMonth_def by (subst key) simp
qed

lemma group_value:
  "(case find (\<lambda>item. fst item = k) (groupByMonth dbSum xs) of
      Some item \<Rightarrow> fst (snd item) | None \<Rightarrow> 0)
   = (if filter (\<lambda>x. fst x = k) xs = [] then 0
      else dbSum (map snd (filter (\<lambda>x. fst x = k) xs)))"
proof (cases "k \<in> fst ` set xs")
  case True
  then have "filter (\<lambda>x. fst x = k) xs \<noteq> []"
    by (auto simp: filter_empty_conv)
  with True show ?thesis by (simp add: find_groupByMonth)
next
  case False
  then have "filter (\<lambda>x. fst x = k) xs = []"
    by (auto simp: filter_empty_conv)
  with False show ?thesis by (simp add: find_groupByMonth)
qed

lemma length_months: "length months = 12"
  by (simp add: months_def)

lemma length_report: "length (fst (getMonthlyReport dbSum y students expenditures)) = 12"
  by (simp add: getMonthlyReport_def Let_def length_months)

lemma report_nth:
  assumes "i < 12"
  shows "fst (getMonthlyReport dbSum y students expenditures) ! i =
     reportEntry (monthlyIncomeOf dbSum y students) (monthlyExpenditureOf dbSum y expenditures) (months ! i) i"
  using assms by (simp add: getMonthlyReport_def Let_def length_months)

lemma monthNumber_reportEntry: "monthNumber (reportEntry a b month index) = index + 1"
  by (simp add: reportEntry_def Let_def)

lemma report_shape:
  "map monthNumber (fst (getMonthlyReport dbSum y students expenditures)) = [1..<13]"
proof (rule nth_equalityI)
  show "length (map monthNumber (fst (getMonthlyReport dbSum y students expenditures))) = length [1..<13]"
    by (simp add: length_report)
next
  fix i
  assume "i < length (map monthNumber (fst (getMonthlyReport dbSum y students expenditures)))"
  then have i: "i < 12" by (simp add: length_report)
  then show "map monthNumber (fst (getMonthlyReport dbSum y students expenditures)) ! i = [1..<13] ! i"
    by (simp add: length_report report_nth monthNumber_reportEntry)
qed

lemma yearly_totals:
  "yearIncome (snd (getMonthlyReport dbSum y students expenditures))
     = foldl dadd 0 (map income (fst (getMonthlyReport dbSum y students expenditures)))"
  "yearExpenditure (snd (getMonthlyReport dbSum y students expenditures))
     = foldl dadd 0 (map expenditure (fst (getMonthlyReport dbSum y students expenditures)))"
  "yearBalance (snd (getMonthlyReport dbSum y students expenditures))
     = foldl dadd 0 (map monthBalance (fst (getMonthlyReport dbSum y students expenditures)))"
  by (simp_all add: getMonthlyReport_def Let_def foldl_map)

lemma filter_month_map:
  "filter (\<lambda>x. fst x = k) (map (\<lambda>f. (m f, a f)) fs) = map (\<lambda>f. (m f, a f)) (filter (\<lambda>f. m f = k) fs)"
  by (induction fs) simp_all

lemma monthly_income:
  assumes "i < 12"
  shows "income (fst (getMonthlyReport dbSum y students expenditures) ! i) =
     (if filter (\<lambda>f. utcMonth (date f) = i + 1)
           (filter (\<lambda>f. matchYear y (date f)) (unwindFines students)) = [] then 0
      else dbSum (map amount (filter (\<lambda>f. utcMonth (date f) = i + 1)
           (filter (\<lambda>f. matchYear y (date f)) (unwindFines students)))))"
  using group_value [of "i + 1" dbSum]
  by (simp add: report_nth [OF assms] reportEntry_def Let_def monthlyIncomeOf_def
      filter_month_map comp_def)

lemma monthly_expenditure:
  assumes "i < 12"
  shows "expenditure (fst (getMonthlyReport dbSum y students expenditures) ! i) =
     (if filter (\<lambda>e. utcMonth (expDate e) = i + 1)
           (filter (\<lambda>e. matchYear y (expDate e)) expenditures) = [] then 0
      else dbSum (map expAmount (filter (\<lambda>e. utcMonth (expDate e) = i + 1)
           (filter (\<lambda>e. matchYear y (expDate e)) expenditures))))"
  using group_value [of "i + 1" dbSum]
  by (simp add: report_nth [OF assms] reportEntry_def Let_def monthlyExpenditureOf_def
      filter_month_map comp_def)

lemma monthly_balance:
  assumes "i < 12"
  shows "monthBalance (fst (getMonthlyReport dbSum y students expenditures) ! i) =
     roundDouble (income (fst (getMonthlyReport dbSum y students expenditures) ! i)
       - expenditure (fst (getMonthlyReport dbSum y students expenditures) ! i))"
  by (simp add: report_nth [OF assms] reportEntry_def Let_def dsub_def)

lemma matchYear_window:
  assumes "1 \<le> utcMonth d" "utcMonth d \<le> 12" "1 \<le> utcDay d" "utcDay d \<le> 31"
  shows "matchYear y d \<longleftrightarrow>
     utcYear d = y \<and> (utcMonth d = 12 \<and> utcDay d = 31 \<longrightarrow> utcMillis d = 0)"
  using assms by (auto simp: matchYear_def tsLe_def newDate_def)

text \<open>
  C3. The report is to give, for each month, the sum of the amounts whose own date falls
  in that month within the year, both ends of the year included. An entry dated at noon
  of 31 December 2024 falls in December 2024 and its 100 belongs to that month's
  income; the report for 2024 gives December an income of 0 and a yearly income of 0,
  whatever the accumulator, while the financial summary hands the 100 to the
  accumulator and, adding in double arithmetic, returns 100.
\<close>

theorem year_end_entries_dropped:
  "utcYear (date exYearEndFine) = 2024 \<and> utcMonth (date exYearEndFine) = 12
   \<and> incomeOfMonth 2024 12 [exStudent\<lparr>fines := [exYearEndFine]\<rparr>] = 100
   \<and> income (fst (getMonthlyReport dbSum 2024 [exStudent\<lparr>fines := [exYearEndFine]\<rparr>] []) ! 11) = 0
   \<and> yearIncome (snd (getMonthlyReport dbSum 2024 [exStudent\<lparr>fines := [exYearEndFine]\<rparr>] [])) = 0
   \<and> totalIncome (fst (getFinancialSummary dbSum [exStudent\<lparr>fines := [exYearEndFine]\<rparr>] []))
       = dbSum [100]
   \<and> totalIncome (fst (getFinancialSummary ieeeSum [exStudent\<lparr>fines := [exYearEndFine]\<rparr>] [])) = 100"
proof -
  have nomatch: "\<not> matchYear 2024 (date exYearEndFine)"
    by (simp add: matchYear_def tsLe_def newDate_def exYearEndFine_def)
  have none: "monthlyIncomeOf dbSum 2024 [exStudent\<lparr>fines := [exYearEndFine]\<rparr>] = []"
    by (simp add: monthlyIncomeOf_def unwindFines_def nomatch groupByMonth_def)
  have rep: "income (fst (getMonthlyReport dbSum 2024 [exStudent\<lparr>fines := [exYearEndFine]\<rparr>] []) ! 11) = 0"
    by (simp add: report_nth reportEntry_def none Let_def)
  have tot: "yearIncome (snd (getMonthlyReport dbSum 2024 [exStudent\<lparr>fines := [exYearEndFine]\<rparr>] [])) = 0"
    by (simp add: getMonthlyReport_def Let_def none reportEntry_def months_def upt_rec [of 0]
      upt_rec [of "Suc _"] numeral_nat)
  have spec: "incomeOfMonth 2024 12 [exStudent\<lparr>fines := [exYearEndFine]\<rparr>] = 100"
    by (simp add: incomeOfMonth_def unwindFines_def exYearEndFine_def)
  have summ: "totalIncome (fst (getFinancialSummary acc [exStudent\<lparr>fines := [exYearEndFine]\<rparr>] []))
      = acc [100]" for acc
    by (simp add: getFinancialSummary_def groupSum_def unwindFines_def exYearEndFine_def Let_def)
  show ?thesis
    using rep tot spec summ [of dbSum] summ [of ieeeSum]
    by (simp add: exYearEndFine_def ieeeSum_examples)
qed


section \<open>Partial failure of a batch (C4)\<close>

lemma uploadStudentsCSV_parts:
  "fst (uploadStudentsCSV pe students results) =
     roster (processRows pe \<lparr>roster = students, successCount = 0, updateCount = 0,
                             errorCount = 0, errorLog = []\<rparr> results)"
  "totalRecords (snd (uploadStudentsCSV pe students results)) = length results"
  "newStudents (snd (uploadStudentsCSV pe students results)) =
     successCount (processRows pe \<lparr>roster = students, successCount = 0, updateCount = 0,
                             errorCount = 0, errorLog = []\<rparr> results)"
  "updatedStudents (snd (uploadStudentsCSV pe students results)) =
     updateCount (processRows pe \<lparr>roster = students, successCount = 0, updateCount = 0,
                             errorCount = 0, errorLog = []\<rparr> results)"
  "errors (snd (uploadStudentsCSV pe students results)) =
     errorCount (processRows pe \<lparr>roster = students, successCount = 0, updateCount = 0,
                             errorCount = 0, errorLog = []\<rparr> results)"
  "errorDetails (snd (uploadStudentsCSV pe students results)) =
     (let l = errorLog (processRows pe \<lparr>roster = students, successCount = 0, updateCount = 0,
                             errorCount = 0, errorLog = []\<rparr> results)
      in if l = [] then None else Some l)"
  by (simp_all add: uploadStudentsCSV_def Let_def)

lemma count_valid_invalid:
  "length (filter (\<lambda>row. studentDataOf row \<noteq> None) results)
   = length results - length (filter (\<lambda>row. studentDataOf row = None) results)"
proof -
  have "length (filter (\<lambda>row. studentDataOf row = None) results)
      + length (filter (\<lambda>row. \<not> studentDataOf row = None) results) = length results"
    by (rule sum_length_filter_compl)
  then show ?thesis by simp
qed

text \<open>
  C4. For a batch of N parsed rows of which K have no identifier or no name, when no
  write throws, the handler answers with the full result: \<open>totalRecords = N\<close>,
  \<open>errors = K\<close> with K error details, \<open>newStudents + updatedStudents = N - K\<close>, and the
  roster it leaves is the one obtained by reconciling (creating or merging) every
  valid row, in order; the invalid rows change nothing and stop nothing.
\<close>

theorem partial_batch:
  assumes "\<forall>students doc. persistError students doc = None"
  shows "let invalid = length (filter (\<lambda>row. \<not> (truthy (prnOf row) \<and> truthy (nameOf row))) results);
             out = uploadStudentsCSV persistError students results
         in totalRecords (snd out) = length results
          \<and> errors (snd out) = invalid
          \<and> newStudents (snd out) + updatedStudents (snd out) = length results - invalid
          \<and> (case errorDetails (snd out) of
                None \<Rightarrow> invalid = 0
              | Some details \<Rightarrow> length details = invalid)
          \<and> fst out = foldl applyData students (List.map_filter studentDataOf results)"
proof -
  let ?st = "\<lparr>roster = students, successCount = 0, updateCount = 0, errorCount = 0, errorLog = []\<rparr>"
  let ?invalid = "length (filter (\<lambda>row. studentDataOf row = None) results)"
  have inv: "length (filter (\<lambda>row. \<not> (truthy (prnOf row) \<and> truthy (nameOf row))) results) = ?invalid"
    by (simp only: studentDataOf_None_iff)
  have e: "errorCount (processRows persistError ?st results) = ?invalid"
    using processRows_errorCount [OF assms, of ?st results] by simp
  have l: "length (errorLog (processRows persistError ?st results)) = ?invalid"
    using processRows_errorLog [OF assms, of ?st results] by simp
  have "successCount (processRows persistError ?st results)
         + updateCount (processRows persistError ?st results)
      = length (filter (\<lambda>row. studentDataOf row \<noteq> None) results)"
    using processRows_persisted [OF assms, of ?st results] by simp
  then have p: "successCount (processRows persistError ?st results)
         + updateCount (processRows persistError ?st results) = length results - ?invalid"
    by (simp only: count_valid_invalid)
  have r: "roster (processRows persistError ?st results)
      = foldl applyData students (List.map_filter studentDataOf results)"
    using processRows_roster [OF assms, of ?st results] by simp
  have d: "(case errorDetails (snd (uploadStudentsCSV persistError students results)) of
                None \<Rightarrow> ?invalid = 0
              | Some details \<Rightarrow> length details = ?invalid)"
    using l by (auto simp: uploadStudentsCSV_parts Let_def)
  show ?thesis
    unfolding Let_def inv
    using e p r d by (simp add: uploadStudentsCSV_parts)
qed

text \<open>
  An instance: the example batch against the example student gives three records, one
  error, one student created and one updated.
\<close>

theorem partial_batch_witness:
  "totalRecords (snd (uploadStudentsCSV alwaysPersists [exStudent] exRows)) = 3
   \<and> errors (snd (uploadStudentsCSV alwaysPersists [exStudent] exRows)) = 1
   \<and> newStudents (snd (uploadStudentsCSV alwaysPersists [exStudent] exRows))
     + updatedStudents (snd (uploadStudentsCSV alwaysPersists [exStudent] exRows)) = 2
   \<and> fst (uploadStudentsCSV alwaysPersists [exStudent] exRows) =
       [exStudent\<lparr>name := ''Ravi K'', division := Some ''B'', department := Some ''B''\<rparr>,
        \<lparr>prn = ''P1'', name = ''Asha'', academicYear = None, semester = None, year = None,
         division = None, rollNo = None, department = None, email = None, phone = None,
         fines = []\<rparr>]"
proof -
  have "length exRows = 3" by (simp add: exRows_def)
  then show ?thesis
    using partial_batch [OF alwaysPersists_never, of exRows "[exStudent]"]
    by (simp only: Let_def exRows_invalid exRows_reconciled) simp
qed


section \<open>Rejected calls of \<^verbatim>\<open>addFineToStudent\<close> (C5)\<close>





section \<open>The receipt number (C6)\<close>

lemma addFineToStudent_success:
  assumes "addFineToStudent strToNumber persistError now random students prnParam
             amountIn reasonIn typeIn categoryIn dateIn = (students', Inr response)"
  shows "receiptNumber (payment response) = generateReceiptNumber now random"
    and "date (payment response) = (case dateIn of Some d \<Rightarrow> d | None \<Rightarrow> now)"
  using assms
  by (auto simp: addFineToStudent_def Let_def split: if_splits option.splits)

text \<open>
  C6. Every receipt number that a successful call generates is \<open>RCP-\<close>, eight digits, a
  dash and exactly five digits; the eight digits are the year (four), month (two) and
  day (two) of the instant of the call, in UTC, whatever date the entry was given. The
  instant of the call is a calendar date (year 0 to 9999) and \<^verbatim>\<open>Math.random()\<close> is in
  the interval from 0 to 1, 1 excluded.
\<close>

theorem receipt_number_format:
  assumes "0 \<le> random" and "random < 1"
    and "0 \<le> utcYear now" and "utcYear now \<le> 9999"
    and "1 \<le> utcMonth now" and "utcMonth now \<le> 12"
    and "1 \<le> utcDay now" and "utcDay now \<le> 31"
    and "addFineToStudent strToNumber persistError now random students prnParam
           amountIn reasonIn typeIn categoryIn dateIn = (students', Inr response)"
  shows "\<exists>y m d r. receiptNumber (payment response) = ''RCP-'' @ y @ m @ d @ ''-'' @ r
     \<and> length y = 4 \<and> length m = 2 \<and> length d = 2 \<and> length r = 5
     \<and> list_all isDigit (y @ m @ d @ r)
     \<and> int (readDecimal y) = utcYear now
     \<and> readDecimal m = utcMonth now
     \<and> readDecimal d = utcDay now"
  using generateReceiptNumber_format [OF assms(1,2,3,4,6,8)]
  by (simp only: addFineToStudent_success(1) [OF assms(9)])

text \<open>
  An instance: a call on 9 March 2024 with \<^verbatim>\<open>Math.random()\<close> giving one half, for an
  entry dated 2 November 2023.
\<close>

lemma exAddFine:
  "addFineToStudent exStrToNumber alwaysPersists exNow (1 / 2) [exStudent] ''p2''
     (JStr ''25'') None None None (Some exEntryDate)
   = ([exStudent\<lparr>fines := [exFine1, exFine2,
          \<lparr>amount = 25, reason = [], type = ''fine'', category = ''Others'',
           receiptNumber = generateReceiptNumber exNow (1 / 2), date = exEntryDate,
           isPaid = True, paidDate = exNow\<rparr>]\<rparr>],
      Inr \<lparr>payment = \<lparr>amount = 25, reason = [], type = ''fine'', category = ''Others'',
           receiptNumber = generateReceiptNumber exNow (1 / 2), date = exEntryDate,
           isPaid = True, paidDate = exNow\<rparr>,
          paymentCount = 3, emailSent = True\<rparr>)"
  by (simp add: addFineToStudent_def exStrToNumber_def alwaysPersists_def exStudent_def
      findOne_def toUpperChar_def orDefault_def Let_def)

lemma exReceipt: "generateReceiptNumber exNow (1 / 2) = ''RCP-20240309-55000''"
  by (simp add: generateReceiptNumber_def toISOString_def exNow_def padStart_def decimal.simps
      digitChar_def Let_def)

theorem receipt_number_format_witness:
  "receiptNumber (payment \<lparr>payment = \<lparr>amount = 25, reason = [], type = ''fine'', category = ''Others'',
           receiptNumber = generateReceiptNumber exNow (1 / 2), date = exEntryDate,
           isPaid = True, paidDate = exNow\<rparr>,
          paymentCount = 3, emailSent = True\<rparr>) = ''RCP-20240309-55000''
   \<and> (\<exists>y m d r. ''RCP-20240309-55000'' = ''RCP-'' @ y @ m @ d @ ''-'' @ r
     \<and> length y = 4 \<and> length m = 2 \<and> length d = 2 \<and> length r = 5
     \<and> list_all isDigit (y @ m @ d @ r)
     \<and> int (readDecimal y) = utcYear exNow
     \<and> readDecimal m = utcMonth exNow
     \<and> readDecimal d = utcDay exNow)"
proof -
  have "0 \<le> (1 / 2 :: real)" "(1 / 2 :: real) < 1" by simp_all
  moreover have "0 \<le> utcYear exNow" "utcYear exNow \<le> 9999" "1 \<le> utcMonth exNow"
    "utcMonth exNow \<le> 12" "1 \<le> utcDay exNow" "utcDay exNow \<le> 31"
    by (simp_all add: exNow_def)
  ultimately show ?thesis
    using receipt_number_format [OF _ _ _ _ _ _ _ _ exAddFine]
    by (simp add: exReceipt)
qed


section \<open>Field resolution (C7)\<close>

text \<open>
  C7. For each canonical field, resolution tries the field's aliases in their declared
  order; for each alias it first looks for a key equal to the alias and otherwise takes
  the first row key, in the row's key order, that contains the alias or is contained in
  it; when no alias matches the field is absent. The loops of \<^verbatim>\<open>getValue\<close> compute
  exactly this resolution, for every row and every alias list, and each of the nine
  fields is resolved with its declared aliases. A value returned is a cell of the row,
  trimmed: the cell is the value with a run of white-space characters before it and one
  after it, and the value neither begins nor ends with a white-space character. The
  identifier is put in upper case after resolution: an identifier of ASCII characters
  has each letter \<open>a\<close> to \<open>z\<close> replaced by its capital and every other character kept.
\<close>

theorem field_resolution:
  "getValue row aliases = resolveField row aliases
   \<and> prnOf row = map_option toUpperCase (resolveField row [''prn number'', ''prn'', ''prnnumber''])
   \<and> nameOf row = resolveField row [''student name'', ''name'', ''studentname'']
   \<and> academicYearOf row = resolveField row [''academic year'', ''academicyear'']
   \<and> semesterOf row = resolveField row [''semester'']
   \<and> yearOf row = resolveField row [''year'']
   \<and> divisionOf row = resolveField row [''division'']
   \<and> rollNoOf row = resolveField row [''roll no'', ''rollno'', ''roll'']
   \<and> phoneOf row = resolveField row [''mobile number'', ''mobile'', ''phone'']
   \<and> emailOf row = resolveField row [''email id'', ''email'', ''emailid'']
   \<and> (\<forall>v. getValue row aliases = Some v \<longrightarrow> (\<exists>k cell. (k, cell) \<in> set row \<and> v = trim cell))
   \<and> (\<exists>pre post. cell = concat pre @ trim cell @ concat post
         \<and> set pre \<subseteq> set whiteSpace \<and> set post \<subseteq> set whiteSpace)
   \<and> (\<forall>w \<in> set whiteSpace. \<not> startsWith (trim cell) w \<and> \<not> startsWith (rev (trim cell)) (rev w))
   \<and> (list_all isAscii s \<longrightarrow> toUpperCase s = map capital s)
   \<and> (\<forall>v. resolveField row [''prn number'', ''prn'', ''prnnumber''] = Some v \<and> list_all isAscii v
         \<longrightarrow> prnOf row = Some (map capital v))"
proof -
  have a1: "getValue row aliases = resolveField row aliases"
    by (rule getValue_resolveField)
  have a2: "prnOf row = map_option toUpperCase (resolveField row [''prn number'', ''prn'', ''prnnumber''])"
    by (simp only: prnOf_def getValue_resolveField)
  have a3: "nameOf row = resolveField row [''student name'', ''name'', ''studentname'']"
    by (simp only: nameOf_def getValue_resolveField)
  have a4: "academicYearOf row = resolveField row [''academic year'', ''academicyear'']"
    by (simp only: academicYearOf_def getValue_resolveField)
  have a5: "semesterOf row = resolveField row [''semester'']"
    by (simp only: semesterOf_def getValue_resolveField)
  have a6: "yearOf row = resolveField row [''year'']"
    by (simp only: yearOf_def getValue_resolveField)
  have a7: "divisionOf row = resolveField row [''division'']"
    by (simp only: divisionOf_def getValue_resolveField)
  have a8: "rollNoOf row = resolveField row [''roll no'', ''rollno'', ''roll'']"
    by (simp only: rollNoOf_def getValue_resolveField)
  have a9: "phoneOf row = resolveField row [''mobile number'', ''mobile'', ''phone'']"
    by (simp only: phoneOf_def getValue_resolveField)
  have a10: "emailOf row = resolveField row [''email id'', ''email'', ''emailid'']"
    by (simp only: emailOf_def getValue_resolveField)
  have b: "\<forall>v. getValue row aliases = Some v \<longrightarrow> (\<exists>k cell. (k, cell) \<in> set row \<and> v = trim cell)"
    using getValue_cell by blast
  have c: "\<exists>pre post. cell = concat pre @ trim cell @ concat post
         \<and> set pre \<subseteq> set whiteSpace \<and> set post \<subseteq> set whiteSpace"
    by (rule trim_split)
  have d: "\<forall>w \<in> set whiteSpace. \<not> startsWith (trim cell) w \<and> \<not> startsWith (rev (trim cell)) (rev w)"
    using trim_clean by blast
  have e: "list_all isAscii s \<longrightarrow> toUpperCase s = map capital s"
    using toUpperCase_ascii by blast
  have f: "\<forall>v. resolveField row [''prn number'', ''prn'', ''prnnumber''] = Some v \<and> list_all isAscii v
         \<longrightarrow> prnOf row = Some (map capital v)"
    by (simp add: a2 toUpperCase_ascii)
  show ?thesis
    by (intro conjI a1 a2 a3 a4 a5 a6 a7 a8 a9 a10 b c d e f)
qed

text \<open>
  An instance. The alias \<open>prn number\<close> has no exact key and no key containing it, but the
  key \<open>my prn\<close> contains the second alias, and wins over the exact key of the third. Its
  cell is a no-break space (U+00A0), a space, \<open>ab12\<close>, the letter U+00E9 and a tabulator:
  the white space on both sides is stripped and the letters, also U+00E9, are put in upper
  case (U+00C9). No key matches any alias of the e-mail address.
\<close>

theorem field_resolution_witness:
  "resolveField exAliasRow [''prn number'', ''prn'', ''prnnumber'']
     = Some [CHR ''a'', CHR ''b'', CHR ''1'', CHR ''2'', CHR 0xC3, CHR 0xA9]
   \<and> prnOf exAliasRow = Some [CHR ''A'', CHR ''B'', CHR ''1'', CHR ''2'', CHR 0xC3, CHR 0x89]
   \<and> emailOf exAliasRow = None
   \<and> (\<exists>k cell. (k, cell) \<in> set exAliasRow
        \<and> [CHR ''a'', CHR ''b'', CHR ''1'', CHR ''2'', CHR 0xC3, CHR 0xA9] = trim cell)
   \<and> (\<exists>pre post. exCell
          = concat pre @ [CHR ''a'', CHR ''b'', CHR ''1'', CHR ''2'', CHR 0xC3, CHR 0xA9] @ concat post
        \<and> set pre \<subseteq> set whiteSpace \<and> set post \<subseteq> set whiteSpace)
   \<and> \<not> startsWith (trim exCell) '' '' \<and> \<not> startsWith (rev (trim exCell)) (rev [CHR 0x09])
   \<and> list_all isAscii ''ab12'' \<and> toUpperCase ''ab12'' = ''AB12''
   \<and> prnOf [(''prn'', '' ab12 '')] = Some ''AB12''"
proof -
  note t = field_resolution
    [of exAliasRow "[''prn number'', ''prn'', ''prnnumber'']" exCell "''ab12''"]
  note u = field_resolution
    [of "[(''prn'', '' ab12 '')]" "[''prn number'', ''prn'', ''prnnumber'']" exCell "''ab12''"]
  have g: "getValue exAliasRow [''prn number'', ''prn'', ''prnnumber'']
      = Some [CHR ''a'', CHR ''b'', CHR ''1'', CHR ''2'', CHR 0xC3, CHR 0xA9]"
    by (simp add: exAliasRow_def exCell_def trim_def whiteSpace_def)
  have tr: "trim exCell = [CHR ''a'', CHR ''b'', CHR ''1'', CHR ''2'', CHR 0xC3, CHR 0xA9]"
    by (simp add: exCell_def trim_def whiteSpace_def)
  have up: "toUpperCase [CHR ''a'', CHR ''b'', CHR ''1'', CHR ''2'', CHR 0xC3, CHR 0xA9]
      = [CHR ''A'', CHR ''B'', CHR ''1'', CHR ''2'', CHR 0xC3, CHR 0x89]"
    by (simp add: upperTable_def upperC3_def toUpperChar_def)
  have asc: "list_all isAscii ''ab12''"
    by simp
  have cap: "map capital ''ab12'' = ''AB12''"
    by (simp add: capital_def char_of_def bit_iff_odd)
  have sp: "'' '' \<in> set whiteSpace" "[CHR 0x09] \<in> set whiteSpace"
    by (simp_all add: whiteSpace_def)
  have g': "getValue [(''prn'', '' ab12 '')] [''prn number'', ''prn'', ''prnnumber''] = Some ''ab12''"
    by (simp add: trim_def whiteSpace_def)
  from t have t1: "getValue exAliasRow [''prn number'', ''prn'', ''prnnumber'']
      = resolveField exAliasRow [''prn number'', ''prn'', ''prnnumber'']"
    by (elim conjE)
  from t have t2: "prnOf exAliasRow
      = map_option toUpperCase (resolveField exAliasRow [''prn number'', ''prn'', ''prnnumber''])"
    by (elim conjE)
  from t have t10: "emailOf exAliasRow = resolveField exAliasRow [''email id'', ''email'', ''emailid'']"
    by (elim conjE)
  from t have tb: "\<forall>v. getValue exAliasRow [''prn number'', ''prn'', ''prnnumber''] = Some v
      \<longrightarrow> (\<exists>k cell. (k, cell) \<in> set exAliasRow \<and> v = trim cell)"
    by (elim conjE)
  from t have tc: "\<exists>pre post. exCell = concat pre @ trim exCell @ concat post
         \<and> set pre \<subseteq> set whiteSpace \<and> set post \<subseteq> set whiteSpace"
    by (elim conjE)
  from t have td: "\<forall>w \<in> set whiteSpace. \<not> startsWith (trim exCell) w
      \<and> \<not> startsWith (rev (trim exCell)) (rev w)"
    by (elim conjE)
  from t have te: "list_all isAscii ''ab12'' \<longrightarrow> toUpperCase ''ab12'' = map capital ''ab12''"
    by (elim conjE)
  from u have u1: "getValue [(''prn'', '' ab12 '')] [''prn number'', ''prn'', ''prnnumber'']
      = resolveField [(''prn'', '' ab12 '')] [''prn number'', ''prn'', ''prnnumber'']"
    by (elim conjE)
  from u have uf: "\<forall>v. resolveField [(''prn'', '' ab12 '')] [''prn number'', ''prn'', ''prnnumber''] = Some v
         \<and> list_all isAscii v \<longrightarrow> prnOf [(''prn'', '' ab12 '')] = Some (map capital v)"
    by (elim conjE)
  have r1: "resolveField exAliasRow [''prn number'', ''prn'', ''prnnumber'']
     = Some [CHR ''a'', CHR ''b'', CHR ''1'', CHR ''2'', CHR 0xC3, CHR 0xA9]"
    using t1 g by simp
  have r2: "prnOf exAliasRow = Some [CHR ''A'', CHR ''B'', CHR ''1'', CHR ''2'', CHR 0xC3, CHR 0x89]"
    using t2 r1 up by simp
  have "resolveField exAliasRow [''email id'', ''email'', ''emailid''] = None"
    by (simp add: resolveField_def aliasHit_def exAliasRow_def List.map_filter_simps)
  with t10 have r3: "emailOf exAliasRow = None"
    by simp
  have r4: "\<exists>k cell. (k, cell) \<in> set exAliasRow
        \<and> [CHR ''a'', CHR ''b'', CHR ''1'', CHR ''2'', CHR 0xC3, CHR 0xA9] = trim cell"
    using tb g by blast
  have r5: "\<exists>pre post. exCell
          = concat pre @ [CHR ''a'', CHR ''b'', CHR ''1'', CHR ''2'', CHR 0xC3, CHR 0xA9] @ concat post
        \<and> set pre \<subseteq> set whiteSpace \<and> set post \<subseteq> set whiteSpace"
    using tc unfolding tr .
  have r6: "\<not> startsWith (trim exCell) '' ''" "\<not> startsWith (rev (trim exCell)) (rev [CHR 0x09])"
    using td sp by blast+
  have r7: "toUpperCase ''ab12'' = ''AB12''"
    using te asc cap by simp
  have "resolveField [(''prn'', '' ab12 '')] [''prn number'', ''prn'', ''prnnumber''] = Some ''ab12''"
    unfolding u1 [symmetric] by (rule g')
  with uf asc have "prnOf [(''prn'', '' ab12 '')] = Some (map capital ''ab12'')"
    by blast
  with cap have r8: "prnOf [(''prn'', '' ab12 '')] = Some ''AB12''"
    by simp
  from r1 r2 r3 r4 r5 r6 asc r7 r8 show ?thesis
    by (intro conjI)
qed


section \<open>A write that throws (C8)\<close>

lemma persist_failure_label:
  assumes "studentDataOf row = Some d"
    and "persistError (roster st)
           (case findOne (roster st) (prn d) of
              Some existingStudent \<Rightarrow> updateExisting existingStudent d
            | None \<Rightarrow> newStudent d) = Some msg"
  shows "processRow persistError st row = recordError st (rowPrnOrUnknown row) msg"
proof (cases "findOne (roster st) (prn d)")
  case None
  with assms show ?thesis by (simp add: processRow_def persistRow_def)
next
  case (Some existingStudent)
  with assms show ?thesis by (simp add: processRow_def persistRow_def)
qed

text \<open>
  C8. When the write of a row throws, the exception is caught, an error is recorded for
  the row and the rows after it are still processed. The identifier recorded is the
  cell of the column named exactly \<open>prn\<close>, not the resolved identifier: a row whose
  identifier resolves from the column \<open>prn number\<close> to \<open>P7\<close> is recorded as \<open>Unknown\<close>.
  The row after it is created.
\<close>

theorem catch_label_is_raw_column:
  "prnOf [(''prn number'', ''p7''), (''student name'', ''Meera'')] = Some ''P7''
   \<and> errorLog (processRows (\<lambda>students doc. if prn doc = ''P7'' then Some ''Validation failed'' else None)
        \<lparr>roster = [], successCount = 0, updateCount = 0, errorCount = 0, errorLog = []\<rparr>
        [[(''prn number'', ''p7''), (''student name'', ''Meera'')],
         [(''prn number'', ''p8''), (''student name'', ''Nikhil'')]])
     = [(''Unknown'', ''Validation failed'')]
   \<and> map prn (roster (processRows (\<lambda>students doc. if prn doc = ''P7'' then Some ''Validation failed'' else None)
        \<lparr>roster = [], successCount = 0, updateCount = 0, errorCount = 0, errorLog = []\<rparr>
        [[(''prn number'', ''p7''), (''student name'', ''Meera'')],
         [(''prn number'', ''p8''), (''student name'', ''Nikhil'')]]))
     = [''P8'']"
  by (simp add: eval_defs)


section \<open>Running a batch again (C9)\<close>

text \<open>
  C9, as it stands, speaks of every batch. A write can throw, and then a second run need
  not repeat the first. With a store that requires a department, the first row of the
  example batch (an e-mail address, no division) is rejected when it would create the
  student, and the second row creates the student; in the second run the first row meets
  the student, is merged and sets the e-mail address. The second run changes a field
  value, and its error count is 0 where the first run's was 1.
\<close>

theorem rerun_changes_roster:
  "fst (uploadStudentsCSV requiresDepartment
          (fst (uploadStudentsCSV requiresDepartment [] exRetryRows)) exRetryRows)
     \<noteq> fst (uploadStudentsCSV requiresDepartment [] exRetryRows)
   \<and> map email (fst (uploadStudentsCSV requiresDepartment [] exRetryRows)) = [None]
   \<and> map email (fst (uploadStudentsCSV requiresDepartment
          (fst (uploadStudentsCSV requiresDepartment [] exRetryRows)) exRetryRows))
       = [Some ''a@x.org'']
   \<and> errors (snd (uploadStudentsCSV requiresDepartment [] exRetryRows)) = 1
   \<and> errors (snd (uploadStudentsCSV requiresDepartment
          (fst (uploadStudentsCSV requiresDepartment [] exRetryRows)) exRetryRows)) = 0"
  by (simp add: exRetry_first exRetry_second)

text \<open>
  C9, amended. When no write throws, reconciliation is idempotent: running a batch and
  then the same batch again leaves the roster that the first run left, field values and
  ledgers included; in the second run no student is created, every valid row takes the
  update path, and the same rows are rejected.
\<close>

theorem rerun_idempotent:
  assumes "\<forall>students doc. persistError students doc = None"
  shows "let first = uploadStudentsCSV persistError students results;
             second = uploadStudentsCSV persistError (fst first) results
         in fst second = fst first
          \<and> newStudents (snd second) = 0
          \<and> updatedStudents (snd second)
              = length (filter (\<lambda>row. truthy (prnOf row) \<and> truthy (nameOf row)) results)
          \<and> errors (snd second) = errors (snd first)"
proof -
  let ?ds = "List.map_filter studentDataOf results"
  let ?r1 = "foldl applyData students ?ds"
  let ?st1 = "\<lparr>roster = students, successCount = 0, updateCount = 0, errorCount = 0, errorLog = []\<rparr>"
  let ?st2 = "\<lparr>roster = ?r1, successCount = 0, updateCount = 0, errorCount = 0, errorLog = []\<rparr>"
  have r1: "fst (uploadStudentsCSV persistError students results) = ?r1"
    using processRows_roster [OF assms, of ?st1 results] by (simp add: uploadStudentsCSV_parts)
  have r2: "roster (processRows persistError ?st2 results) = ?r1"
    using processRows_roster [OF assms, of ?st2 results] by (simp add: foldl_applyData_idem)
  have "prn ` set ?ds \<subseteq> prn ` set (roster ?st2)"
    by (simp add: prn_set_foldl_applyData)
  then have new: "successCount (processRows persistError ?st2 results) = 0"
    using processRows_known [OF assms, of results ?st2] by simp
  have valid: "length (filter (\<lambda>row. truthy (prnOf row) \<and> truthy (nameOf row)) results)
      = length (filter (\<lambda>row. studentDataOf row \<noteq> None) results)"
    by (simp add: studentDataOf_None_iff)
  have upd: "updateCount (processRows persistError ?st2 results)
      = length (filter (\<lambda>row. studentDataOf row \<noteq> None) results)"
    using processRows_persisted [OF assms, of ?st2 results] new by simp
  have errs: "errorCount (processRows persistError ?st2 results)
      = errorCount (processRows persistError ?st1 results)"
    by (simp add: processRows_errorCount [OF assms])
  show ?thesis
    unfolding Let_def r1
    using r2 new upd errs by (simp add: uploadStudentsCSV_parts valid)
qed

text \<open>An instance: the example batch, run twice against the example student.\<close>

theorem rerun_idempotent_witness:
  "fst (uploadStudentsCSV alwaysPersists
          (fst (uploadStudentsCSV alwaysPersists [exStudent] exRows)) exRows)
     = fst (uploadStudentsCSV alwaysPersists [exStudent] exRows)
   \<and> newStudents (snd (uploadStudentsCSV alwaysPersists
          (fst (uploadStudentsCSV alwaysPersists [exStudent] exRows)) exRows)) = 0
   \<and> updatedStudents (snd (uploadStudentsCSV alwaysPersists
          (fst (uploadStudentsCSV alwaysPersists [exStudent] exRows)) exRows)) = 2"
  using rerun_idempotent [OF alwaysPersists_never, of "[exStudent]" exRows]
  by (simp only: Let_def exRows_valid)


section \<open>The department field (C10)\<close>

lemma labels_drop_department:
  "prnOrNA (filter (\<lambda>kv. fst kv \<noteq> ''department'') row) = prnOrNA row"
  "rowPrnOrUnknown (filter (\<lambda>kv. fst kv \<noteq> ''department'') row) = rowPrnOrUnknown row"
  by (simp_all add: prnOrNA_def rowPrnOrUnknown_def resolutions_drop_department map_of_filter_key)

text \<open>
  C10. During ingestion the department of a student is the resolved division. When the
  division resolves to a non-empty value, \<^verbatim>\<open>studentData\<close> carries it as division and as
  department, a student created from the row has it as department, and so has an
  existing student after the update. When no division is resolved, or an empty one,
  \<^verbatim>\<open>studentData\<close> has neither, a student created from the row has no department, and
  an existing student keeps the department it had. A column named \<open>department\<close> is
  never consulted by any alias lookup: the row without that column gives the same
  \<^verbatim>\<open>studentData\<close>, and the whole loop body does the same on it, whatever the column held.
\<close>

theorem department_from_division:
  "(\<forall>d v. studentDataOf row = Some d \<longrightarrow> divisionOf row = Some v \<longrightarrow> v \<noteq> []
        \<longrightarrow> department d = Some v \<and> division d = Some v
          \<and> department (newStudent d) = Some v
          \<and> (\<forall>e. department (updateExisting e d) = Some v))
   \<and> (\<forall>d. studentDataOf row = Some d \<longrightarrow> (divisionOf row = None \<or> divisionOf row = Some [])
        \<longrightarrow> department d = None \<and> division d = None
          \<and> department (newStudent d) = None
          \<and> (\<forall>e. department (updateExisting e d) = department e))
   \<and> studentDataOf (filter (\<lambda>kv. fst kv \<noteq> ''department'') row) = studentDataOf row
   \<and> processRow persistError st (filter (\<lambda>kv. fst kv \<noteq> ''department'') row)
       = processRow persistError st row"
proof -
  have present: "department d = Some v \<and> division d = Some v
      \<and> department (newStudent d) = Some v
      \<and> (\<forall>e. department (updateExisting e d) = Some v)"
    if "studentDataOf row = Some d" "divisionOf row = Some v" "v \<noteq> []" for d v
    using that studentDataOf_Some_fields(6,8) [of row d]
    by (simp add: orUndefined_def newStudent_def pick_def)
  have absent: "department d = None \<and> division d = None
      \<and> department (newStudent d) = None
      \<and> (\<forall>e. department (updateExisting e d) = department e)"
    if "studentDataOf row = Some d" "divisionOf row = None \<or> divisionOf row = Some []" for d
    using that studentDataOf_Some_fields(6,8) [of row d]
    by (auto simp: orUndefined_def newStudent_def pick_def)
  have "processRow persistError st (filter (\<lambda>kv. fst kv \<noteq> ''department'') row)
       = processRow persistError st row"
    by (simp add: processRow_def persistRow_def studentDataOf_drop_department labels_drop_department
        cong: option.case_cong)
  with present absent show ?thesis
    by (simp only: studentDataOf_drop_department) blast
qed

text \<open>
  Instances: a row with a \<open>department\<close> column and a \<open>division\<close> column gives the
  division as department; a file in the format \<open>prn,name,department\<close> gives a student
  without department, the same as the file without that column.
\<close>

theorem department_from_division_witness:
  "(\<exists>d. studentDataOf exDivisionRow = Some d \<and> department d = Some ''B'' \<and> division d = Some ''B'')
   \<and> (\<exists>d. studentDataOf [(''prn'', ''p1''), (''name'', ''Asha''), (''department'', ''Computer'')] = Some d
        \<and> department d = None)
   \<and> studentDataOf [(''prn'', ''p1''), (''name'', ''Asha''), (''department'', ''Computer'')]
     = studentDataOf [(''prn'', ''p1''), (''name'', ''Asha'')]"
proof -
  note t1 = department_from_division [of exDivisionRow]
  note t2 = department_from_division
      [of "[(''prn'', ''p1''), (''name'', ''Asha''), (''department'', ''Computer'')]"]
  have a: "department d = Some ''B'' \<and> division d = Some ''B''"
    if "studentDataOf exDivisionRow = Some d" for d
    using t1 [THEN conjunct1, rule_format, OF that exDivisionRow_data(2)] by simp
  have nodiv: "divisionOf [(''prn'', ''p1''), (''name'', ''Asha''), (''department'', ''Computer'')] = None"
    by (simp add: divisionOf_def)
  have b: "department d = None"
    if "studentDataOf [(''prn'', ''p1''), (''name'', ''Asha''), (''department'', ''Computer'')] = Some d" for d
    using t2 [THEN conjunct2, THEN conjunct1, rule_format, OF that] nodiv by simp
  have "studentDataOf (filter (\<lambda>kv. fst kv \<noteq> ''department'')
         [(''prn'', ''p1''), (''name'', ''Asha''), (''department'', ''Computer'')])
     = studentDataOf [(''prn'', ''p1''), (''name'', ''Asha''), (''department'', ''Computer'')]"
    using t2 by (simp only:)
  moreover have "filter (\<lambda>kv. fst kv \<noteq> ''department'')
         [(''prn'', ''p1''), (''name'', ''Asha''), (''department'', ''Computer'')]
     = [(''prn'', ''p1''), (''name'', ''Asha'')]"
    by simp
  ultimately have c: "studentDataOf [(''prn'', ''p1''), (''name'', ''Asha'')]
     = studentDataOf [(''prn'', ''p1''), (''name'', ''Asha''), (''department'', ''Computer'')]"
    by (simp only:)
  show ?thesis
    using a [OF exDivisionRow_data(1)] b [OF ex_dept_row] c
    by (simp add: exDivisionRow_data(1) ex_dept_row)
qed

end
